theory Spec2Isabelle
  imports Complex_Main
begin

section \<open>BOM parts sourcing: the selection engine and the BOM row interpreter\<close>

text \<open>
  The development embeds \<^verbatim>\<open>src/app/api/bom-upload/route.ts\<close> and
  \<^verbatim>\<open>src/lib/parts-search.ts\<close>, and what the later revision of the latter that the
  repository holds (\<^verbatim>\<open>unnamed/part_001\<close>) changes in the adapters.

  Conventions of the embedding.
  \<^item> A JavaScript number is an exact real, an infinity or \<^verbatim>\<open>NaN\<close>. A number that is
    parsed or computed overflows to an infinity beyond the range of doubles; rounding
    inside that range is not modelled. The fields of the typed part record are reals.
  \<^item> A JavaScript string is a \<open>string\<close>; the embedding is exact on ASCII text
    (case mapping and white space are the ASCII ones).
  \<^item> An optional field \<^verbatim>\<open>f?: string\<close> is a \<open>string option\<close>, \<open>None\<close> standing for
    \<^verbatim>\<open>undefined\<close>.
\<close>

subsection \<open>Strings\<close>

definition isDigit :: "char \<Rightarrow> bool" where
  "isDigit c \<longleftrightarrow> c \<in> set ''0123456789''"

text \<open>A word character of a regular expression without the \<^verbatim>\<open>u\<close> flag: \<^verbatim>\<open>[A-Za-z0-9_]\<close>.\<close>

definition isWordChar :: "char \<Rightarrow> bool" where
  "isWordChar c \<longleftrightarrow>
     c \<in> set ''ABCDEFGHIJKLMNOPQRSTUVWXYZabcdefghijklmnopqrstuvwxyz0123456789_''"

text \<open>White space: tab, line feed, vertical tab, form feed, carriage return, space.\<close>

definition isSpace :: "char \<Rightarrow> bool" where
  "isSpace c \<longleftrightarrow> c \<in> set [CHR 0x09, CHR 0x0A, CHR 0x0B, CHR 0x0C, CHR 0x0D, CHR '' '']"

definition upper_char :: "char \<Rightarrow> char" where
  "upper_char c =
     (case map_of (zip ''abcdefghijklmnopqrstuvwxyz'' ''ABCDEFGHIJKLMNOPQRSTUVWXYZ'') c of
        Some u \<Rightarrow> u | None \<Rightarrow> c)"

definition lower_char :: "char \<Rightarrow> char" where
  "lower_char c =
     (case map_of (zip ''ABCDEFGHIJKLMNOPQRSTUVWXYZ'' ''abcdefghijklmnopqrstuvwxyz'') c of
        Some l \<Rightarrow> l | None \<Rightarrow> c)"

definition toUpperCase :: "string \<Rightarrow> string" where
  "toUpperCase s = map upper_char s"

definition toLowerCase :: "string \<Rightarrow> string" where
  "toLowerCase s = map lower_char s"

definition trimStart :: "string \<Rightarrow> string" where
  "trimStart s = dropWhile isSpace s"

definition trimEnd :: "string \<Rightarrow> string" where
  "trimEnd s = rev (dropWhile isSpace (rev s))"

definition trim :: "string \<Rightarrow> string" where
  "trim s = trimEnd (trimStart s)"

definition startsWith :: "string \<Rightarrow> string \<Rightarrow> bool" where
  "startsWith s p \<longleftrightarrow> take (length p) s = p"

fun includes_str :: "string \<Rightarrow> string \<Rightarrow> bool" where
  "includes_str [] k \<longleftrightarrow> k = []"
| "includes_str (c # cs) k \<longleftrightarrow> startsWith (c # cs) k \<or> includes_str cs k"

text \<open>\<^verbatim>\<open>s.split(sep)\<close> for a separator of one character.\<close>

fun split_on :: "char \<Rightarrow> string \<Rightarrow> string list" where
  "split_on sep [] = [[]]"
| "split_on sep (c # cs) =
     (if c = sep then [] # split_on sep cs
      else (case split_on sep cs of f # fs \<Rightarrow> (c # f) # fs | [] \<Rightarrow> [[c]]))"

subsection \<open>Numbers\<close>

text \<open>
  A number of the run time: a finite value, one of the two infinities, or \<^verbatim>\<open>NaN\<close>.
  Finite values are exact reals.
\<close>

datatype jsnum = NaN | Fin real | PosInf | NegInf

text \<open>
  The number value of a real that a computation or a parse yields. \<open>2^1024 - 2^970\<close>
  is the least real that rounds to \<^verbatim>\<open>Infinity\<close>.
\<close>

definition overflow_bound :: real where
  "overflow_bound = 2 ^ 1024 - 2 ^ 970"

definition number_of_real :: "real \<Rightarrow> jsnum" where
  "number_of_real r =
     (if overflow_bound \<le> r then PosInf else if r \<le> - overflow_bound then NegInf else Fin r)"

fun num_neg :: "jsnum \<Rightarrow> jsnum" where
  "num_neg NaN = NaN"
| "num_neg (Fin a) = Fin (- a)"
| "num_neg PosInf = NegInf"
| "num_neg NegInf = PosInf"

fun num_add :: "jsnum \<Rightarrow> jsnum \<Rightarrow> jsnum" where
  "num_add NaN b = NaN"
| "num_add a NaN = NaN"
| "num_add (Fin a) (Fin b) = number_of_real (a + b)"
| "num_add (Fin a) b = b"
| "num_add a (Fin b) = a"
| "num_add PosInf PosInf = PosInf"
| "num_add NegInf NegInf = NegInf"
| "num_add PosInf NegInf = NaN"
| "num_add NegInf PosInf = NaN"

definition num_sub :: "jsnum \<Rightarrow> jsnum \<Rightarrow> jsnum" where
  "num_sub a b = num_add a (num_neg b)"

text \<open>The sign of a number that is not \<^verbatim>\<open>NaN\<close>: \<open>-1\<close>, \<open>0\<close> or \<open>1\<close>.\<close>

fun num_sgn :: "jsnum \<Rightarrow> real" where
  "num_sgn NaN = 0"
| "num_sgn (Fin a) = sgn a"
| "num_sgn PosInf = 1"
| "num_sgn NegInf = - 1"

fun num_mul :: "jsnum \<Rightarrow> jsnum \<Rightarrow> jsnum" where
  "num_mul NaN b = NaN"
| "num_mul a NaN = NaN"
| "num_mul (Fin a) (Fin b) = number_of_real (a * b)"
| "num_mul a b =
     (if num_sgn a * num_sgn b = 0 then NaN
      else if num_sgn a * num_sgn b > 0 then PosInf else NegInf)"

fun num_less :: "jsnum \<Rightarrow> jsnum \<Rightarrow> bool" where
  "num_less NaN b = False"
| "num_less a NaN = False"
| "num_less (Fin a) (Fin b) = (a < b)"
| "num_less NegInf b = (b \<noteq> NegInf)"
| "num_less a PosInf = (a \<noteq> PosInf)"
| "num_less a b = False"

text \<open>
  The integer that \<^verbatim>\<open>parseInt(s)\<close> reads, without a radix: leading white space is
  skipped, a sign is read, a prefix \<^verbatim>\<open>0x\<close> or \<^verbatim>\<open>0X\<close> selects base 16, and the
  longest run of digits of the base is the value; there is none (\<open>None\<close>) without such a
  digit.
\<close>

definition digit_value :: "char \<Rightarrow> nat option" where
  "digit_value c =
     map_of [(CHR ''0'', 0), (CHR ''1'', 1), (CHR ''2'', 2), (CHR ''3'', 3), (CHR ''4'', 4),
             (CHR ''5'', 5), (CHR ''6'', 6), (CHR ''7'', 7), (CHR ''8'', 8), (CHR ''9'', 9),
             (CHR ''a'', 10), (CHR ''b'', 11), (CHR ''c'', 12), (CHR ''d'', 13), (CHR ''e'', 14),
             (CHR ''f'', 15), (CHR ''A'', 10), (CHR ''B'', 11), (CHR ''C'', 12), (CHR ''D'', 13),
             (CHR ''E'', 14), (CHR ''F'', 15)] c"

definition is_radix_digit :: "nat \<Rightarrow> char \<Rightarrow> bool" where
  "is_radix_digit radix c = (case digit_value c of None \<Rightarrow> False | Some d \<Rightarrow> d < radix)"

definition digits_value :: "nat \<Rightarrow> string \<Rightarrow> nat" where
  "digits_value radix ds = foldl (\<lambda>acc c. acc * radix + (case digit_value c of None \<Rightarrow> 0 | Some d \<Rightarrow> d)) 0 ds"

definition parsed_integer :: "string \<Rightarrow> int option" where
  "parsed_integer s =
    (let s1 = trimStart s;
         negative = startsWith s1 ''-'';
         s2 = (if startsWith s1 ''-'' \<or> startsWith s1 ''+'' then drop 1 s1 else s1);
         hex = (startsWith s2 ''0x'' \<or> startsWith s2 ''0X'');
         radix = (if hex then 16 else 10);
         s3 = (if hex then drop 2 s2 else s2);
         ds = takeWhile (is_radix_digit radix) s3
     in if ds = [] then None
        else Some ((if negative then - 1 else 1) * int (digits_value radix ds)))"

text \<open>
  \<^verbatim>\<open>parseInt(s)\<close>: \<^verbatim>\<open>NaN\<close> when no integer can be read, else the number value of
  the integer read, which is an infinity for a run of digits beyond the range of doubles.
\<close>

definition parseInt :: "string \<Rightarrow> jsnum" where
  "parseInt s = (case parsed_integer s of None \<Rightarrow> NaN | Some i \<Rightarrow> number_of_real (of_int i))"

subsection \<open>The normalized part record\<close>

text \<open>\<^verbatim>\<open>interface PartSearchResult\<close> of parts-search.ts, with the declared field types.\<close>

record PartSearchResult =
  supplier :: string
  partNumber :: string
  manufacturer :: string
  manufacturerPartNumber :: string
  description :: string
  value' :: string
  footprint :: string
  stock :: real
  price :: real
  currency :: string
  url :: string
  datasheet :: string
  lcscPart :: "string option"
  image' :: "string option"
  package :: "string option"
  specifications :: "(string \<times> string) list option"

text \<open>Truthiness of a string (\<^verbatim>\<open>if (s)\<close>) and of an optional string.\<close>

definition truthy_str :: "string \<Rightarrow> bool" where
  "truthy_str s \<longleftrightarrow> s \<noteq> []"

definition truthy_opt :: "string option \<Rightarrow> bool" where
  "truthy_opt x = (case x of None \<Rightarrow> False | Some s \<Rightarrow> truthy_str s)"

subsection \<open>Scoring\<close>

text \<open>
  \<^verbatim>\<open>scoreJLCPCBPart\<close> (route.ts, lines 156-174). The source accumulates into a local
  \<^verbatim>\<open>score\<close>; each \<open>let\<close> below is one of its statements, in order.
\<close>

definition scoreJLCPCBPart :: "PartSearchResult \<Rightarrow> real" where
  "scoreJLCPCBPart part =
    (let score = 0;
         score = (if stock part > 0 then score + 1000 else score);
         score = score + min (stock part / 100000) 100;
         score = (if price part > 0 then score + max 0 (50 - price part * 10) else score);
         score = (if truthy_opt (lcscPart part) then score + 50 else score)
     in score)"

text \<open>\<^verbatim>\<open>scoreDistributorPart\<close> (route.ts, lines 177-195).\<close>

definition scoreDistributorPart :: "PartSearchResult \<Rightarrow> real" where
  "scoreDistributorPart part =
    (let score = 0;
         score = (if stock part > 0 then score + 1000 else score);
         score = score + min (stock part / 100000) 100;
         score = (if price part > 0 then score + max 0 (50 - price part * 10) else score);
         score = (if truthy_str (datasheet part) then score + 20 else score)
     in score)"

text \<open>
  The scoring formulas as section 4.4 of the specification words them, with the Iverson
  bracket \<open>[b]\<close> written \<open>of_bool b\<close>.
\<close>

definition spec_score_common :: "PartSearchResult \<Rightarrow> real" where
  "spec_score_common p =
     1000 * of_bool (stock p > 0) + min (stock p / 100000) 100
       + (if price p > 0 then max 0 (50 - price p * 10) else 0)"

definition spec_score_free_catalog :: "PartSearchResult \<Rightarrow> real" where
  "spec_score_free_catalog p =
     spec_score_common p
       + 50 * of_bool (case lcscPart p of None \<Rightarrow> False | Some c \<Rightarrow> c \<noteq> [])"

definition spec_score_distributor :: "PartSearchResult \<Rightarrow> real" where
  "spec_score_distributor p =
     spec_score_common p + 20 * of_bool (datasheet p \<noteq> [])"

subsection \<open>Selection cascade\<close>

text \<open>
  \<^verbatim>\<open>Array.prototype.sort\<close> with a comparator: the sort is stable, so for a consistent
  comparator its result is the one of a stable insertion sort. An element goes in front
  of the first later element it does not compare greater than.
\<close>

fun js_insort :: "('a \<Rightarrow> 'a \<Rightarrow> real) \<Rightarrow> 'a \<Rightarrow> 'a list \<Rightarrow> 'a list" where
  "js_insort cmp x [] = [x]"
| "js_insort cmp x (y # ys) = (if cmp x y \<le> 0 then x # y # ys else y # js_insort cmp x ys)"

definition js_sort :: "('a \<Rightarrow> 'a \<Rightarrow> real) \<Rightarrow> 'a list \<Rightarrow> 'a list" where
  "js_sort cmp xs = foldr (js_insort cmp) xs []"

text \<open>
  \<^verbatim>\<open>xs.map(p => ({ part: p, score: f(p) })).sort((a, b) => b.score - a.score)\<close>:
  the scored candidates, best first.
\<close>

definition scored_desc :: "(PartSearchResult \<Rightarrow> real) \<Rightarrow> PartSearchResult list
    \<Rightarrow> (PartSearchResult \<times> real) list" where
  "scored_desc f xs = js_sort (\<lambda>a b. snd b - snd a) (map (\<lambda>p. (p, f p)) xs)"

text \<open>
  The notes are template strings. \<^verbatim>\<open>toLocaleString\<close> depends on the locale of the
  host, so the rendering of a stock figure is a parameter; an absent cross-reference id
  is rendered by the template as \<^verbatim>\<open>undefined\<close>.
\<close>

definition render_opt :: "string option \<Rightarrow> string" where
  "render_opt x = (case x of None \<Rightarrow> ''undefined'' | Some s \<Rightarrow> s)"

definition note_jlcpcb :: "(real \<Rightarrow> string) \<Rightarrow> PartSearchResult \<Rightarrow> string" where
  "note_jlcpcb toLocaleString best =
     ''Matched via JLCPCB (LCSC: '' @ render_opt (lcscPart best) @ '', Stock: ''
       @ toLocaleString (stock best) @ '')''"

definition note_distributor :: "string \<Rightarrow> (real \<Rightarrow> string) \<Rightarrow> PartSearchResult \<Rightarrow> string" where
  "note_distributor name toLocaleString best =
     ''Matched via '' @ name @ '' ('' @ partNumber best @ '', Stock: ''
       @ toLocaleString (stock best) @ '')''"

text \<open>
  \<^verbatim>\<open>selectBestPart\<close> (route.ts, lines 198-249). The result object
  \<^verbatim>\<open>{ part, notes }\<close> is a pair; \<^verbatim>\<open>part: null\<close> is \<open>None\<close>. As in the source,
  \<^verbatim>\<open>scored[0]\<close> is read only behind the length test of its stage.
\<close>

definition selectBestPart :: "(real \<Rightarrow> string) \<Rightarrow> PartSearchResult list \<Rightarrow> PartSearchResult list
    \<Rightarrow> PartSearchResult list \<Rightarrow> PartSearchResult option \<times> string" where
  "selectBestPart toLocaleString jlcpcbResults digikeyResults mouserResults =
    (let scored = scored_desc scoreJLCPCBPart jlcpcbResults in
     if length jlcpcbResults > 0 \<and> snd (hd scored) > 0
     then (let best = fst (hd scored) in (Some best, note_jlcpcb toLocaleString best))
     else
    (let scored = scored_desc scoreDistributorPart digikeyResults in
     if length digikeyResults > 0 \<and> snd (hd scored) > 0
     then (let best = fst (hd scored) in
             (Some best, note_distributor ''Digi-Key'' toLocaleString best))
     else
    (let scored = scored_desc scoreDistributorPart mouserResults in
     if length mouserResults > 0 \<and> snd (hd scored) > 0
     then (let best = fst (hd scored) in
             (Some best, note_distributor ''Mouser'' toLocaleString best))
     else (None, ''No matches found''))))"

subsection \<open>JavaScript values of the upstream payloads\<close>

text \<open>
  A value as \<^verbatim>\<open>response.json()\<close> can produce it, and \<^verbatim>\<open>undefined\<close>, which reading a
  missing property gives. An object is the list of its own properties.
\<close>

datatype jsval =
    Undefined
  | Null
  | Bool bool
  | Num jsnum
  | Str string
  | Arr "jsval list"
  | Obj "(string \<times> jsval) list"

datatype js_error = TypeError | SyntaxError | FetchError | Error string

text \<open>Truthiness, \<^verbatim>\<open>a || b\<close>, and the values on which a property access throws.\<close>

fun truthy :: "jsval \<Rightarrow> bool" where
  "truthy Undefined = False"
| "truthy Null = False"
| "truthy (Bool b) = b"
| "truthy (Num n) = (n \<noteq> NaN \<and> n \<noteq> Fin 0)"
| "truthy (Str s) = (s \<noteq> [])"
| "truthy (Arr xs) = True"
| "truthy (Obj kvs) = True"

definition or_else :: "jsval \<Rightarrow> jsval \<Rightarrow> jsval" where
  "or_else a b = (if truthy a then a else b)"

definition nullish :: "jsval \<Rightarrow> bool" where
  "nullish v \<longleftrightarrow> v = Undefined \<or> v = Null"

text \<open>
  \<^verbatim>\<open>v.k\<close> for a named property \<open>k\<close> of a value that is not nullish. The adapters read
  data properties only, none of which has the name of a method of a prototype, so a
  property that is not an own property reads as \<^verbatim>\<open>undefined\<close>; \<^verbatim>\<open>length\<close> is an own
  property of arrays and strings.
\<close>

fun property :: "jsval \<Rightarrow> string \<Rightarrow> jsval" where
  "property (Obj kvs) k = (case map_of kvs k of None \<Rightarrow> Undefined | Some v \<Rightarrow> v)"
| "property (Arr xs) k = (if k = ''length'' then Num (Fin (real (length xs))) else Undefined)"
| "property (Str s) k = (if k = ''length'' then Num (Fin (real (length s))) else Undefined)"
| "property v k = Undefined"

text \<open>\<^verbatim>\<open>v.k\<close> with the \<^verbatim>\<open>TypeError\<close> of a nullish \<open>v\<close>, and \<^verbatim>\<open>v?.k\<close>.\<close>

definition get :: "jsval \<Rightarrow> string \<Rightarrow> js_error + jsval" where
  "get v k = (if nullish v then Inl TypeError else Inr (property v k))"

definition opt_chain :: "jsval \<Rightarrow> string \<Rightarrow> jsval" where
  "opt_chain v k = (if nullish v then Undefined else property v k)"

text \<open>\<^verbatim>\<open>v[0]\<close> for a value that is not nullish.\<close>

fun index0 :: "jsval \<Rightarrow> jsval" where
  "index0 (Arr (x # xs)) = x"
| "index0 (Str (c # cs)) = Str [c]"
| "index0 (Obj kvs) = (case map_of kvs ''0'' of None \<Rightarrow> Undefined | Some v \<Rightarrow> v)"
| "index0 v = Undefined"

text \<open>Sequencing of computations that may throw.\<close>

definition and_then :: "js_error + 'a \<Rightarrow> ('a \<Rightarrow> js_error + 'b) \<Rightarrow> js_error + 'b" where
  "and_then m f = (case m of Inl e \<Rightarrow> Inl e | Inr x \<Rightarrow> f x)"

fun all_or_error :: "(js_error + 'a) list \<Rightarrow> js_error + 'a list" where
  "all_or_error [] = Inr []"
| "all_or_error (m # ms) =
     (case m of Inl e \<Rightarrow> Inl e
      | Inr x \<Rightarrow> (case all_or_error ms of Inl e \<Rightarrow> Inl e | Inr xs \<Rightarrow> Inr (x # xs)))"

text \<open>
  \<^verbatim>\<open>String(v)\<close>, also the conversion of a template literal. The decimal rendering of a
  finite number is that of the double and is not determined by its real value, so it is a
  parameter. An array is rendered by \<^verbatim>\<open>join\<close>, which renders \<^verbatim>\<open>null\<close> and
  \<^verbatim>\<open>undefined\<close> elements as empty. An object is rendered by \<^verbatim>\<open>Object.prototype.toString\<close>
  unless it has an own property \<^verbatim>\<open>toString\<close>, which in a parsed payload is never callable:
  the conversion then throws.
\<close>

definition num_to_string :: "(real \<Rightarrow> string) \<Rightarrow> jsnum \<Rightarrow> string" where
  "num_to_string n2s n =
     (case n of NaN \<Rightarrow> ''NaN'' | Fin r \<Rightarrow> n2s r | PosInf \<Rightarrow> ''Infinity'' | NegInf \<Rightarrow> ''-Infinity'')"

fun join_comma :: "string list \<Rightarrow> string" where
  "join_comma [] = []"
| "join_comma [s] = s"
| "join_comma (s # t # ss) = s @ '','' @ join_comma (t # ss)"

fun ToString :: "(real \<Rightarrow> string) \<Rightarrow> jsval \<Rightarrow> js_error + string" where
  "ToString n2s Undefined = Inr ''undefined''"
| "ToString n2s Null = Inr ''null''"
| "ToString n2s (Bool b) = Inr (if b then ''true'' else ''false'')"
| "ToString n2s (Num n) = Inr (num_to_string n2s n)"
| "ToString n2s (Str s) = Inr s"
| "ToString n2s (Arr xs) =
     and_then (all_or_error (map (\<lambda>x. if nullish x then Inr [] else ToString n2s x) xs))
       (\<lambda>ss. Inr (join_comma ss))"
| "ToString n2s (Obj kvs) =
     (if map_of kvs ''toString'' \<noteq> None then Inl TypeError else Inr ''[object Object]'')"

text \<open>
  The longest prefix of a string that is a \<^verbatim>\<open>StrDecimalLiteral\<close>, with its value and the
  rest of the string: a sign, then \<^verbatim>\<open>Infinity\<close> or digits with an optional fraction and
  an optional exponent. An exponent mark counts only when digits follow it.
\<close>

definition pow10 :: "int \<Rightarrow> real" where
  "pow10 e = (if e \<ge> 0 then 10 ^ nat e else 1 / 10 ^ nat (- e))"

definition parse_exponent :: "string \<Rightarrow> int \<times> string" where
  "parse_exponent s =
    (case s of
       c # cs \<Rightarrow>
        if c = CHR ''e'' \<or> c = CHR ''E'' then
          (let negative = startsWith cs ''-'';
               ds0 = (if startsWith cs ''-'' \<or> startsWith cs ''+'' then drop 1 cs else cs);
               ds = takeWhile isDigit ds0
           in if ds = [] then (0, s)
              else ((if negative then - 1 else 1) * int (digits_value 10 ds), dropWhile isDigit ds0))
        else (0, s)
     | [] \<Rightarrow> (0, s))"

definition parse_unsigned_decimal :: "string \<Rightarrow> (jsnum \<times> string) option" where
  "parse_unsigned_decimal s =
    (if startsWith s ''Infinity'' then Some (PosInf, drop 8 s)
     else
      (let ip = takeWhile isDigit s;
           s1 = dropWhile isDigit s;
           dot = startsWith s1 ''.'';
           fp = (if dot then takeWhile isDigit (drop 1 s1) else []);
           s2 = (if dot then dropWhile isDigit (drop 1 s1) else s1)
       in if ip = [] \<and> fp = [] then None
          else
           (case parse_exponent s2 of
              (e, rest) \<Rightarrow>
                Some (number_of_real (real (digits_value 10 (ip @ fp)) * pow10 (e - int (length fp))),
                      rest))))"

definition parse_decimal :: "string \<Rightarrow> (jsnum \<times> string) option" where
  "parse_decimal s =
    (let negative = startsWith s ''-'';
         s1 = (if startsWith s ''-'' \<or> startsWith s ''+'' then drop 1 s else s)
     in case parse_unsigned_decimal s1 of
          None \<Rightarrow> None
        | Some (v, rest) \<Rightarrow> Some (if negative then num_neg v else v, rest))"

text \<open>\<^verbatim>\<open>parseFloat(s)\<close> for a string.\<close>

definition parseFloat :: "string \<Rightarrow> jsnum" where
  "parseFloat s = (case parse_decimal (trimStart s) of None \<Rightarrow> NaN | Some (v, rest) \<Rightarrow> v)"

text \<open>
  The conversion of a string to a number (\<^verbatim>\<open>StringToNumber\<close>): the trimmed string must be
  empty, a literal of base 16, 2 or 8 with its prefix, or a decimal literal as a whole.
\<close>

definition radix_literal :: "string \<Rightarrow> nat option" where
  "radix_literal s =
    (let radix = (if startsWith s ''0x'' \<or> startsWith s ''0X'' then Some 16
                  else if startsWith s ''0b'' \<or> startsWith s ''0B'' then Some 2
                  else if startsWith s ''0o'' \<or> startsWith s ''0O'' then Some 8
                  else None)
     in case radix of
          None \<Rightarrow> None
        | Some r \<Rightarrow> if drop 2 s \<noteq> [] \<and> list_all (is_radix_digit r) (drop 2 s)
                    then Some (digits_value r (drop 2 s)) else None)"

definition StringToNumber :: "string \<Rightarrow> jsnum" where
  "StringToNumber s =
    (let t = trim s in
     if t = [] then Fin 0
     else case radix_literal t of
            Some n \<Rightarrow> number_of_real (real n)
          | None \<Rightarrow> (case parse_decimal t of Some (v, []) \<Rightarrow> v | _ \<Rightarrow> NaN))"

text \<open>
  \<^verbatim>\<open>ToNumber\<close>, the conversion that arithmetic and comparison apply to an operand. An
  array or object is first converted to a string.
\<close>

definition ToNumber :: "(real \<Rightarrow> string) \<Rightarrow> jsval \<Rightarrow> js_error + jsnum" where
  "ToNumber n2s v =
    (case v of
       Undefined \<Rightarrow> Inr NaN
     | Null \<Rightarrow> Inr (Fin 0)
     | Bool b \<Rightarrow> Inr (Fin (if b then 1 else 0))
     | Num n \<Rightarrow> Inr n
     | Str s \<Rightarrow> Inr (StringToNumber s)
     | _ \<Rightarrow> and_then (ToString n2s v) (\<lambda>s. Inr (StringToNumber s)))"

text \<open>\<^verbatim>\<open>v > 0\<close>.\<close>

definition greater_zero :: "(real \<Rightarrow> string) \<Rightarrow> jsval \<Rightarrow> js_error + bool" where
  "greater_zero n2s v = and_then (ToNumber n2s v) (\<lambda>n. Inr (num_less (Fin 0) n))"

text \<open>\<^verbatim>\<open>s.replace(/,/g, '')\<close> and the first match of \<^verbatim>\<open>/(\d+)/\<close>.\<close>

definition strip_commas :: "string \<Rightarrow> string" where
  "strip_commas s = filter (\<lambda>c. c \<noteq> CHR '','') s"

definition first_digits :: "string \<Rightarrow> string option" where
  "first_digits s =
    (let ds = takeWhile isDigit (dropWhile (\<lambda>c. \<not> isDigit c) s)
     in if ds = [] then None else Some ds)"

subsection \<open>The BOM row interpreter\<close>

text \<open>
  \<^verbatim>\<open>interface BOMRow\<close>: an object with string values under arbitrary column names. A
  column that the row does not have reads as \<^verbatim>\<open>undefined\<close>, here \<open>None\<close>.
\<close>

type_synonym BOMRow = "string \<rightharpoonup> string"

text \<open>\<^verbatim>\<open>if (row.X)\<close>: the column is present and not the empty string.\<close>

definition truthy_col :: "BOMRow \<Rightarrow> string \<Rightarrow> bool" where
  "truthy_col row k = truthy_opt (row k)"

text \<open>
  The first match of \<^verbatim>\<open>/(\d{4})Metric/i\<close>: four digits followed by the letters of
  \<^verbatim>\<open>Metric\<close> in either case.
\<close>

fun match_d4_metric :: "string \<Rightarrow> string option" where
  "match_d4_metric [] = None"
| "match_d4_metric (c # cs) =
     (if length (take 4 (c # cs)) = 4 \<and> list_all isDigit (take 4 (c # cs))
         \<and> toUpperCase (take 6 (drop 4 (c # cs))) = ''METRIC''
      then Some (take 4 (c # cs))
      else match_d4_metric cs)"

text \<open>
  The first match of \<^verbatim>\<open>/\b(\d{4})\b/\<close>, scanning with the character in front of the
  current position: four digits with no word character directly before or after them.
\<close>

fun match_d4_from :: "char option \<Rightarrow> string \<Rightarrow> string option" where
  "match_d4_from prev [] = None"
| "match_d4_from prev (c # cs) =
     (if (case prev of None \<Rightarrow> True | Some b \<Rightarrow> \<not> isWordChar b)
         \<and> length (take 4 (c # cs)) = 4 \<and> list_all isDigit (take 4 (c # cs))
         \<and> (case drop 4 (c # cs) of [] \<Rightarrow> True | a # _ \<Rightarrow> \<not> isWordChar a)
      then Some (take 4 (c # cs))
      else match_d4_from (Some c) cs)"

definition match_d4 :: "string \<Rightarrow> string option" where
  "match_d4 s = match_d4_from None s"

text \<open>\<^verbatim>\<open>extractFootprint\<close> (route.ts, lines 95-113).\<close>

definition extractFootprint :: "BOMRow \<Rightarrow> string" where
  "extractFootprint row =
    (case (if truthy_col row ''Footprint''
           then (case match_d4_metric (the (row ''Footprint'')) of
                   Some m \<Rightarrow> Some m
                 | None \<Rightarrow> match_d4 (the (row ''Footprint'')))
           else None) of
       Some m \<Rightarrow> m
     | None \<Rightarrow>
         if truthy_col row ''CASE CODE (METRIC)'' then the (row ''CASE CODE (METRIC)'')
         else [])"

text \<open>
  The value patterns of \<^verbatim>\<open>inferComponentType\<close>. \<^verbatim>\<open>/^[0-9.]+[...]/i\<close> is a non-empty
  run of digits and dots followed by a letter of the class; the class holds no digit
  and no dot, so only the longest run can be followed by one. \<open>CHR 0xB5\<close> is the micro
  sign of the first class.
\<close>

definition leading_number_then :: "(char \<Rightarrow> bool) \<Rightarrow> string \<Rightarrow> bool" where
  "leading_number_then cls s =
    (let run = takeWhile (\<lambda>c. isDigit c \<or> c = CHR ''.'') s;
         rest = dropWhile (\<lambda>c. isDigit c \<or> c = CHR ''.'') s
     in run \<noteq> [] \<and> (case rest of [] \<Rightarrow> False | c # _ \<Rightarrow> cls c))"

definition test_ci :: "string \<Rightarrow> string \<Rightarrow> bool" where
  "test_ci word s = includes_str (toUpperCase s) word"

text \<open>
  \<^verbatim>\<open>inferComponentType\<close> (route.ts, lines 116-138). The reference is \<open>None\<close> when the
  row has no \<^verbatim>\<open>Reference\<close> column; \<^verbatim>\<open>reference.toUpperCase()\<close> then throws.
\<close>

definition inferComponentType :: "string \<Rightarrow> string option \<Rightarrow> js_error + string" where
  "inferComponentType value reference =
    (case reference of
       None \<Rightarrow> Inl TypeError
     | Some reference \<Rightarrow>
        (let ref = toUpperCase reference;
             val = toUpperCase value
         in Inr (
            if startsWith ref ''C'' then ''capacitor''
            else if startsWith ref ''R'' then ''resistor''
            else if startsWith ref ''L'' then ''inductor''
            else if startsWith ref ''LED'' then ''led''
            else if startsWith ref ''D'' then ''diode''
            else if startsWith ref ''U'' then ''ic''
            else if startsWith ref ''Y'' \<or> startsWith ref ''X'' then ''crystal''
            else if startsWith ref ''S'' then ''switch''
            else if startsWith ref ''J'' then ''connector''
            else if startsWith ref ''MIC'' then ''microphone''
            else if leading_number_then (\<lambda>c. upper_char c \<in> set ''PNUF'' \<or> c = CHR 0xB5) val
                    \<or> test_ci ''FARAD'' val then ''capacitor''
            else if leading_number_then (\<lambda>c. upper_char c \<in> set ''KMR'') val
                    \<or> test_ci ''OHM'' val then ''resistor''
            else if leading_number_then (\<lambda>c. upper_char c \<in> set ''NH'') val
                    \<and> (val \<noteq> [] \<and> upper_char (last val) = CHR ''H'') then ''inductor''
            else [])))"

text \<open>\<^verbatim>\<open>calculateQty\<close> (route.ts, lines 141-153).\<close>

definition calculateQty :: "BOMRow \<Rightarrow> jsnum" where
  "calculateQty row =
    (if truthy_col row ''Qty'' \<and> num_less (Fin 0) (parseInt (the (row ''Qty'')))
     then parseInt (the (row ''Qty''))
     else if truthy_col row ''Reference''
     then Fin (real (length (filter (\<lambda>r. truthy_str (trim r))
                          (split_on CHR '','' (the (row ''Reference''))))))
     else Fin 1)"

text \<open>\<^verbatim>\<open>interface SearchParams\<close> of parts-search.ts.\<close>

record SearchParams =
  value_q :: "string option"
  footprint_q :: "string option"
  componentType_q :: "string option"
  manufacturer_q :: "string option"
  manufacturerPartNumber_q :: "string option"
  limit_q :: "int option"

datatype status = matched | not_found | skipped | already_sourced

record SupplierResults =
  JLCPCB :: "PartSearchResult list"
  Digi_Key :: "PartSearchResult list"
  Mouser :: "PartSearchResult list"

record SourcingResult =
  originalRow :: BOMRow
  matchedPart :: "PartSearchResult option"
  searchResults :: SupplierResults
  status :: status
  notes' :: string

definition no_results :: SupplierResults where
  "no_results = \<lparr> JLCPCB = [], Digi_Key = [], Mouser = [] \<rparr>"

text \<open>\<^verbatim>\<open>row[k]?.toLowerCase() === s\<close> and its upper-case sibling.\<close>

definition lower_is :: "BOMRow \<Rightarrow> string \<Rightarrow> string \<Rightarrow> bool" where
  "lower_is row k s = (case row k of None \<Rightarrow> False | Some v \<Rightarrow> toLowerCase v = s)"

definition upper_is :: "BOMRow \<Rightarrow> string \<Rightarrow> string \<Rightarrow> bool" where
  "upper_is row k s = (case row k of None \<Rightarrow> False | Some v \<Rightarrow> toUpperCase v = s)"

text \<open>\<^verbatim>\<open>row[k]?.trim()\<close> read as a condition, and \<^verbatim>\<open>row[k]?.trim() || ''\<close>.\<close>

definition trimmed_truthy :: "BOMRow \<Rightarrow> string \<Rightarrow> bool" where
  "trimmed_truthy row k = (case row k of None \<Rightarrow> False | Some v \<Rightarrow> truthy_str (trim v))"

definition trimmed_or_empty :: "BOMRow \<Rightarrow> string \<Rightarrow> string" where
  "trimmed_or_empty row k = (case row k of None \<Rightarrow> [] | Some v \<Rightarrow> trim v)"

definition excluded_from_bom :: "BOMRow \<Rightarrow> bool" where
  "excluded_from_bom row \<longleftrightarrow>
     lower_is row ''Exclude from BOM'' ''yes'' \<or>
     lower_is row ''Exclude from BOM'' ''true'' \<or>
     lower_is row ''Exclude from BOM'' ''excluded from bom''"

definition do_not_populate :: "BOMRow \<Rightarrow> bool" where
  "do_not_populate row \<longleftrightarrow>
     lower_is row ''DNP'' ''yes'' \<or>
     lower_is row ''DNP'' ''true'' \<or>
     upper_is row ''Manufacturer_Part_Number'' ''DNP''"

definition results_or_empty :: "(string \<rightharpoonup> PartSearchResult list) \<Rightarrow> string \<Rightarrow> PartSearchResult list" where
  "results_or_empty m k = (case m k of None \<Rightarrow> [] | Some ps \<Rightarrow> ps)"

text \<open>
  \<^verbatim>\<open>processBOMRow\<close> (route.ts, lines 252-338). \<^verbatim>\<open>searchAllSuppliers\<close> is the only
  effect of the function; it is a parameter here, and the function returns, next to its
  result, the list of the search calls it made, in order. A \<^verbatim>\<open>TypeError\<close> thrown on
  the way is the \<open>Inl\<close> result.
\<close>

definition processBOMRow :: "(real \<Rightarrow> string) \<Rightarrow> (SearchParams \<Rightarrow> (string \<rightharpoonup> PartSearchResult list))
    \<Rightarrow> BOMRow \<Rightarrow> js_error + (SourcingResult \<times> SearchParams list)" where
  "processBOMRow toLocaleString searchAllSuppliers row =
    (let qty = calculateQty row in
     if excluded_from_bom row
     then Inr (\<lparr> originalRow = row, matchedPart = None, searchResults = no_results,
                 status = skipped, notes' = ''Excluded from BOM'' \<rparr>, [])
     else if do_not_populate row
     then Inr (\<lparr> originalRow = row, matchedPart = None, searchResults = no_results,
                 status = skipped, notes' = ''DNP (Do Not Populate)'' \<rparr>, [])
     else if trimmed_truthy row ''LCSC Part #'' \<or> trimmed_truthy row ''JLCPCB Part #''
     then Inr (\<lparr> originalRow = row, matchedPart = None, searchResults = no_results,
                 status = already_sourced, notes' = ''Already has LCSC/JLCPCB part number'' \<rparr>, [])
     else
      (let value = trimmed_or_empty row ''Value'';
           footprint = extractFootprint row
       in case inferComponentType value (row ''Reference'') of
            Inl e \<Rightarrow> Inl e
          | Inr componentType \<Rightarrow>
             (let manufacturerPartNumber = trimmed_or_empty row ''Manufacturer_Part_Number'' in
              if \<not> truthy_str value \<and> \<not> truthy_str manufacturerPartNumber
              then Inr (\<lparr> originalRow = row, matchedPart = None, searchResults = no_results,
                          status = not_found, notes' = ''No value or part number to search'' \<rparr>, [])
              else
               (let params = \<lparr> value_q = Some value, footprint_q = Some footprint,
                               componentType_q = Some componentType, manufacturer_q = None,
                               manufacturerPartNumber_q = Some manufacturerPartNumber,
                               limit_q = Some 10 \<rparr>;
                    searchResults = searchAllSuppliers params;
                    jlcpcbResults = results_or_empty searchResults ''JLCPCB'';
                    digikeyResults = results_or_empty searchResults ''Digi-Key'';
                    mouserResults = results_or_empty searchResults ''Mouser'';
                    (part, notes) = selectBestPart toLocaleString jlcpcbResults digikeyResults
                                      mouserResults
                in Inr (\<lparr> originalRow = row, matchedPart = part,
                          searchResults = \<lparr> JLCPCB = jlcpcbResults, Digi_Key = digikeyResults,
                                            Mouser = mouserResults \<rparr>,
                          status = (if part \<noteq> None then matched else not_found),
                          notes' = notes \<rparr>, [params])))))"

text \<open>
  \<^verbatim>\<open>mergeSourcedData\<close> (route.ts, lines 341-379). \<^verbatim>\<open>updatedRow\<close> starts as a copy of
  the row and is assigned to column by column; each \<open>let\<close> is one statement.
\<close>

definition fill_if_empty :: "BOMRow \<Rightarrow> string \<Rightarrow> string option \<Rightarrow> BOMRow" where
  "fill_if_empty updatedRow k v =
     (if truthy_opt v \<and> \<not> truthy_col updatedRow k then updatedRow(k \<mapsto> the v) else updatedRow)"

definition mergeSourcedData :: "BOMRow \<Rightarrow> SourcingResult \<Rightarrow> BOMRow" where
  "mergeSourcedData row result =
    (case matchedPart result of
       None \<Rightarrow> row
     | Some part \<Rightarrow>
        (let updatedRow = row;
             updatedRow = (if truthy_opt (lcscPart part)
                           then updatedRow(''LCSC Part #'' \<mapsto> the (lcscPart part),
                                           ''JLCPCB Part #'' \<mapsto> the (lcscPart part))
                           else updatedRow);
             updatedRow = fill_if_empty updatedRow ''Manufacturer_Part_Number''
                            (Some (manufacturerPartNumber part));
             updatedRow = fill_if_empty updatedRow ''Manufacturer_Name'' (Some (manufacturer part));
             updatedRow = fill_if_empty updatedRow ''Datasheet'' (Some (datasheet part));
             updatedRow = fill_if_empty updatedRow ''Description'' (Some (description part));
             updatedRow = fill_if_empty updatedRow ''CASE CODE (METRIC)'' (package part)
         in updatedRow))"

subsection \<open>Reading the uploaded CSV\<close>

text \<open>
  \<^verbatim>\<open>parseCSVLine\<close> (route.ts, lines 67-92): one pass over the characters of the line
  with the fields found so far, the field being read and the quoting state. A quote
  inside quotes that is followed by a quote stands for one quote and both are consumed.
\<close>

fun parseCSVLine_loop :: "string list \<Rightarrow> string \<Rightarrow> bool \<Rightarrow> string \<Rightarrow> string list" where
  "parseCSVLine_loop result current inQuotes [] = result @ [current]"
| "parseCSVLine_loop result current inQuotes [c] =
     (if c = CHR 0x22 then parseCSVLine_loop result current (\<not> inQuotes) []
      else if c = CHR '','' \<and> \<not> inQuotes then parseCSVLine_loop (result @ [current]) [] inQuotes []
      else parseCSVLine_loop result (current @ [c]) inQuotes [])"
| "parseCSVLine_loop result current inQuotes (c # d # cs) =
     (if c = CHR 0x22 then
        (if inQuotes \<and> d = CHR 0x22 then parseCSVLine_loop result (current @ [CHR 0x22]) inQuotes cs
         else parseCSVLine_loop result current (\<not> inQuotes) (d # cs))
      else if c = CHR '','' \<and> \<not> inQuotes
      then parseCSVLine_loop (result @ [current]) [] inQuotes (d # cs)
      else parseCSVLine_loop result (current @ [c]) inQuotes (d # cs))"

definition parseCSVLine :: "string \<Rightarrow> string list" where
  "parseCSVLine line = parseCSVLine_loop [] [] False line"

text \<open>
  The body of \<^verbatim>\<open>headers.forEach\<close> in \<^verbatim>\<open>parseCSV\<close>:
  \<^verbatim>\<open>row[header.trim()] = values[index]?.trim() || ''\<close>. An assignment of a string to the
  key \<^verbatim>\<open>__proto__\<close> of an object literal creates no property.
\<close>

definition set_column :: "string list \<Rightarrow> BOMRow \<Rightarrow> string \<times> nat \<Rightarrow> BOMRow" where
  "set_column values row hi =
    (case hi of (header, index) \<Rightarrow>
       if trim header = ''__proto__'' then row
       else row(trim header \<mapsto> (if index < length values then trim (values ! index) else [])))"

definition build_row :: "string list \<Rightarrow> string list \<Rightarrow> BOMRow" where
  "build_row headers values =
     foldl (set_column values) Map.empty (zip headers [0 ..< length headers])"

text \<open>\<^verbatim>\<open>parseCSV\<close> (route.ts, lines 43-64).\<close>

definition parseCSV :: "string \<Rightarrow> BOMRow list" where
  "parseCSV csvText =
    (let lines = filter (\<lambda>line. truthy_str (trim line)) (split_on (CHR 0x0A) csvText) in
     if length lines < 2 then []
     else
      (let headers = parseCSVLine (hd lines) in
       concat (map (\<lambda>line. let values = parseCSVLine line in
                            if length values = 0 then [] else [build_row headers values])
                 (tl lines))))"

subsection \<open>Footprint normalization of the free-catalog adapter\<close>

text \<open>
  The entries of \<^verbatim>\<open>footprintMap\<close> in the order \<^verbatim>\<open>Object.entries\<close> yields them: keys
  that are canonical array indices come first, in ascending numeric order (\<^verbatim>\<open>1206\<close>,
  \<^verbatim>\<open>1210\<close>, \<^verbatim>\<open>2010\<close>, \<^verbatim>\<open>2512\<close>), the keys with a leading zero follow in the order
  in which the literal lists them.
\<close>

definition footprintMap :: "(string \<times> string) list" where
  "footprintMap =
     [(''1206'', ''1206''), (''1210'', ''1210''), (''2010'', ''2010''), (''2512'', ''2512''),
      (''0402'', ''0402''), (''0603'', ''0603''), (''0805'', ''0805'')]"

text \<open>\<^verbatim>\<open>JLCPCBClient.normalizeFootprint\<close> (parts-search.ts, lines 247-272).\<close>

definition normalizeFootprint :: "string \<Rightarrow> string" where
  "normalizeFootprint fp =
    (case match_d4 fp of
       Some metricMatch \<Rightarrow> metricMatch
     | None \<Rightarrow>
        (case find (\<lambda>(key, value). includes_str (toLowerCase fp) key) footprintMap of
           Some (key, value) \<Rightarrow> value
         | None \<Rightarrow> fp))"

subsection \<open>The supplier adapters: parts, requests and the network\<close>

text \<open>
  The object an adapter builds for a part. The interface \<^verbatim>\<open>PartSearchResult\<close> declares
  its fields as strings and numbers, but the adapters fill them from payloads of type
  \<^verbatim>\<open>any\<close>, so at run time a field holds whatever value the adapter put there; a
  property that the object literal does not have is \<open>Undefined\<close>.
\<close>

record PartObject =
  o_supplier :: jsval
  o_partNumber :: jsval
  o_manufacturer :: jsval
  o_manufacturerPartNumber :: jsval
  o_description :: jsval
  o_value :: jsval
  o_footprint :: jsval
  o_stock :: jsval
  o_price :: jsval
  o_currency :: jsval
  o_url :: jsval
  o_datasheet :: jsval
  o_lcscPart :: jsval
  o_image :: jsval
  o_package :: jsval
  o_specifications :: jsval

text \<open>\<^verbatim>\<open>params.f || ''\<close> and \<^verbatim>\<open>params.limit || d\<close> for the fields of a query.\<close>

definition str_or_empty :: "string option \<Rightarrow> string" where
  "str_or_empty x = (case x of None \<Rightarrow> [] | Some s \<Rightarrow> s)"

definition limit_or :: "int option \<Rightarrow> int \<Rightarrow> int" where
  "limit_or x d = (case x of None \<Rightarrow> d | Some l \<Rightarrow> if l = 0 then d else l)"

text \<open>
  A request, by the parts of it that vary: the token request of Digi-Key (client id and
  secret), its keyword search (authorization header, keyword, limit), the list request
  of JLCSearch (search term, limit, package filter) and the keyword search of Mouser
  (API key, keyword, number of records); then the two requests that differ in the later
  revision of the adapters: the list request of a category of JLCSearch (category, search
  term, limit, package filter) and the keyword search of Mouser at its other endpoint.
\<close>

datatype request =
    DigiKeyToken string string
  | DigiKeyKeyword string string int
  | JLCSearchList string int "string option"
  | MouserKeyword string string int
  | JLCCategoryList string string int "string option"
  | MouserSearchKeyword string string int

text \<open>
  What \<^verbatim>\<open>fetch\<close> gives: it throws, or it yields a response with its \<^verbatim>\<open>ok\<close> flag;
  reading the body as text or as JSON can throw in turn (\<open>None\<close>).
\<close>

record response =
  ok :: bool
  body_text :: "string option"
  body_json :: "jsval option"

datatype fetch_outcome = FetchFails | Response response

text \<open>
  The world outside: what the \<open>n\<close>-th request of a run is answered with, and what the
  \<open>n\<close>-th reading of the clock gives. The state of a run is the list of the requests made
  so far and the number of clock readings.
\<close>

record world =
  net :: "nat \<Rightarrow> request \<Rightarrow> fetch_outcome"
  clock :: "nat \<Rightarrow> real"

record io_state =
  sent :: "request list"
  ticks :: nat

definition fetch :: "world \<Rightarrow> request \<Rightarrow> io_state \<Rightarrow> (js_error + response) \<times> io_state" where
  "fetch w req st =
    ((case net w (length (sent st)) req of
        FetchFails \<Rightarrow> Inl FetchError
      | Response r \<Rightarrow> Inr r),
     st\<lparr>sent := sent st @ [req]\<rparr>)"

definition Date_now :: "world \<Rightarrow> io_state \<Rightarrow> jsnum \<times> io_state" where
  "Date_now w st = (Fin (clock w (ticks st)), st\<lparr>ticks := Suc (ticks st)\<rparr>)"

definition response_text :: "response \<Rightarrow> js_error + string" where
  "response_text r = (case body_text r of None \<Rightarrow> Inl FetchError | Some t \<Rightarrow> Inr t)"

definition response_json :: "response \<Rightarrow> js_error + jsval" where
  "response_json r = (case body_json r of None \<Rightarrow> Inl SyntaxError | Some v \<Rightarrow> Inr v)"

text \<open>
  \<^verbatim>\<open>try { ... } catch (error) { console.error(...); return []; }\<close>: whatever the
  block throws, the function returns the empty list.
\<close>

definition catch_empty :: "js_error + 'a list \<Rightarrow> js_error + 'a list" where
  "catch_empty r = (case r of Inl e \<Rightarrow> Inr [] | Inr xs \<Rightarrow> Inr xs)"

text \<open>\<^verbatim>\<open>xs.map(f)\<close> for a value of a payload: only an array has the method.\<close>

definition js_map :: "(jsval \<Rightarrow> js_error + 'a) \<Rightarrow> jsval \<Rightarrow> js_error + 'a list" where
  "js_map f v = (case v of Arr xs \<Rightarrow> all_or_error (map f xs) | _ \<Rightarrow> Inl TypeError)"

text \<open>\<^verbatim>\<open>xs.slice(0, n)\<close> for an integer \<open>n\<close>; a negative \<open>n\<close> counts from the end.\<close>

definition slice0 :: "int \<Rightarrow> 'a list \<Rightarrow> 'a list" where
  "slice0 n xs = (if n \<ge> 0 then take (nat n) xs else take (length xs - nat (- n)) xs)"

subsection \<open>The free-catalog adapter (JLCPCB)\<close>

text \<open>
  \<^verbatim>\<open>JLCPCBClient.parseComponent\<close> (parts-search.ts, lines 274-331), block by block:
  the cross-reference id, the stock, the price and the URL, then the function. The
  component is not nullish where the blocks are used; a conversion to a string can throw.
\<close>

definition jlcpcb_lcscPart :: "(real \<Rightarrow> string) \<Rightarrow> jsval \<Rightarrow> js_error + jsval" where
  "jlcpcb_lcscPart n2s component =
    (if truthy (property component ''lcsc'')
     then and_then (ToString n2s (property component ''lcsc''))
            (\<lambda>s. Inr (Str (if startsWith s ''C'' then s else ''C'' @ s)))
     else if truthy (property component ''lcscCode'') then Inr (property component ''lcscCode'')
     else if truthy (property component ''lcsc_id'')
     then and_then (ToString n2s (property component ''lcsc_id'')) (\<lambda>s. Inr (Str (''C'' @ s)))
     else Inr (Str []))"

definition jlcpcb_stock :: "(real \<Rightarrow> string) \<Rightarrow> jsval \<Rightarrow> js_error + jsnum" where
  "jlcpcb_stock n2s component =
    (let stockValue = or_else (or_else (property component ''stock'') (property component ''stockQty''))
                        (property component ''quantity'')
     in if truthy stockValue
        then and_then (ToString n2s stockValue)
               (\<lambda>s. let parsed = parseInt (strip_commas s)
                     in Inr (if parsed \<noteq> NaN then parsed else Fin 0))
        else Inr (Fin 0))"

definition jlcpcb_price :: "(real \<Rightarrow> string) \<Rightarrow> jsval \<Rightarrow> js_error + jsnum" where
  "jlcpcb_price n2s component =
    (let priceValue = or_else (property component ''price'') (property component ''unit_price'')
     in if truthy priceValue
        then and_then (ToString n2s priceValue)
               (\<lambda>s. let parsed = parseFloat (strip_commas s)
                     in Inr (if parsed \<noteq> NaN then parsed else Fin 0))
        else Inr (Fin 0))"

definition jlcpcb_url :: "(real \<Rightarrow> string) \<Rightarrow> jsval \<Rightarrow> js_error + jsval" where
  "jlcpcb_url n2s lcsc =
    (if truthy lcsc
     then and_then (ToString n2s lcsc) (\<lambda>s. Inr (Str (''https://jlcpcb.com/partdetail/'' @ s)))
     else Inr (Str ''https://jlcpcb.com/''))"

definition JLCPCBClient_parseComponent :: "(real \<Rightarrow> string) \<Rightarrow> jsval \<Rightarrow> SearchParams
    \<Rightarrow> js_error + PartObject" where
  "JLCPCBClient_parseComponent n2s component params =
    (if nullish component then Inl TypeError
     else
      and_then (jlcpcb_lcscPart n2s component) (\<lambda>lcscPart.
      and_then (jlcpcb_stock n2s component) (\<lambda>stock.
      and_then (jlcpcb_price n2s component) (\<lambda>price.
      (let manufacturer = or_else (or_else (or_else (property component ''mfr'')
               (property component ''manufacturer'')) (property component ''Manufacturer'')) (Str []);
           description = or_else (or_else (property component ''description'')
               (property component ''Description'')) (Str []);
           pkg = or_else (or_else (or_else (property component ''package'')
               (property component ''Package'')) (property component ''footprint'')) (Str [])
       in
      and_then (jlcpcb_url n2s lcscPart) (\<lambda>url.
        Inr \<lparr> o_supplier = Str ''JLCPCB'',
              o_partNumber = or_else (or_else (property component ''mfrPartNo'')
                  (property component ''manufacturer_part_number'')) (Str []),
              o_manufacturer = manufacturer,
              o_manufacturerPartNumber = or_else (or_else (property component ''mfrPartNo'')
                  (property component ''manufacturer_part_number'')) (Str []),
              o_description = description,
              o_value = Str (str_or_empty (value_q params)),
              o_footprint = or_else (or_else pkg (Str (str_or_empty (footprint_q params)))) (Str []),
              o_stock = Num stock,
              o_price = Num price,
              o_currency = Str ''USD'',
              o_url = url,
              o_datasheet = or_else (property component ''datasheet'') (Str []),
              o_lcscPart = lcscPart,
              o_image = or_else (property component ''image'') (Str []),
              o_package = pkg,
              o_specifications = Undefined \<rparr>))))))"

text \<open>
  The comparator of the sort in \<^verbatim>\<open>search\<close>: stock descending, then price ascending. The
  stock and the price of a parsed component are numbers; a comparator result of
  \<^verbatim>\<open>NaN\<close> counts as 0, and only the sign of a result matters.
\<close>

definition the_number :: "jsval \<Rightarrow> jsnum" where
  "the_number v = (case v of Num n \<Rightarrow> n | _ \<Rightarrow> NaN)"

definition by_stock_then_price :: "PartObject \<Rightarrow> PartObject \<Rightarrow> real" where
  "by_stock_then_price a b =
     num_sgn (if o_stock b \<noteq> o_stock a
              then num_sub (the_number (o_stock b)) (the_number (o_stock a))
              else num_sub (the_number (o_price a)) (the_number (o_price b)))"

text \<open>
  The search term of \<^verbatim>\<open>JLCPCBClient.search\<close>: the manufacturer part number, else the
  manufacturer and the value, else the value.
\<close>

definition jlcpcb_search_term :: "SearchParams \<Rightarrow> string" where
  "jlcpcb_search_term params =
    (let searchTerm = str_or_empty (value_q params);
         searchTerm = (if truthy_opt (manufacturerPartNumber_q params)
                       then the (manufacturerPartNumber_q params) else searchTerm);
         searchTerm = (if truthy_opt (manufacturer_q params)
                          \<and> \<not> truthy_opt (manufacturerPartNumber_q params)
                       then the (manufacturer_q params) @ '' '' @ searchTerm else searchTerm)
     in trim searchTerm)"

definition jlcpcb_package_filter :: "SearchParams \<Rightarrow> string option" where
  "jlcpcb_package_filter params =
    (if truthy_opt (footprint_q params)
     then (let normalizedFootprint = normalizeFootprint (the (footprint_q params))
           in if truthy_str normalizedFootprint then Some normalizedFootprint else None)
     else None)"

text \<open>
  \<^verbatim>\<open>JLCPCBClient.search\<close> (parts-search.ts, lines 180-245): the block of the
  \<^verbatim>\<open>try\<close>, then the function with its \<^verbatim>\<open>catch\<close>.
\<close>

definition JLCPCBClient_search_try :: "(real \<Rightarrow> string) \<Rightarrow> world \<Rightarrow> SearchParams \<Rightarrow> io_state
    \<Rightarrow> (js_error + PartObject list) \<times> io_state" where
  "JLCPCBClient_search_try n2s w params st =
    (let searchTerm = jlcpcb_search_term params in
     if \<not> truthy_str searchTerm then (Inr [], st)
     else
      (case fetch w (JLCSearchList searchTerm (limit_or (limit_q params) 20)
                       (jlcpcb_package_filter params)) st of
         (Inl e, st) \<Rightarrow> (Inl e, st)
       | (Inr response, st) \<Rightarrow>
          if \<not> ok response
          then (and_then (response_text response) (\<lambda>error. Inr []), st)
          else
           (and_then (response_json response) (\<lambda>data.
            and_then (get data ''components'') (\<lambda>cs.
            and_then (js_map (\<lambda>component. JLCPCBClient_parseComponent n2s component params)
                        (or_else cs (Arr []))) (\<lambda>parsed.
            (let results = filter (\<lambda>r. truthy (o_partNumber r) \<or> truthy (o_lcscPart r)) parsed;
                 results = js_sort by_stock_then_price results
             in Inr (slice0 (limit_or (limit_q params) 10) results))))),
            st)))"

definition JLCPCBClient_search :: "(real \<Rightarrow> string) \<Rightarrow> world \<Rightarrow> SearchParams \<Rightarrow> io_state
    \<Rightarrow> (js_error + PartObject list) \<times> io_state" where
  "JLCPCBClient_search n2s w params st =
    (case JLCPCBClient_search_try n2s w params st of (r, st) \<Rightarrow> (catch_empty r, st))"

subsection \<open>The distributor adapters (Digi-Key and Mouser)\<close>

text \<open>
  The keyword of a distributor search; \<^verbatim>\<open>DigiKeyClient.search\<close> and
  \<^verbatim>\<open>MouserClient.search\<close> build it with the same statements.
\<close>

definition distributor_keyword :: "SearchParams \<Rightarrow> string" where
  "distributor_keyword params =
    (let keyword = str_or_empty (value_q params);
         keyword = (if truthy_opt (footprint_q params)
                    then keyword @ '' '' @ the (footprint_q params) else keyword);
         keyword = (if truthy_opt (componentType_q params)
                    then the (componentType_q params) @ '' '' @ keyword else keyword);
         keyword = (if truthy_opt (manufacturerPartNumber_q params)
                    then the (manufacturerPartNumber_q params) else keyword)
     in trim keyword)"

text \<open>
  The state of the Digi-Key client: its credentials, the cached token (\<^verbatim>\<open>null\<close> at
  first, then whatever the token response held) and the expiry of the token.
\<close>

record DigiKeyClient =
  clientId :: string
  clientSecret :: string
  accessToken :: jsval
  tokenExpiry :: jsnum

definition DigiKeyClient_isConfigured :: "DigiKeyClient \<Rightarrow> bool" where
  "DigiKeyClient_isConfigured this \<longleftrightarrow> truthy_str (clientId this) \<and> truthy_str (clientSecret this)"

text \<open>\<^verbatim>\<open>DigiKeyClient.getAccessToken\<close> (parts-search.ts, lines 52-85).\<close>

definition DigiKeyClient_getAccessToken :: "(real \<Rightarrow> string) \<Rightarrow> world \<Rightarrow> DigiKeyClient \<Rightarrow> io_state
    \<Rightarrow> (js_error + jsval) \<times> DigiKeyClient \<times> io_state" where
  "DigiKeyClient_getAccessToken n2s w this st =
    (if truthy (accessToken this) \<and> num_less (fst (Date_now w st)) (tokenExpiry this)
     then (Inr (accessToken this), this, snd (Date_now w st))
     else
      (let st = (if truthy (accessToken this) then snd (Date_now w st) else st) in
       if \<not> DigiKeyClient_isConfigured this
       then (Inl (Error ''DigiKey API credentials not configured''), this, st)
       else
        (case fetch w (DigiKeyToken (clientId this) (clientSecret this)) st of
           (Inl e, st) \<Rightarrow> (Inl e, this, st)
         | (Inr response, st) \<Rightarrow>
            if \<not> ok response
            then (and_then (response_text response)
                    (\<lambda>error. Inl (Error (''DigiKey auth failed: '' @ error))), this, st)
            else
             (case response_json response of
                Inl e \<Rightarrow> (Inl e, this, st)
              | Inr data \<Rightarrow>
                 (case get data ''access_token'' of
                    Inl e \<Rightarrow> (Inl e, this, st)
                  | Inr token \<Rightarrow>
                     (let this = this\<lparr>accessToken := token\<rparr>;
                          now = fst (Date_now w st);
                          st = snd (Date_now w st)
                      in case ToNumber n2s (property data ''expires_in'') of
                           Inl e \<Rightarrow> (Inl e, this, st)
                         | Inr expires_in \<Rightarrow>
                            (Inr token,
                             this\<lparr>tokenExpiry :=
                               num_add now (num_mul (num_sub expires_in (Fin 300)) (Fin 1000))\<rparr>,
                             st)))))))"

text \<open>
  \<^verbatim>\<open>product.Parameters?.find((p) => p.Parameter === 'Package / Case')\<close>: the search
  through the elements of an array.
\<close>

fun find_package_case :: "jsval list \<Rightarrow> js_error + jsval" where
  "find_package_case [] = Inr Undefined"
| "find_package_case (p # ps) =
     (if nullish p then Inl TypeError
      else if property p ''Parameter'' = Str ''Package / Case'' then Inr p
      else find_package_case ps)"

definition package_case :: "jsval \<Rightarrow> js_error + jsval" where
  "package_case parameters =
    (if nullish parameters then Inr (Str [])
     else case parameters of
            Arr ps \<Rightarrow> and_then (find_package_case ps)
                        (\<lambda>found. Inr (or_else (opt_chain found ''Value'') (Str [])))
          | _ \<Rightarrow> Inl TypeError)"

text \<open>
  \<^verbatim>\<open>specs[key] = value\<close> on an object literal: the property is replaced where it is, or
  added at the end; an assignment to \<^verbatim>\<open>__proto__\<close> creates no property.
\<close>

fun obj_set :: "string \<Rightarrow> jsval \<Rightarrow> (string \<times> jsval) list \<Rightarrow> (string \<times> jsval) list" where
  "obj_set k v [] = [(k, v)]"
| "obj_set k v ((k', v') # kvs) = (if k' = k then (k, v) # kvs else (k', v') # obj_set k v kvs)"

text \<open>\<^verbatim>\<open>DigiKeyClient.extractSpecifications\<close> (parts-search.ts, lines 163-173).\<close>

fun specifications_loop :: "(real \<Rightarrow> string) \<Rightarrow> (string \<times> jsval) list \<Rightarrow> jsval list
    \<Rightarrow> js_error + (string \<times> jsval) list" where
  "specifications_loop n2s specs [] = Inr specs"
| "specifications_loop n2s specs (param # params) =
     (if nullish param then Inl TypeError
      else if truthy (property param ''Parameter'') \<and> truthy (property param ''Value'')
      then (case ToString n2s (property param ''Parameter'') of
              Inl e \<Rightarrow> Inl e
            | Inr key \<Rightarrow>
               specifications_loop n2s
                 (if key = ''__proto__'' then specs else obj_set key (property param ''Value'') specs)
                 params)
      else specifications_loop n2s specs params)"

definition DigiKeyClient_extractSpecifications :: "(real \<Rightarrow> string) \<Rightarrow> jsval \<Rightarrow> js_error + jsval" where
  "DigiKeyClient_extractSpecifications n2s parameters =
    (case parameters of
       Arr ps \<Rightarrow> and_then (specifications_loop n2s [] ps) (\<lambda>specs. Inr (Obj specs))
     | _ \<Rightarrow> Inr (Obj []))"

text \<open>
  \<^verbatim>\<open>DigiKeyClient.parseProduct\<close> (parts-search.ts, lines 140-161): the unit price of
  the first pricing tier and the URL, then the function.
\<close>

definition digikey_unitPrice :: "(real \<Rightarrow> string) \<Rightarrow> jsval \<Rightarrow> js_error + jsval" where
  "digikey_unitPrice n2s product =
    (let pricing = or_else (property product ''StandardPricing'') (Arr []) in
     and_then (greater_zero n2s (property pricing ''length'')) (\<lambda>some_pricing.
       if some_pricing then get (index0 pricing) ''UnitPrice'' else Inr (Num (Fin 0))))"

definition digikey_url :: "(real \<Rightarrow> string) \<Rightarrow> jsval \<Rightarrow> js_error + jsval" where
  "digikey_url n2s product =
    (if truthy (property product ''ProductUrl'') then Inr (property product ''ProductUrl'')
     else and_then (ToString n2s (property product ''DigiKeyPartNumber''))
            (\<lambda>s. Inr (Str (''https://www.digikey.com/product-detail/en/'' @ s))))"

definition DigiKeyClient_parseProduct :: "(real \<Rightarrow> string) \<Rightarrow> jsval \<Rightarrow> SearchParams
    \<Rightarrow> js_error + PartObject" where
  "DigiKeyClient_parseProduct n2s product params =
    (if nullish product then Inl TypeError
     else
      and_then (digikey_unitPrice n2s product) (\<lambda>unitPrice.
      and_then (digikey_url n2s product) (\<lambda>url.
      and_then (package_case (property product ''Parameters'')) (\<lambda>package.
      and_then (DigiKeyClient_extractSpecifications n2s (property product ''Parameters''))
      (\<lambda>specifications.
        Inr \<lparr> o_supplier = Str ''Digi-Key'',
              o_partNumber = or_else (property product ''DigiKeyPartNumber'') (Str []),
              o_manufacturer = or_else (opt_chain (property product ''Manufacturer'') ''Name'') (Str []),
              o_manufacturerPartNumber = or_else (property product ''ManufacturerPartNumber'') (Str []),
              o_description = or_else (or_else (property product ''DetailedDescription'')
                  (property product ''ProductDescription'')) (Str []),
              o_value = Str (str_or_empty (value_q params)),
              o_footprint = Str (str_or_empty (footprint_q params)),
              o_stock = or_else (property product ''QuantityAvailable'') (Num (Fin 0)),
              o_price = unitPrice,
              o_currency = Str ''USD'',
              o_url = url,
              o_datasheet = or_else (property product ''PrimaryDatasheet'') (Str []),
              o_lcscPart = Undefined,
              o_image = or_else (property product ''PrimaryPhoto'') (Str []),
              o_package = package,
              o_specifications = specifications \<rparr>)))))"

text \<open>
  \<^verbatim>\<open>DigiKeyClient.search\<close> (parts-search.ts, lines 87-138): the block of the
  \<^verbatim>\<open>try\<close>, then the function with its configuration test and its \<^verbatim>\<open>catch\<close>.
\<close>

definition DigiKeyClient_search_try :: "(real \<Rightarrow> string) \<Rightarrow> world \<Rightarrow> SearchParams \<Rightarrow> DigiKeyClient
    \<Rightarrow> io_state \<Rightarrow> (js_error + PartObject list) \<times> DigiKeyClient \<times> io_state" where
  "DigiKeyClient_search_try n2s w params this st =
    (case DigiKeyClient_getAccessToken n2s w this st of
       (Inl e, this, st) \<Rightarrow> (Inl e, this, st)
     | (Inr token, this, st) \<Rightarrow>
        (let keyword = distributor_keyword params in
         if \<not> truthy_str keyword then (Inr [], this, st)
         else
          (case ToString n2s token of
             Inl e \<Rightarrow> (Inl e, this, st)
           | Inr bearer \<Rightarrow>
              (case fetch w (DigiKeyKeyword (''Bearer '' @ bearer) keyword
                               (limit_or (limit_q params) 10)) st of
                 (Inl e, st) \<Rightarrow> (Inl e, this, st)
               | (Inr response, st) \<Rightarrow>
                  if \<not> ok response
                  then (and_then (response_text response) (\<lambda>error. Inr []), this, st)
                  else
                   (and_then (response_json response) (\<lambda>data.
                    and_then (get data ''Products'') (\<lambda>ps.
                    js_map (\<lambda>product. DigiKeyClient_parseProduct n2s product params)
                      (or_else ps (Arr [])))),
                    this, st)))))"

definition DigiKeyClient_search :: "(real \<Rightarrow> string) \<Rightarrow> world \<Rightarrow> SearchParams \<Rightarrow> DigiKeyClient
    \<Rightarrow> io_state \<Rightarrow> (js_error + PartObject list) \<times> DigiKeyClient \<times> io_state" where
  "DigiKeyClient_search n2s w params this st =
    (if \<not> DigiKeyClient_isConfigured this then (Inr [], this, st)
     else case DigiKeyClient_search_try n2s w params this st of
            (r, this, st) \<Rightarrow> (catch_empty r, this, st))"

text \<open>The Mouser client holds its API key.\<close>

record MouserClient =
  apiKey :: string

definition MouserClient_isConfigured :: "MouserClient \<Rightarrow> bool" where
  "MouserClient_isConfigured this \<longleftrightarrow> truthy_str (apiKey this)"

text \<open>
  \<^verbatim>\<open>MouserClient.parsePart\<close> (parts-search.ts, lines 404-435): the stock, the price,
  then the function. \<^verbatim>\<open>match\<close> and \<^verbatim>\<open>replace\<close> are methods of strings only.
\<close>

definition mouser_stock :: "jsval \<Rightarrow> js_error + jsnum" where
  "mouser_stock part =
    (case or_else (property part ''Availability'') (Str []) of
       Str availability \<Rightarrow>
         (case first_digits availability of
            None \<Rightarrow> Inr (Fin 0)
          | Some stockMatch \<Rightarrow> Inr (parseInt stockMatch))
     | _ \<Rightarrow> Inl TypeError)"

definition mouser_price :: "(real \<Rightarrow> string) \<Rightarrow> jsval \<Rightarrow> js_error + jsnum" where
  "mouser_price n2s part =
    (let priceBreaks = or_else (property part ''PriceBreaks'') (Arr []) in
     and_then (greater_zero n2s (property priceBreaks ''length'')) (\<lambda>some_breaks.
       if some_breaks
       then and_then (get (index0 priceBreaks) ''Price'') (\<lambda>p.
            and_then (if nullish p then Inr Undefined
                      else case p of Str s \<Rightarrow> Inr (Str (strip_commas s)) | _ \<Rightarrow> Inl TypeError)
            (\<lambda>replaced.
              case or_else replaced (Str ''0'') of
                Str s \<Rightarrow> Inr (parseFloat s)
              | _ \<Rightarrow> Inl TypeError))
       else Inr (Fin 0)))"

definition MouserClient_parsePart :: "(real \<Rightarrow> string) \<Rightarrow> jsval \<Rightarrow> SearchParams
    \<Rightarrow> js_error + PartObject" where
  "MouserClient_parsePart n2s part params =
    (if nullish part then Inl TypeError
     else
      and_then (mouser_stock part) (\<lambda>stock.
      and_then (mouser_price n2s part) (\<lambda>price.
        Inr \<lparr> o_supplier = Str ''Mouser'',
              o_partNumber = or_else (property part ''MouserPartNumber'') (Str []),
              o_manufacturer = or_else (property part ''Manufacturer'') (Str []),
              o_manufacturerPartNumber = or_else (property part ''ManufacturerPartNumber'') (Str []),
              o_description = or_else (property part ''Description'') (Str []),
              o_value = Str (str_or_empty (value_q params)),
              o_footprint = Str (str_or_empty (footprint_q params)),
              o_stock = Num stock,
              o_price = Num price,
              o_currency = Str ''USD'',
              o_url = or_else (property part ''ProductDetailUrl'') (Str []),
              o_datasheet = or_else (property part ''DataSheetUrl'') (Str []),
              o_lcscPart = Undefined,
              o_image = or_else (property part ''ImagePath'') (Str []),
              o_package = Undefined,
              o_specifications = Undefined \<rparr>)))"

text \<open>\<^verbatim>\<open>MouserClient.search\<close> (parts-search.ts, lines 347-402).\<close>

definition MouserClient_search_try :: "(real \<Rightarrow> string) \<Rightarrow> world \<Rightarrow> SearchParams \<Rightarrow> MouserClient
    \<Rightarrow> io_state \<Rightarrow> (js_error + PartObject list) \<times> io_state" where
  "MouserClient_search_try n2s w params this st =
    (let keyword = distributor_keyword params in
     if \<not> truthy_str keyword then (Inr [], st)
     else
      (case fetch w (MouserKeyword (apiKey this) keyword (limit_or (limit_q params) 10)) st of
         (Inl e, st) \<Rightarrow> (Inl e, st)
       | (Inr response, st) \<Rightarrow>
          if \<not> ok response
          then (and_then (response_text response) (\<lambda>error. Inr []), st)
          else
           (and_then (response_json response) (\<lambda>data.
            and_then (get data ''SearchResults'') (\<lambda>sr.
            js_map (\<lambda>part. MouserClient_parsePart n2s part params)
              (or_else (opt_chain sr ''Parts'') (Arr [])))),
            st)))"

definition MouserClient_search :: "(real \<Rightarrow> string) \<Rightarrow> world \<Rightarrow> SearchParams \<Rightarrow> MouserClient
    \<Rightarrow> io_state \<Rightarrow> (js_error + PartObject list) \<times> io_state" where
  "MouserClient_search n2s w params this st =
    (if \<not> MouserClient_isConfigured this then (Inr [], st)
     else case MouserClient_search_try n2s w params this st of (r, st) \<Rightarrow> (catch_empty r, st))"

subsection \<open>The later revision of the adapters\<close>

text \<open>
  The repository holds a later revision of \<^verbatim>\<open>parts-search.ts\<close> (\<^verbatim>\<open>unnamed/part_001\<close>).
  Its Digi-Key client differs from the one above by log lines and by the base of its URLs
  only, so \<open>DigiKeyClient_search\<close> embeds both. Its free-catalog client and its Mouser
  client differ in what they compute; they are embedded here under the names of the
  source with the suffix \<open>_v2\<close>. What the two revisions share is used from above: the
  cross-reference id, the stock and the URL of a component, the search term, the package
  filter and the comparator of the sort.
\<close>

text \<open>
  \<^verbatim>\<open>categoryEndpoints\<close> (part_001, lines 195-220), and
  \<^verbatim>\<open>this.categoryEndpoints[componentType] || 'components'\<close> for a lower-case
  \<^verbatim>\<open>componentType\<close>. The table is an object literal, so the two lower-case names that
  every object inherits are found in it as well: \<^verbatim>\<open>constructor\<close> gives a function and
  \<^verbatim>\<open>__proto__\<close> an object. The search uses the category as a string only (in the URL and
  as a property name) and compares it with \<^verbatim>\<open>'components'\<close>, so the string conversion of
  the two stands for them.
\<close>

definition categoryEndpoints :: "(string \<times> string) list" where
  "categoryEndpoints =
     [(''resistor'', ''resistors''), (''capacitor'', ''capacitors''), (''inductor'', ''inductors''),
      (''led'', ''leds''), (''diode'', ''diodes''), (''transistor'', ''bjt_transistors''),
      (''mosfet'', ''mosfets''), (''ic'', ''microcontrollers''),
      (''microcontroller'', ''microcontrollers''), (''voltage regulator'', ''voltage_regulators''),
      (''ldo'', ''ldos''), (''switch'', ''switches''), (''relay'', ''relays''), (''fuse'', ''fuses''),
      (''connector'', ''headers''), (''header'', ''headers''), (''oled'', ''oled_display''),
      (''lcd'', ''lcd_display''), (''adc'', ''adcs''), (''dac'', ''dacs''), (''wifi'', ''wifi_modules''),
      (''fpga'', ''fpgas''), (''arm'', ''arm_processors''), (''risc-v'', ''risc_v_processors'')]"

definition category_of :: "string \<Rightarrow> string" where
  "category_of componentType =
    (case map_of categoryEndpoints componentType of
       Some category \<Rightarrow> category
     | None \<Rightarrow>
        if componentType = ''constructor'' then ''function Object() { [native code] }''
        else if componentType = ''__proto__'' then ''[object Object]''
        else ''components'')"

text \<open>
  \<^verbatim>\<open>looksLikeResistor\<close> and \<^verbatim>\<open>looksLikeCapacitor\<close> (part_001, lines 268-276):
  \<^verbatim>\<open>/^[0-9.]+[KRkrR]/\<close> or \<^verbatim>\<open>/ohm|resistor/i\<close> for a resistor; for a capacitor,
  without regard to case, a leading run of digits and dots followed by one of \<^verbatim>\<open>p\<close>,
  \<^verbatim>\<open>n\<close>, the micro sign (\<open>CHR 0xB5\<close>) or \<^verbatim>\<open>u\<close> and then by \<^verbatim>\<open>F\<close>, or
  \<^verbatim>\<open>/capacitor|farad/i\<close>.
\<close>

definition looksLikeResistor :: "string \<Rightarrow> bool" where
  "looksLikeResistor tm \<longleftrightarrow>
     leading_number_then (\<lambda>c. c \<in> set ''KRkrR'') tm \<or> test_ci ''OHM'' tm \<or> test_ci ''RESISTOR'' tm"

definition looksLikeCapacitor :: "string \<Rightarrow> bool" where
  "looksLikeCapacitor tm \<longleftrightarrow>
     (takeWhile (\<lambda>c. isDigit c \<or> c = CHR ''.'') tm \<noteq> [] \<and>
      (case dropWhile (\<lambda>c. isDigit c \<or> c = CHR ''.'') tm of
         c # d # _ \<Rightarrow> (upper_char c \<in> set ''PNU'' \<or> c = CHR 0xB5) \<and> upper_char d = CHR ''F''
       | _ \<Rightarrow> False)) \<or>
     test_ci ''CAPACITOR'' tm \<or> test_ci ''FARAD'' tm"

text \<open>
  \<^verbatim>\<open>x.toFixed(1)\<close> for a number \<open>x\<close>. Like the decimal rendering of a number, the rendering
  with one decimal is a parameter; from \<open>10^21\<close> on \<^verbatim>\<open>toFixed\<close> gives the decimal rendering.
\<close>

definition toFixed1 :: "(real \<Rightarrow> string) \<Rightarrow> (real \<Rightarrow> string) \<Rightarrow> jsnum \<Rightarrow> string" where
  "toFixed1 n2s fixed1 n =
     (case n of
        Fin r \<Rightarrow> if \<bar>r\<bar> < 10 ^ 21 then fixed1 r else n2s r
      | _ \<Rightarrow> num_to_string n2s n)"

text \<open>
  \<^verbatim>\<open>JLCPCBClient.parseComponent\<close> of the later revision (part_001, lines 360-428): the
  price, which is read from \<^verbatim>\<open>price1\<close> too, the description, which is built from the
  resistance and the tolerance of the component when it has no description, then the
  function. \<open>CHR 0xB1\<close> is the plus-minus sign; the ohm sign is beyond the characters of
  a \<open>string\<close> and is written as the two bytes of its UTF-8 form.
\<close>

definition jlcpcb_price_v2 :: "(real \<Rightarrow> string) \<Rightarrow> jsval \<Rightarrow> js_error + jsnum" where
  "jlcpcb_price_v2 n2s component =
    (let priceValue = or_else (or_else (property component ''price'') (property component ''price1''))
                        (property component ''unit_price'')
     in if truthy priceValue
        then and_then (ToString n2s priceValue)
               (\<lambda>s. let parsed = parseFloat (strip_commas s)
                     in Inr (if parsed \<noteq> NaN then parsed else Fin 0))
        else Inr (Fin 0))"

definition ohm_sign :: string where
  "ohm_sign = [CHR 0xCE, CHR 0xA9]"

definition jlcpcb_description_v2 :: "(real \<Rightarrow> string) \<Rightarrow> (real \<Rightarrow> string) \<Rightarrow> jsval
    \<Rightarrow> js_error + jsval" where
  "jlcpcb_description_v2 n2s fixed1 component =
    (let description = or_else (or_else (property component ''description'')
                         (property component ''Description'')) (Str [])
     in if \<not> truthy description \<and> property component ''resistance'' \<noteq> Undefined
        then and_then
               (if truthy (property component ''tolerance_fraction'')
                then and_then (ToNumber n2s (property component ''tolerance_fraction''))
                       (\<lambda>fraction. Inr ([CHR 0xB1] @ toFixed1 n2s fixed1 (num_mul fraction (Fin 100))
                                          @ ''%''))
                else Inr [])
               (\<lambda>tolerance.
                  and_then (ToString n2s (property component ''resistance''))
                    (\<lambda>resistance. Inr (Str (trim (resistance @ ohm_sign @ '' '' @ tolerance)))))
        else Inr description)"

definition JLCPCBClient_parseComponent_v2 :: "(real \<Rightarrow> string) \<Rightarrow> (real \<Rightarrow> string) \<Rightarrow> jsval
    \<Rightarrow> SearchParams \<Rightarrow> js_error + PartObject" where
  "JLCPCBClient_parseComponent_v2 n2s fixed1 component params =
    (if nullish component then Inl TypeError
     else
      and_then (jlcpcb_lcscPart n2s component) (\<lambda>lcscPart.
      and_then (jlcpcb_stock n2s component) (\<lambda>stock.
      and_then (jlcpcb_price_v2 n2s component) (\<lambda>price.
      (let mfrPartNo = or_else (or_else (or_else (property component ''mfr'')
               (property component ''mfrPartNo''))
               (property component ''manufacturer_part_number'')) (Str []);
           manufacturer = or_else (or_else (property component ''manufacturer'')
               (property component ''Manufacturer'')) (Str [])
       in
      and_then (jlcpcb_description_v2 n2s fixed1 component) (\<lambda>description.
      (let pkg = or_else (or_else (or_else (property component ''package'')
               (property component ''Package'')) (property component ''footprint'')) (Str [])
       in
      and_then (jlcpcb_url n2s lcscPart) (\<lambda>url.
        Inr \<lparr> o_supplier = Str ''JLCPCB'',
              o_partNumber = mfrPartNo,
              o_manufacturer = manufacturer,
              o_manufacturerPartNumber = mfrPartNo,
              o_description = description,
              o_value = Str (str_or_empty (value_q params)),
              o_footprint = or_else (or_else pkg (Str (str_or_empty (footprint_q params)))) (Str []),
              o_stock = Num stock,
              o_price = Num price,
              o_currency = Str ''USD'',
              o_url = url,
              o_datasheet = or_else (property component ''datasheet'') (Str []),
              o_lcscPart = lcscPart,
              o_image = or_else (property component ''image'') (Str []),
              o_package = pkg,
              o_specifications = Undefined \<rparr>))))))))"

text \<open>
  \<^verbatim>\<open>JLCPCBClient.searchCategory\<close> (part_001, lines 278-331). It has no
  \<^verbatim>\<open>try\<close> of its own: what it throws, \<^verbatim>\<open>search\<close> catches.
\<close>

definition JLCPCBClient_searchCategory_v2 :: "(real \<Rightarrow> string) \<Rightarrow> (real \<Rightarrow> string) \<Rightarrow> world
    \<Rightarrow> string \<Rightarrow> string \<Rightarrow> SearchParams \<Rightarrow> io_state \<Rightarrow> (js_error + PartObject list) \<times> io_state" where
  "JLCPCBClient_searchCategory_v2 n2s fixed1 w category searchTerm params st =
    (case fetch w (JLCCategoryList category searchTerm (limit_or (limit_q params) 20)
                     (jlcpcb_package_filter params)) st of
       (Inl e, st) \<Rightarrow> (Inl e, st)
     | (Inr response, st) \<Rightarrow>
        if \<not> ok response
        then (and_then (response_text response) (\<lambda>error. Inr []), st)
        else
         (and_then (response_json response) (\<lambda>data.
          and_then (get data ''components'') (\<lambda>cs.
          (let components = or_else (or_else (or_else (or_else (or_else cs
                 (property data category)) (property data ''resistors''))
                 (property data ''capacitors'')) (property data ''items'')) (Arr [])
           in case components of
                Arr xs \<Rightarrow>
                  and_then (js_map (\<lambda>component.
                              JLCPCBClient_parseComponent_v2 n2s fixed1 component params)
                              components) (\<lambda>parsed.
                  (let results = filter (\<lambda>r. truthy (o_partNumber r) \<or> truthy (o_lcscPart r)) parsed;
                       results = js_sort by_stock_then_price results
                   in Inr results))
              | _ \<Rightarrow> Inr []))),
          st))"

text \<open>
  \<^verbatim>\<open>JLCPCBClient.search\<close> of the later revision (part_001, lines 222-266): the block of
  the \<^verbatim>\<open>try\<close>, then the function with its \<^verbatim>\<open>catch\<close>.
\<close>

definition JLCPCBClient_search_try_v2 :: "(real \<Rightarrow> string) \<Rightarrow> (real \<Rightarrow> string) \<Rightarrow> world
    \<Rightarrow> SearchParams \<Rightarrow> io_state \<Rightarrow> (js_error + PartObject list) \<times> io_state" where
  "JLCPCBClient_search_try_v2 n2s fixed1 w params st =
    (let searchTerm = jlcpcb_search_term params in
     if \<not> truthy_str searchTerm then (Inr [], st)
     else
      (let componentType = toLowerCase (str_or_empty (componentType_q params));
           category = category_of componentType
       in case JLCPCBClient_searchCategory_v2 n2s fixed1 w category searchTerm params st of
            (Inl e, st) \<Rightarrow> (Inl e, st)
          | (Inr results, st) \<Rightarrow>
             (case (if results = [] \<and> category = ''components''
                    then if looksLikeResistor searchTerm
                         then JLCPCBClient_searchCategory_v2 n2s fixed1 w ''resistors'' searchTerm
                                params st
                         else if looksLikeCapacitor searchTerm
                         then JLCPCBClient_searchCategory_v2 n2s fixed1 w ''capacitors'' searchTerm
                                params st
                         else (Inr results, st)
                    else (Inr results, st)) of
                (Inl e, st) \<Rightarrow> (Inl e, st)
              | (Inr results, st) \<Rightarrow> (Inr (slice0 (limit_or (limit_q params) 10) results), st))))"

definition JLCPCBClient_search_v2 :: "(real \<Rightarrow> string) \<Rightarrow> (real \<Rightarrow> string) \<Rightarrow> world
    \<Rightarrow> SearchParams \<Rightarrow> io_state \<Rightarrow> (js_error + PartObject list) \<times> io_state" where
  "JLCPCBClient_search_v2 n2s fixed1 w params st =
    (case JLCPCBClient_search_try_v2 n2s fixed1 w params st of (r, st) \<Rightarrow> (catch_empty r, st))"

text \<open>
  \<^verbatim>\<open>MouserClient.parsePart\<close> of the later revision (part_001, lines 513-551): the stock,
  read from \<^verbatim>\<open>AvailabilityInStock\<close> when that is truthy and as in the first revision
  otherwise, the price, from which \<^verbatim>\<open>/[$,]/g\<close> is removed, then the function.
  \<^verbatim>\<open>x || 0\<close> for a number \<open>x\<close> is 0 when \<open>x\<close> is \<^verbatim>\<open>NaN\<close> or 0.
\<close>

definition number_or_zero :: "jsnum \<Rightarrow> jsnum" where
  "number_or_zero n = (if n = NaN \<or> n = Fin 0 then Fin 0 else n)"

definition mouser_stock_v2 :: "(real \<Rightarrow> string) \<Rightarrow> jsval \<Rightarrow> js_error + jsnum" where
  "mouser_stock_v2 n2s part =
    (if truthy (property part ''AvailabilityInStock'')
     then and_then (ToString n2s (property part ''AvailabilityInStock''))
            (\<lambda>s. Inr (number_or_zero (parseInt s)))
     else mouser_stock part)"

definition mouser_price_v2 :: "(real \<Rightarrow> string) \<Rightarrow> jsval \<Rightarrow> js_error + jsnum" where
  "mouser_price_v2 n2s part =
    (let priceBreaks = or_else (property part ''PriceBreaks'') (Arr []) in
     and_then (greater_zero n2s (property priceBreaks ''length'')) (\<lambda>some_breaks.
       if some_breaks
       then and_then (get (index0 priceBreaks) ''Price'') (\<lambda>p.
            case or_else p (Str ''0'') of
              Str priceStr \<Rightarrow>
                (let cleanPrice = filter (\<lambda>c. c \<noteq> CHR ''$'' \<and> c \<noteq> CHR '','') priceStr
                 in Inr (number_or_zero (parseFloat cleanPrice)))
            | _ \<Rightarrow> Inl TypeError)
       else Inr (Fin 0)))"

definition MouserClient_parsePart_v2 :: "(real \<Rightarrow> string) \<Rightarrow> jsval \<Rightarrow> SearchParams
    \<Rightarrow> js_error + PartObject" where
  "MouserClient_parsePart_v2 n2s part params =
    (if nullish part then Inl TypeError
     else
      and_then (mouser_stock_v2 n2s part) (\<lambda>stock.
      and_then (mouser_price_v2 n2s part) (\<lambda>price.
        Inr \<lparr> o_supplier = Str ''Mouser'',
              o_partNumber = or_else (property part ''MouserPartNumber'') (Str []),
              o_manufacturer = or_else (property part ''Manufacturer'') (Str []),
              o_manufacturerPartNumber = or_else (property part ''ManufacturerPartNumber'') (Str []),
              o_description = or_else (property part ''Description'') (Str []),
              o_value = Str (str_or_empty (value_q params)),
              o_footprint = Str (str_or_empty (footprint_q params)),
              o_stock = Num stock,
              o_price = Num price,
              o_currency = Str ''USD'',
              o_url = or_else (property part ''ProductDetailUrl'') (Str []),
              o_datasheet = or_else (property part ''DataSheetUrl'') (Str []),
              o_lcscPart = Undefined,
              o_image = or_else (property part ''ImagePath'') (Str []),
              o_package = Undefined,
              o_specifications = Undefined \<rparr>)))"

text \<open>
  \<^verbatim>\<open>MouserClient.search\<close> of the later revision (part_001, lines 444-511); it posts to
  \<^verbatim>\<open>/search/keyword\<close>.
\<close>

definition MouserClient_search_try_v2 :: "(real \<Rightarrow> string) \<Rightarrow> world \<Rightarrow> SearchParams \<Rightarrow> MouserClient
    \<Rightarrow> io_state \<Rightarrow> (js_error + PartObject list) \<times> io_state" where
  "MouserClient_search_try_v2 n2s w params this st =
    (let keyword = distributor_keyword params in
     if \<not> truthy_str keyword then (Inr [], st)
     else
      (case fetch w (MouserSearchKeyword (apiKey this) keyword (limit_or (limit_q params) 10)) st of
         (Inl e, st) \<Rightarrow> (Inl e, st)
       | (Inr response, st) \<Rightarrow>
          if \<not> ok response
          then (and_then (response_text response) (\<lambda>error. Inr []), st)
          else
           (and_then (response_json response) (\<lambda>data.
            and_then (get data ''SearchResults'') (\<lambda>sr.
            js_map (\<lambda>part. MouserClient_parsePart_v2 n2s part params)
              (or_else (opt_chain sr ''Parts'') (Arr [])))),
            st)))"

definition MouserClient_search_v2 :: "(real \<Rightarrow> string) \<Rightarrow> world \<Rightarrow> SearchParams \<Rightarrow> MouserClient
    \<Rightarrow> io_state \<Rightarrow> (js_error + PartObject list) \<times> io_state" where
  "MouserClient_search_v2 n2s w params this st =
    (if \<not> MouserClient_isConfigured this then (Inr [], st)
     else case MouserClient_search_try_v2 n2s w params this st of (r, st) \<Rightarrow> (catch_empty r, st))"

subsection \<open>Example parts\<close>

text \<open>
  The candidate of the end-to-end scenario of the specification (section 8), a
  free-catalog candidate that scores 10, and a distributor candidate that scores
  1169.99.
\<close>

definition blank_part :: PartSearchResult where
  "blank_part = \<lparr> supplier = [], partNumber = [], manufacturer = [],
     manufacturerPartNumber = [], description = [], value' = [], footprint = [],
     stock = 0, price = 0, currency = ''USD'', url = [], datasheet = [], lcscPart = None,
     image' = None, package = None, specifications = None \<rparr>"

definition scenario_part :: PartSearchResult where
  "scenario_part = blank_part \<lparr> supplier := ''JLCPCB'', partNumber := ''RC0402FR-07100KL'',
     manufacturer := ''YAGEO'', manufacturerPartNumber := ''RC0402FR-07100KL'',
     description := ''100K 1% 0402'', stock := 15900000, price := 1 / 1000,
     datasheet := ''https://example.org/rc0402.pdf'', lcscPart := Some ''C5137468'',
     package := Some ''0402'' \<rparr>"

definition weak_jlcpcb_part :: PartSearchResult where
  "weak_jlcpcb_part = blank_part \<lparr> supplier := ''JLCPCB'', partNumber := ''RC0402'',
     stock := 0, price := 4, lcscPart := Some [] \<rparr>"

definition strong_digikey_part :: PartSearchResult where
  "strong_digikey_part = blank_part \<lparr> supplier := ''Digi-Key'', partNumber := ''311-100KLRCT-ND'',
     stock := 20000000, price := 1 / 1000, datasheet := ''https://example.org/ds.pdf'' \<rparr>"

definition no_grouping :: "real \<Rightarrow> string" where
  "no_grouping r = ''?''"

text \<open>
  Rows, an upload and search stubs for the scenarios: a row that is both marked DNP and
  already has a cross-reference id, the upload of the end-to-end scenario, a search that
  finds nothing and one whose free catalog returns the scenario candidate.
\<close>

definition dnp_sourced_row :: BOMRow where
  "dnp_sourced_row = map_of [(''Reference'', ''R1''), (''Value'', ''100K''),
     (''LCSC Part #'', ''C25741''), (''DNP'', ''yes'')]"

definition sourced_row :: BOMRow where
  "sourced_row = map_of [(''Reference'', ''R1''), (''Value'', ''100K''),
     (''LCSC Part #'', ''C25741''), (''DNP'', [])]"

definition scenario_csv :: string where
  "scenario_csv = ''Reference,Value,LCSC Part #,Description'' @ [CHR 0x0A]
     @ [CHR 0x22] @ ''C1,C2'' @ [CHR 0x22] @ '',100K,,thick film''"

definition scenario_row :: BOMRow where
  "scenario_row = Map.empty(''Reference'' \<mapsto> ''C1,C2'', ''Value'' \<mapsto> ''100K'',
     ''LCSC Part #'' \<mapsto> [], ''Description'' \<mapsto> ''thick film'')"

definition no_suppliers :: "SearchParams \<Rightarrow> (string \<rightharpoonup> PartSearchResult list)" where
  "no_suppliers params = Map.empty"

definition jlcpcb_only :: "SearchParams \<Rightarrow> (string \<rightharpoonup> PartSearchResult list)" where
  "jlcpcb_only params = Map.empty(''JLCPCB'' \<mapsto> [scenario_part])"

text \<open>The outcome and the search calls of a processed row.\<close>

definition outcome_of :: "js_error + (SourcingResult \<times> SearchParams list) \<Rightarrow> status option" where
  "outcome_of r = (case r of Inl e \<Rightarrow> None | Inr (result, calls) \<Rightarrow> Some (status result))"

definition calls_of :: "js_error + (SourcingResult \<times> SearchParams list) \<Rightarrow> SearchParams list option" where
  "calls_of r = (case r of Inl e \<Rightarrow> None | Inr (result, calls) \<Rightarrow> Some calls)"

text \<open>The values of a row are trimmed: \<^verbatim>\<open>v.trim() === v\<close> for each of them.\<close>

definition values_trimmed :: "BOMRow \<Rightarrow> bool" where
  "values_trimmed row \<longleftrightarrow> (\<forall>k v. row k = Some v \<longrightarrow> trim v = v)"

text \<open>
  The columns that the merge fills only when they are empty, and each of them with the
  field of the part that the merge writes to it.
\<close>

definition gap_fields :: "PartSearchResult \<Rightarrow> (string \<times> string option) list" where
  "gap_fields part =
     [(''Manufacturer_Part_Number'', Some (manufacturerPartNumber part)),
      (''Manufacturer_Name'', Some (manufacturer part)),
      (''Datasheet'', Some (datasheet part)),
      (''Description'', Some (description part)),
      (''CASE CODE (METRIC)'', package part)]"


definition gap_columns :: "string list" where
  "gap_columns = [''Manufacturer_Part_Number'', ''Manufacturer_Name'', ''Datasheet'',
     ''Description'', ''CASE CODE (METRIC)'']"

subsection \<open>Properties of part objects and example payloads\<close>

text \<open>
  What the specification asks of the numeric fields of a part, a well-defined integer or
  number that is not below 0, and what the adapters give: a number that is not
  \<^verbatim>\<open>NaN\<close>; an integer or an infinity, which is what \<^verbatim>\<open>parseInt\<close> gives for digits
  beyond the range of doubles; a number that is not below 0.
\<close>

definition nonneg_integer :: "jsval \<Rightarrow> bool" where
  "nonneg_integer v = (case v of Num (Fin r) \<Rightarrow> of_int \<lfloor>r\<rfloor> = r \<and> 0 \<le> r | _ \<Rightarrow> False)"

definition defined_number :: "jsval \<Rightarrow> bool" where
  "defined_number v = (case v of Num n \<Rightarrow> n \<noteq> NaN | _ \<Rightarrow> False)"

definition integer_or_infinite :: "jsval \<Rightarrow> bool" where
  "integer_or_infinite v =
     (case v of Num (Fin r) \<Rightarrow> of_int \<lfloor>r\<rfloor> = r | Num PosInf \<Rightarrow> True | Num NegInf \<Rightarrow> True
      | _ \<Rightarrow> False)"

definition nonneg_number :: "jsval \<Rightarrow> bool" where
  "nonneg_number v = (case v of Num (Fin r) \<Rightarrow> 0 \<le> r | Num PosInf \<Rightarrow> True | _ \<Rightarrow> False)"


text \<open>A field of the parts a search returned.\<close>

definition field_of :: "(PartObject \<Rightarrow> jsval) \<Rightarrow> js_error + PartObject list \<Rightarrow> jsval list" where
  "field_of f r = (case r of Inl e \<Rightarrow> [] | Inr ps \<Rightarrow> map f ps)"


text \<open>
  Worlds for the examples: one that answers every request with the same parsed payload,
  one whose every request fails. The rendering of numbers used in the examples gives the
  decimal digits of an integer; the theorems hold for every rendering.
\<close>

definition answering :: "jsval \<Rightarrow> world" where
  "answering v = \<lparr> net = (\<lambda>n req. Response \<lparr> ok = True, body_text = Some [], body_json = Some v \<rparr>),
                   clock = (\<lambda>n. 0) \<rparr>"


definition idle :: io_state where
  "idle = \<lparr> sent = [], ticks = 0 \<rparr>"

fun nat_digits :: "nat \<Rightarrow> string" where
  "nat_digits n =
     (if n < 10 then [''0123456789'' ! n]
      else nat_digits (n div 10) @ [''0123456789'' ! (n mod 10)])"

definition integer_digits :: "real \<Rightarrow> string" where
  "integer_digits r = (if r < 0 then ''-'' else []) @ nat_digits (nat \<lfloor>\<bar>r\<bar>\<rfloor>)"

text \<open>A rendering with one decimal for the examples: the digits of the integer part and the first decimal.\<close>

definition one_decimal :: "real \<Rightarrow> string" where
  "one_decimal r = integer_digits r @ ''.'' @ nat_digits (nat \<lfloor>\<bar>r\<bar> * 10\<rfloor> mod 10)"

definition scenario_params :: SearchParams where
  "scenario_params = \<lparr> value_q = Some ''100K'', footprint_q = Some [],
     componentType_q = Some ''capacitor'', manufacturer_q = None,
     manufacturerPartNumber_q = Some [], limit_q = Some 10 \<rparr>"

text \<open>
  Payloads: a catalog answer whose component has a negative stock; one with a component
  that has a cross-reference id and one that has no identifier at all; an answer whose
  component list is not a list; a Digi-Key product whose pricing tier has no unit price.
\<close>

definition negative_stock_payload :: jsval where
  "negative_stock_payload =
     Obj [(''components'', Arr [Obj [(''mfrPartNo'', Str ''RC0402FR-07100KL''), (''stock'', Str ''-5'')]])]"

definition catalog_payload :: jsval where
  "catalog_payload =
     Obj [(''components'',
           Arr [Obj [(''stock'', Str ''7''), (''price'', Str ''0.002'')],
                Obj [(''lcsc'', Str ''C5137468''), (''stock'', Str ''15,900,000''),
                     (''price'', Str ''0.001'')]])]"




definition configured_digikey :: DigiKeyClient where
  "configured_digikey = \<lparr> clientId = ''id'', clientSecret = ''secret'', accessToken = Null,
     tokenExpiry = Fin 0 \<rparr>"

definition configured_mouser :: MouserClient where
  "configured_mouser = \<lparr> apiKey = ''key'' \<rparr>"

text \<open>
  An answer of Mouser with a grouped stock figure and a price with a currency sign, and an
  answer that serves as the token response and the search response of Digi-Key.
\<close>

definition mouser_payload :: jsval where
  "mouser_payload =
     Obj [(''SearchResults'',
           Obj [(''Parts'', Arr [Obj [(''MouserPartNumber'', Str ''603-RC0402FR-07100KL''),
                                      (''Availability'', Str ''1,234 In Stock''),
                                      (''PriceBreaks'', Arr [Obj [(''Price'', Str ''$2.05'')]])]])])]"

definition digikey_payload :: jsval where
  "digikey_payload =
     Obj [(''access_token'', Str ''tok''), (''expires_in'', Num (Fin 600)),
          (''Products'', Arr [Obj [(''DigiKeyPartNumber'', Str ''311-100KLRCT-ND''),
                                   (''QuantityAvailable'', Num (Fin 12000)),
                                   (''StandardPricing'', Arr [Obj []])]])]"

text \<open>
  Answers in the forms that the later revision of the adapters reads: a list of a category of
  JLCSearch, whose component carries \<^verbatim>\<open>mfr\<close>, \<^verbatim>\<open>price1\<close>, a resistance and a
  tolerance, and an answer of Mouser with a given \<^verbatim>\<open>AvailabilityInStock\<close>.
\<close>

definition category_payload :: jsval where
  "category_payload =
     Obj [(''resistors'',
           Arr [Obj [(''lcsc'', Num (Fin 25744)), (''mfr'', Str ''0402WGF1003TCE''),
                     (''stock'', Num (Fin 3973198)), (''price1'', Str ''0.0005''),
                     (''resistance'', Num (Fin 100000)), (''tolerance_fraction'', Str ''0.01''),
                     (''package'', Str ''0402'')]])]"

definition mouser_stock_payload :: "string \<Rightarrow> jsval" where
  "mouser_stock_payload inStock =
     Obj [(''SearchResults'',
           Obj [(''Parts'', Arr [Obj [(''MouserPartNumber'', Str ''603-RC0402FR-07100KL''),
                                      (''Availability'', Str ''1,234 In Stock''),
                                      (''AvailabilityInStock'', Str inStock),
                                      (''PriceBreaks'', Arr [Obj [(''Price'', Str ''$2.05'')]])]])])]"

section \<open>Properties\<close>

subsection \<open>Scoring\<close>

text \<open>
  C2. Both scoring functions of the code equal the reference formulas of the
  specification: the free-catalog score is
  \<open>1000*[stock>0] + min(stock/100000, 100) + (max(0, 50 - price*10) if price>0) + 50*[non-empty cross-reference id]\<close>
  and the distributor score replaces the last term by \<open>20*[non-empty datasheet URL]\<close>.
\<close>

theorem score_refines_spec:
  "scoreJLCPCBPart p = spec_score_free_catalog p \<and>
   scoreDistributorPart p = spec_score_distributor p"
  by (cases "lcscPart p")
     (simp_all add: scoreJLCPCBPart_def scoreDistributorPart_def spec_score_free_catalog_def
        spec_score_distributor_def spec_score_common_def truthy_opt_def truthy_str_def Let_def)

text \<open>Monotonicity of the two terms the scoring functions share.\<close>

lemma stock_terms_mono:
  fixes s s' :: real
  assumes "s \<le> s'"
  shows "(if s > 0 then 0 + 1000 else 0) + min (s / 100000) 100
       \<le> (if s' > 0 then 0 + 1000 else 0) + min (s' / 100000) 100"
proof -
  have "min (s / 100000) 100 \<le> min (s' / 100000) 100"
    using assms by (simp add: min_def divide_right_mono)
  moreover have "(if s > 0 then 0 + 1000 else 0) \<le> (if s' > 0 then 0 + 1000 else (0::real))"
    using assms by simp
  ultimately show ?thesis by linarith
qed

lemma price_term_antimono:
  fixes c c' :: real
  assumes "0 < c" "c \<le> c'"
  shows "max 0 (50 - c' * 10) \<le> max 0 (50 - c * 10)"
  using assms by (simp add: max_def)

text \<open>
  C7. For each scoring function and every pair of parts that differ only in stock, the
  part with the larger stock never has the smaller score, whatever the price is; for
  every pair of parts that differ only in price, both prices positive, the part with the
  larger price never has the larger score.
\<close>

theorem score_monotone:
  "(q = p\<lparr>stock := stock q\<rparr> \<and> stock p \<le> stock q \<longrightarrow>
      scoreJLCPCBPart p \<le> scoreJLCPCBPart q \<and> scoreDistributorPart p \<le> scoreDistributorPart q) \<and>
   (r = p\<lparr>price := price r\<rparr> \<and> 0 < price p \<and> 0 < price r \<and> price p \<le> price r \<longrightarrow>
      scoreJLCPCBPart r \<le> scoreJLCPCBPart p \<and> scoreDistributorPart r \<le> scoreDistributorPart p)"
proof (intro conjI impI)
  assume a: "q = p\<lparr>stock := stock q\<rparr> \<and> stock p \<le> stock q"
  then have q: "q = p\<lparr>stock := stock q\<rparr>" and le: "stock p \<le> stock q" by simp_all
  have st: "(if stock p > 0 then 0 + 1000 else 0) + min (stock p / 100000) 100
       \<le> (if stock q > 0 then 0 + 1000 else 0) + min (stock q / 100000) 100"
    by (rule stock_terms_mono [OF le])
  have "scoreJLCPCBPart p \<le> scoreJLCPCBPart (p\<lparr>stock := stock q\<rparr>)"
    using st by (simp add: scoreJLCPCBPart_def Let_def)
  with q show "scoreJLCPCBPart p \<le> scoreJLCPCBPart q" by simp
  have "scoreDistributorPart p \<le> scoreDistributorPart (p\<lparr>stock := stock q\<rparr>)"
    using st by (simp add: scoreDistributorPart_def Let_def)
  with q show "scoreDistributorPart p \<le> scoreDistributorPart q" by simp
next
  assume a: "r = p\<lparr>price := price r\<rparr> \<and> 0 < price p \<and> 0 < price r \<and> price p \<le> price r"
  then have r: "r = p\<lparr>price := price r\<rparr>" and pos: "0 < price p" "0 < price r"
    and le: "price p \<le> price r" by simp_all
  have pr: "max 0 (50 - price r * 10) \<le> max 0 (50 - price p * 10)"
    by (rule price_term_antimono [OF pos(1) le])
  have "scoreJLCPCBPart (p\<lparr>price := price r\<rparr>) \<le> scoreJLCPCBPart p"
    using pr pos by (simp add: scoreJLCPCBPart_def Let_def)
  with r show "scoreJLCPCBPart r \<le> scoreJLCPCBPart p" by simp
  have "scoreDistributorPart (p\<lparr>price := price r\<rparr>) \<le> scoreDistributorPart p"
    using pr pos by (simp add: scoreDistributorPart_def Let_def)
  with r show "scoreDistributorPart r \<le> scoreDistributorPart p" by simp
qed

text \<open>
  The stock half at a part without a price (price 0, what the adapters store for an
  absent price), the price half at the scenario candidate.
\<close>

theorem score_monotone_witness:
  "price blank_part = 0 \<and> stock blank_part \<le> stock (blank_part\<lparr>stock := 500\<rparr>) \<and>
   scoreJLCPCBPart blank_part \<le> scoreJLCPCBPart (blank_part\<lparr>stock := 500\<rparr>) \<and>
   scoreDistributorPart blank_part \<le> scoreDistributorPart (blank_part\<lparr>stock := 500\<rparr>) \<and>
   0 < price scenario_part \<and> price scenario_part \<le> price (scenario_part\<lparr>price := 2\<rparr>) \<and>
   scoreJLCPCBPart (scenario_part\<lparr>price := 2\<rparr>) \<le> scoreJLCPCBPart scenario_part \<and>
   scoreDistributorPart (scenario_part\<lparr>price := 2\<rparr>) \<le> scoreDistributorPart scenario_part"
proof -
  have h1: "price blank_part = 0" "stock blank_part \<le> stock (blank_part\<lparr>stock := 500\<rparr>)"
    by (simp_all add: blank_part_def)
  have h2: "0 < price scenario_part" "price scenario_part \<le> price (scenario_part\<lparr>price := 2\<rparr>)"
    by (simp_all add: scenario_part_def blank_part_def)
  note m = score_monotone [of "blank_part\<lparr>stock := 500\<rparr>" blank_part
      "scenario_part\<lparr>price := 2\<rparr>"]
  note m' = score_monotone [of "scenario_part\<lparr>stock := stock scenario_part\<rparr>" scenario_part
      "scenario_part\<lparr>price := 2\<rparr>"]
  from h1 m have s: "scoreJLCPCBPart blank_part \<le> scoreJLCPCBPart (blank_part\<lparr>stock := 500\<rparr>) \<and>
      scoreDistributorPart blank_part \<le> scoreDistributorPart (blank_part\<lparr>stock := 500\<rparr>)"
    by simp
  from h2 m' have c: "scoreJLCPCBPart (scenario_part\<lparr>price := 2\<rparr>) \<le> scoreJLCPCBPart scenario_part \<and>
      scoreDistributorPart (scenario_part\<lparr>price := 2\<rparr>) \<le> scoreDistributorPart scenario_part"
    by simp
  from h1 h2 s c show ?thesis by simp
qed

subsection \<open>Selection cascade\<close>

lemma set_js_insort: "set (js_insort cmp x ys) = insert x (set ys)"
  by (induction ys) auto

lemma set_js_sort: "set (js_sort cmp xs) = set xs"
  by (induction xs) (simp_all add: js_sort_def set_js_insort)

lemma length_js_insort: "length (js_insort cmp x ys) = Suc (length ys)"
  by (induction ys) auto

lemma length_js_sort: "length (js_sort cmp xs) = length xs"
  by (induction xs) (simp_all add: js_sort_def length_js_insort)

lemma js_sort_Cons: "js_sort cmp (x # xs) = js_insort cmp x (js_sort cmp xs)"
  by (simp add: js_sort_def)

text \<open>The head of the list sorted by descending score is a candidate of maximal score.\<close>

lemma hd_scored_desc:
  assumes "xs \<noteq> []"
  shows "\<exists>b\<in>set xs. hd (scored_desc f xs) = (b, f b) \<and> (\<forall>q\<in>set xs. f q \<le> f b)"
  using assms
proof (induction xs)
  case Nil
  then show ?case by simp
next
  case (Cons x xs)
  show ?case
  proof (cases "xs = []")
    case True
    then show ?thesis by (simp add: scored_desc_def js_sort_def)
  next
    case False
    from Cons.IH [OF False] obtain b where b: "b \<in> set xs"
      "hd (scored_desc f xs) = (b, f b)" "\<forall>q\<in>set xs. f q \<le> f b"
      by blast
    let ?ys = "scored_desc f xs"
    have ne: "?ys \<noteq> []"
      using False length_js_sort [of "\<lambda>a b. snd b - snd a" "map (\<lambda>p. (p, f p)) xs"]
      by (auto simp: scored_desc_def)
    then obtain y ys where ys: "?ys = y # ys" by (cases ?ys) auto
    with b(2) have y: "y = (b, f b)" by simp
    have step: "scored_desc f (x # xs) = js_insort (\<lambda>a b. snd b - snd a) (x, f x) ?ys"
      by (simp add: scored_desc_def js_sort_Cons)
    show ?thesis
    proof (cases "f b \<le> f x")
      case True
      then have "hd (scored_desc f (x # xs)) = (x, f x)"
        by (simp add: step ys y)
      moreover have "\<forall>q\<in>set (x # xs). f q \<le> f x"
        using True b(3) by auto
      ultimately show ?thesis by auto
    next
      case False
      then have "hd (scored_desc f (x # xs)) = (b, f b)"
        by (simp add: step ys y)
      moreover have "\<forall>q\<in>set (x # xs). f q \<le> f b"
        using False b(3) by auto
      ultimately show ?thesis using b(1) by auto
    qed
  qed
qed

text \<open>One stage of the cascade: whether it selects, and what.\<close>

lemma stage_positive:
  assumes "\<exists>p\<in>set xs. 0 < f p"
  shows "length xs > 0 \<and> snd (hd (scored_desc f xs)) > 0 \<and>
         fst (hd (scored_desc f xs)) \<in> set xs \<and>
         (\<forall>q\<in>set xs. f q \<le> f (fst (hd (scored_desc f xs))))"
proof -
  from assms have ne: "xs \<noteq> []" by auto
  from hd_scored_desc [OF ne, of f] obtain b where b: "b \<in> set xs"
    "hd (scored_desc f xs) = (b, f b)" "\<forall>q\<in>set xs. f q \<le> f b"
    by blast
  from assms b(3) have "0 < f b" by force
  with ne b show ?thesis by simp
qed

lemma stage_nonpositive:
  assumes "\<not> (\<exists>p\<in>set xs. 0 < f p)"
  shows "\<not> (length xs > 0 \<and> snd (hd (scored_desc f xs)) > 0)"
proof
  assume a: "length xs > 0 \<and> snd (hd (scored_desc f xs)) > 0"
  then have ne: "xs \<noteq> []" by auto
  from hd_scored_desc [OF ne, of f] obtain b where b: "b \<in> set xs"
    "hd (scored_desc f xs) = (b, f b)"
    by blast
  with a assms show False by auto
qed

text \<open>
  C1. The selection is a cascade over the suppliers, not a maximum over all candidates.
  If some JLCPCB candidate scores above 0, the result is a JLCPCB candidate of maximal
  JLCPCB score, whatever the Digi-Key and Mouser lists hold. Only when no JLCPCB
  candidate scores above 0 is the Digi-Key list looked at in the same way, then the
  Mouser list; when no list has a candidate scoring above 0 the result is no part, with
  the note \<open>No matches found\<close>.
\<close>

theorem selectBestPart_cascade:
  "((\<exists>p\<in>set jl. 0 < scoreJLCPCBPart p) \<longrightarrow>
      (\<exists>b\<in>set jl. selectBestPart fmt jl dk mo = (Some b, note_jlcpcb fmt b) \<and>
         (\<forall>q\<in>set jl. scoreJLCPCBPart q \<le> scoreJLCPCBPart b))) \<and>
   (\<not> (\<exists>p\<in>set jl. 0 < scoreJLCPCBPart p) \<and> (\<exists>p\<in>set dk. 0 < scoreDistributorPart p) \<longrightarrow>
      (\<exists>b\<in>set dk. selectBestPart fmt jl dk mo = (Some b, note_distributor ''Digi-Key'' fmt b) \<and>
         (\<forall>q\<in>set dk. scoreDistributorPart q \<le> scoreDistributorPart b))) \<and>
   (\<not> (\<exists>p\<in>set jl. 0 < scoreJLCPCBPart p) \<and> \<not> (\<exists>p\<in>set dk. 0 < scoreDistributorPart p) \<and>
    (\<exists>p\<in>set mo. 0 < scoreDistributorPart p) \<longrightarrow>
      (\<exists>b\<in>set mo. selectBestPart fmt jl dk mo = (Some b, note_distributor ''Mouser'' fmt b) \<and>
         (\<forall>q\<in>set mo. scoreDistributorPart q \<le> scoreDistributorPart b))) \<and>
   (\<not> (\<exists>p\<in>set jl. 0 < scoreJLCPCBPart p) \<and> \<not> (\<exists>p\<in>set dk. 0 < scoreDistributorPart p) \<and>
    \<not> (\<exists>p\<in>set mo. 0 < scoreDistributorPart p) \<longrightarrow>
      selectBestPart fmt jl dk mo = (None, ''No matches found''))"
proof (intro conjI impI)
  assume "\<exists>p\<in>set jl. 0 < scoreJLCPCBPart p"
  note J = stage_positive [OF this]
  let ?b = "fst (hd (scored_desc scoreJLCPCBPart jl))"
  have "selectBestPart fmt jl dk mo = (Some ?b, note_jlcpcb fmt ?b)"
    using J by (simp add: selectBestPart_def Let_def)
  with J show "\<exists>b\<in>set jl. selectBestPart fmt jl dk mo = (Some b, note_jlcpcb fmt b) \<and>
         (\<forall>q\<in>set jl. scoreJLCPCBPart q \<le> scoreJLCPCBPart b)"
    by blast
next
  assume "\<not> (\<exists>p\<in>set jl. 0 < scoreJLCPCBPart p) \<and> (\<exists>p\<in>set dk. 0 < scoreDistributorPart p)"
  then have j: "\<not> (\<exists>p\<in>set jl. 0 < scoreJLCPCBPart p)"
    and d: "\<exists>p\<in>set dk. 0 < scoreDistributorPart p" by blast+
  note J = stage_nonpositive [OF j] and D = stage_positive [OF d]
  let ?b = "fst (hd (scored_desc scoreDistributorPart dk))"
  have "selectBestPart fmt jl dk mo = (Some ?b, note_distributor ''Digi-Key'' fmt ?b)"
    using J D unfolding selectBestPart_def Let_def by (simp only: if_False if_True simp_thms)
  with D show "\<exists>b\<in>set dk. selectBestPart fmt jl dk mo = (Some b, note_distributor ''Digi-Key'' fmt b) \<and>
         (\<forall>q\<in>set dk. scoreDistributorPart q \<le> scoreDistributorPart b)"
    by blast
next
  assume "\<not> (\<exists>p\<in>set jl. 0 < scoreJLCPCBPart p) \<and> \<not> (\<exists>p\<in>set dk. 0 < scoreDistributorPart p) \<and>
    (\<exists>p\<in>set mo. 0 < scoreDistributorPart p)"
  then have j: "\<not> (\<exists>p\<in>set jl. 0 < scoreJLCPCBPart p)"
    and d: "\<not> (\<exists>p\<in>set dk. 0 < scoreDistributorPart p)"
    and m: "\<exists>p\<in>set mo. 0 < scoreDistributorPart p" by blast+
  note J = stage_nonpositive [OF j] and D = stage_nonpositive [OF d] and M = stage_positive [OF m]
  let ?b = "fst (hd (scored_desc scoreDistributorPart mo))"
  have "selectBestPart fmt jl dk mo = (Some ?b, note_distributor ''Mouser'' fmt ?b)"
    using J D M unfolding selectBestPart_def Let_def by (simp only: if_False if_True simp_thms)
  with M show "\<exists>b\<in>set mo. selectBestPart fmt jl dk mo = (Some b, note_distributor ''Mouser'' fmt b) \<and>
         (\<forall>q\<in>set mo. scoreDistributorPart q \<le> scoreDistributorPart b)"
    by blast
next
  assume "\<not> (\<exists>p\<in>set jl. 0 < scoreJLCPCBPart p) \<and> \<not> (\<exists>p\<in>set dk. 0 < scoreDistributorPart p) \<and>
    \<not> (\<exists>p\<in>set mo. 0 < scoreDistributorPart p)"
  then have j: "\<not> (\<exists>p\<in>set jl. 0 < scoreJLCPCBPart p)"
    and d: "\<not> (\<exists>p\<in>set dk. 0 < scoreDistributorPart p)"
    and m: "\<not> (\<exists>p\<in>set mo. 0 < scoreDistributorPart p)" by blast+
  note J = stage_nonpositive [OF j] and D = stage_nonpositive [OF d] and M = stage_nonpositive [OF m]
  show "selectBestPart fmt jl dk mo = (None, ''No matches found'')"
    using J D M unfolding selectBestPart_def Let_def by (simp only: if_False if_True simp_thms)
qed

text \<open>
  The instance of the specification: a JLCPCB candidate that scores 10 is selected over a
  Digi-Key candidate that scores 1169.99 (distributor scores stay below 1170).
\<close>

theorem selectBestPart_cascade_witness:
  "scoreJLCPCBPart weak_jlcpcb_part = 10 \<and> scoreDistributorPart strong_digikey_part = 116999 / 100 \<and>
   fst (selectBestPart no_grouping [weak_jlcpcb_part] [strong_digikey_part] []) = Some weak_jlcpcb_part \<and>
   selectBestPart no_grouping [] [] [] = (None, ''No matches found'')"
proof -
  have s1: "scoreJLCPCBPart weak_jlcpcb_part = 10"
    by (simp add: scoreJLCPCBPart_def weak_jlcpcb_part_def blank_part_def truthy_opt_def
        truthy_str_def Let_def)
  have s2: "scoreDistributorPart strong_digikey_part = 116999 / 100"
    by (simp add: scoreDistributorPart_def strong_digikey_part_def blank_part_def
        truthy_str_def Let_def)
  have pos: "\<exists>p\<in>set [weak_jlcpcb_part]. 0 < scoreJLCPCBPart p"
    using s1 by simp
  from selectBestPart_cascade [of "[weak_jlcpcb_part]" no_grouping "[strong_digikey_part]" "[]"] pos
  obtain b where "b \<in> set [weak_jlcpcb_part]"
    "selectBestPart no_grouping [weak_jlcpcb_part] [strong_digikey_part] [] = (Some b, note_jlcpcb no_grouping b)"
    by blast
  then have sel: "fst (selectBestPart no_grouping [weak_jlcpcb_part] [strong_digikey_part] [])
      = Some weak_jlcpcb_part"
    by simp
  have none: "selectBestPart no_grouping [] [] [] = (None, ''No matches found'')"
    using selectBestPart_cascade [of "[]" no_grouping "[]" "[]"] by simp
  from s1 s2 sel none show ?thesis by simp
qed

subsection \<open>Category derivation\<close>

lemma startsWith_shorter:
  assumes "startsWith s (p @ q)"
  shows "startsWith s p"
proof -
  from assms have "take (length p + length q) s = p @ q" by (simp add: startsWith_def)
  then have "take (length p) (take (length p + length q) s) = take (length p) (p @ q)" by simp
  then show ?thesis by (simp add: startsWith_def min_def)
qed

lemma startsWith_first:
  assumes "startsWith s (c # p)"
  shows "\<exists>t. s = c # t"
  using assms by (cases s) (auto simp: startsWith_def)

text \<open>
  C9 asks that a reference designator beginning with \<open>LED\<close>, in either case, is given
  the category \<open>led\<close>. The code tests the prefix \<open>L\<close> before the prefix \<open>LED\<close>, so
  every such designator is classified as an inductor and the \<open>led\<close> branch is never taken.
\<close>

theorem inferComponentType_LED_is_inductor:
  assumes "startsWith (toUpperCase reference) ''LED''"
  shows "inferComponentType value (Some reference) = Inr ''inductor''"
proof -
  from startsWith_first [OF assms] obtain t where t: "toUpperCase reference = CHR ''L'' # t"
    by blast
  have "startsWith (toUpperCase reference) ''L''"
    using startsWith_shorter [of "toUpperCase reference" "''L''" "''ED''"] assms by simp
  moreover have "\<not> startsWith (toUpperCase reference) ''C''"
    and "\<not> startsWith (toUpperCase reference) ''R''"
    using t by (simp_all add: startsWith_def)
  ultimately show ?thesis
    by (simp add: inferComponentType_def Let_def)
qed

theorem inferComponentType_LED1:
  "startsWith (toUpperCase ''led1'') ''LED'' \<and>
   inferComponentType ''RED'' (Some ''led1'') = Inr ''inductor''"
proof -
  have h: "startsWith (toUpperCase ''led1'') ''LED''"
    by (simp add: startsWith_def toUpperCase_def upper_char_def)
  from h inferComponentType_LED_is_inductor [OF h] show ?thesis by simp
qed

subsection \<open>Footprint normalization\<close>

lemma match_d4_from_digits:
  "match_d4_from prev s = Some m \<Longrightarrow> length m = 4 \<and> list_all isDigit m"
  by (induction prev s rule: match_d4_from.induct) (auto split: if_splits)

lemma match_d4_of_code:
  assumes "length d = 4" and "list_all isDigit d"
  shows "match_d4 d = Some d"
proof -
  from assms(1) obtain c cs where d: "d = c # cs" by (cases d) auto
  show ?thesis
    using assms unfolding match_d4_def d by simp
qed

lemma footprintMap_values:
  assumes "find P footprintMap = Some (k, v)"
  shows "length v = 4 \<and> list_all isDigit v"
proof -
  from assms have "(k, v) \<in> set footprintMap"
    by (auto simp: find_Some_iff in_set_conv_nth)
  then show ?thesis
    by (auto simp: footprintMap_def isDigit_def)
qed

lemma normalizeFootprint_code:
  assumes "length d = 4" and "list_all isDigit d"
  shows "normalizeFootprint d = d"
  by (simp add: normalizeFootprint_def match_d4_of_code [OF assms])

text \<open>
  C8. Footprint normalization is idempotent; a code of four digits is mapped to itself;
  \<open>0402 (1005 Metric)\<close> is mapped to \<open>0402\<close>.
\<close>

theorem normalizeFootprint_idempotent:
  "normalizeFootprint (normalizeFootprint s) = normalizeFootprint s \<and>
   (length d = 4 \<and> list_all isDigit d \<longrightarrow> normalizeFootprint d = d) \<and>
   normalizeFootprint ''0402 (1005 Metric)'' = ''0402''"
proof (intro conjI impI)
  show "normalizeFootprint (normalizeFootprint s) = normalizeFootprint s"
  proof (cases "match_d4 s")
    case (Some m)
    then have "length m = 4 \<and> list_all isDigit m"
      by (simp add: match_d4_def match_d4_from_digits)
    then have "normalizeFootprint m = m" by (simp add: normalizeFootprint_code)
    with Some show ?thesis by (simp add: normalizeFootprint_def)
  next
    case None
    show ?thesis
    proof (cases "find (\<lambda>(key, value). includes_str (toLowerCase s) key) footprintMap")
      case no: None
      with None show ?thesis by (simp add: normalizeFootprint_def)
    next
      case (Some kv)
      obtain k v where kv: "kv = (k, v)" by (cases kv)
      from Some kv have "length v = 4 \<and> list_all isDigit v"
        using footprintMap_values by blast
      then have "normalizeFootprint v = v" by (simp add: normalizeFootprint_code)
      with None Some kv show ?thesis by (simp add: normalizeFootprint_def)
    qed
  qed
next
  assume "length d = 4 \<and> list_all isDigit d"
  then show "normalizeFootprint d = d" by (simp add: normalizeFootprint_code)
next
  show "normalizeFootprint ''0402 (1005 Metric)'' = ''0402''"
    by (simp add: normalizeFootprint_def match_d4_def isDigit_def isWordChar_def)
qed

theorem normalizeFootprint_idempotent_witness:
  "length ''0603'' = 4 \<and> list_all isDigit ''0603'' \<and> normalizeFootprint ''0603'' = ''0603'' \<and>
   normalizeFootprint (normalizeFootprint ''R0402_1206X'') = normalizeFootprint ''R0402_1206X''"
proof -
  have h: "length ''0603'' = 4 \<and> list_all isDigit ''0603''"
    by (simp add: isDigit_def)
  from h normalizeFootprint_idempotent [of "''R0402_1206X''" "''0603''"] show ?thesis by blast
qed

subsection \<open>Processing a row\<close>

text \<open>
  C5 as stated (a row with a non-empty cross-reference column is \<open>already_sourced\<close>
  whatever its other columns hold) fails on a row that is also marked DNP: the skip rules
  are evaluated first.
\<close>

theorem already_sourced_counterexample:
  "truthy_col dnp_sourced_row ''LCSC Part #'' \<and>
   outcome_of (processBOMRow no_grouping no_suppliers dnp_sourced_row) = Some skipped"
  by (simp add: truthy_col_def truthy_opt_def truthy_str_def dnp_sourced_row_def outcome_of_def
      processBOMRow_def excluded_from_bom_def do_not_populate_def lower_is_def toLowerCase_def
      lower_char_def Let_def)

lemma processBOMRow_excluded:
  assumes "excluded_from_bom row"
  shows "processBOMRow fmt searchAllSuppliers row =
    Inr (\<lparr> originalRow = row, matchedPart = None, searchResults = no_results,
           status = skipped, notes' = ''Excluded from BOM'' \<rparr>, [])"
  unfolding processBOMRow_def using assms by (simp add: Let_def)

lemma processBOMRow_dnp:
  assumes "\<not> excluded_from_bom row" and "do_not_populate row"
  shows "processBOMRow fmt searchAllSuppliers row =
    Inr (\<lparr> originalRow = row, matchedPart = None, searchResults = no_results,
           status = skipped, notes' = ''DNP (Do Not Populate)'' \<rparr>, [])"
  unfolding processBOMRow_def using assms by (simp add: Let_def)

lemma processBOMRow_already_sourced:
  assumes "\<not> excluded_from_bom row" and "\<not> do_not_populate row"
    and "trimmed_truthy row ''LCSC Part #'' \<or> trimmed_truthy row ''JLCPCB Part #''"
  shows "processBOMRow fmt searchAllSuppliers row =
    Inr (\<lparr> originalRow = row, matchedPart = None, searchResults = no_results,
           status = already_sourced, notes' = ''Already has LCSC/JLCPCB part number'' \<rparr>, [])"
  unfolding processBOMRow_def using assms by (simp add: Let_def)

text \<open>
  C5, amended. A row whose \<open>LCSC Part #\<close> or \<open>JLCPCB Part #\<close> column is non-empty after
  trimming makes no search call; its outcome is \<open>already_sourced\<close>, unless the row is
  excluded from the BOM or marked DNP, in which case it is \<open>skipped\<close>.
\<close>

theorem cross_reference_short_circuit:
  assumes "trimmed_truthy row ''LCSC Part #'' \<or> trimmed_truthy row ''JLCPCB Part #''"
  shows "calls_of (processBOMRow fmt searchAllSuppliers row) = Some [] \<and>
         outcome_of (processBOMRow fmt searchAllSuppliers row) =
           Some (if excluded_from_bom row \<or> do_not_populate row then skipped else already_sourced)"
proof (cases "excluded_from_bom row")
  case True
  then show ?thesis
    by (simp add: processBOMRow_excluded calls_of_def outcome_of_def)
next
  case False
  show ?thesis
  proof (cases "do_not_populate row")
    case True
    with False show ?thesis
      by (simp add: processBOMRow_dnp calls_of_def outcome_of_def)
  next
    case dnp: False
    with False assms show ?thesis
      by (simp add: processBOMRow_already_sourced calls_of_def outcome_of_def)
  qed
qed

theorem cross_reference_short_circuit_witness:
  "trimmed_truthy sourced_row ''LCSC Part #'' \<and>
   calls_of (processBOMRow no_grouping jlcpcb_only sourced_row) = Some [] \<and>
   outcome_of (processBOMRow no_grouping jlcpcb_only sourced_row) = Some already_sourced"
proof -
  have h: "trimmed_truthy sourced_row ''LCSC Part #''"
    by (simp add: trimmed_truthy_def sourced_row_def truthy_str_def trim_def trimStart_def
        trimEnd_def isSpace_def)
  have e: "\<not> excluded_from_bom sourced_row" "\<not> do_not_populate sourced_row"
    by (simp_all add: excluded_from_bom_def do_not_populate_def lower_is_def upper_is_def
        sourced_row_def toLowerCase_def)
  from h e cross_reference_short_circuit [of sourced_row no_grouping jlcpcb_only]
  show ?thesis by simp
qed

subsection \<open>Rows of an upload hold trimmed values\<close>

lemma trimEnd_prefix: "\<exists>w. u = trimEnd u @ w"
proof -
  have "rev (takeWhile isSpace (rev u) @ dropWhile isSpace (rev u)) = u" by simp
  then have "trimEnd u @ rev (takeWhile isSpace (rev u)) = u"
    unfolding trimEnd_def rev_append by simp
  then show ?thesis by metis
qed

lemma trimStart_trimEnd:
  assumes "trimStart u = u"
  shows "trimStart (trimEnd u) = trimEnd u"
proof (cases "trimEnd u")
  case Nil
  then show ?thesis by (simp add: trimStart_def)
next
  case (Cons c t)
  from trimEnd_prefix [of u] obtain w where "u = trimEnd u @ w" by blast
  with Cons have u: "u = c # t @ w" by simp
  have "\<not> isSpace c"
  proof
    assume "isSpace c"
    then have "dropWhile isSpace u = dropWhile isSpace (t @ w)"
      using u by simp
    then have "length (dropWhile isSpace u) \<le> length (t @ w)"
      using length_dropWhile_le [of isSpace "t @ w"] by simp
    then have "length (dropWhile isSpace u) < length u"
      using u by simp
    with assms show False by (simp add: trimStart_def)
  qed
  with Cons show ?thesis by (simp add: trimStart_def)
qed

lemma trim_idem: "trim (trim s) = trim s"
proof -
  have 1: "trimStart (trimStart s) = trimStart s" by (simp add: trimStart_def)
  have 2: "trimStart (trim s) = trim s"
    unfolding trim_def by (rule trimStart_trimEnd [OF 1])
  have 3: "trimEnd (trimEnd u) = trimEnd u" for u by (simp add: trimEnd_def)
  show ?thesis
    unfolding trim_def [of "trim s"] 2 unfolding trim_def 3 ..
qed

lemma trim_Nil: "trim [] = []"
  by (simp add: trim_def trimStart_def trimEnd_def)

lemma set_column_trimmed:
  "values_trimmed row \<Longrightarrow> values_trimmed (set_column values row hi)"
  by (cases hi) (auto simp: values_trimmed_def set_column_def trim_idem trim_Nil)

lemma foldl_set_column_trimmed:
  "values_trimmed row \<Longrightarrow> values_trimmed (foldl (set_column values) row his)"
  by (induction his arbitrary: row) (simp_all add: set_column_trimmed)

lemma build_row_trimmed: "values_trimmed (build_row headers values)"
  unfolding build_row_def
  by (rule foldl_set_column_trimmed) (simp add: values_trimmed_def)

lemma parseCSV_trimmed:
  assumes "row \<in> set (parseCSV csvText)"
  shows "values_trimmed row"
  using assms by (auto simp: parseCSV_def Let_def build_row_trimmed split: if_splits)


subsection \<open>Merging a selected part into its row\<close>

lemma processBOMRow_matched:
  assumes "processBOMRow fmt searchAllSuppliers row = Inr (result, calls)"
    and "matchedPart result = Some part"
  shows "\<not> trimmed_truthy row ''LCSC Part #'' \<and> \<not> trimmed_truthy row ''JLCPCB Part #''"
proof (rule ccontr)
  assume a: "\<not> (\<not> trimmed_truthy row ''LCSC Part #'' \<and> \<not> trimmed_truthy row ''JLCPCB Part #'')"
  have "matchedPart result = None"
  proof (cases "excluded_from_bom row")
    case True
    from processBOMRow_excluded [OF True, of fmt searchAllSuppliers] assms(1)
    show ?thesis by auto
  next
    case False
    show ?thesis
    proof (cases "do_not_populate row")
      case True
      from processBOMRow_dnp [OF False True, of fmt searchAllSuppliers] assms(1)
      show ?thesis by auto
    next
      case dnp: False
      from a have "trimmed_truthy row ''LCSC Part #'' \<or> trimmed_truthy row ''JLCPCB Part #''"
        by blast
      from processBOMRow_already_sourced [OF False dnp this, of fmt searchAllSuppliers] assms(1)
      show ?thesis by auto
    qed
  qed
  with assms(2) show False by simp
qed

lemma trimmed_empty:
  assumes "values_trimmed row" and "\<not> trimmed_truthy row k" and "row k = Some v"
  shows "v = []"
  using assms by (auto simp: values_trimmed_def trimmed_truthy_def truthy_str_def)

lemma fill_if_empty_other: "k' \<noteq> k \<Longrightarrow> fill_if_empty r k v k' = r k'"
  by (simp add: fill_if_empty_def)

lemma fill_if_empty_nonempty: "r k' = Some x \<Longrightarrow> x \<noteq> [] \<Longrightarrow> fill_if_empty r k v k' = Some x"
  by (auto simp: fill_if_empty_def truthy_col_def truthy_opt_def truthy_str_def)

lemma merge_keeps_nonempty:
  assumes "matchedPart result = Some part"
    and "k \<noteq> ''LCSC Part #''" and "k \<noteq> ''JLCPCB Part #''"
    and "row k = Some x" and "x \<noteq> []"
  shows "mergeSourcedData row result k = Some x"
proof -
  let ?r1 = "if truthy_opt (lcscPart part)
        then row(''LCSC Part #'' \<mapsto> the (lcscPart part), ''JLCPCB Part #'' \<mapsto> the (lcscPart part))
        else row"
  have r1: "?r1 k = Some x" using assms(2-4) by simp
  note step = fill_if_empty_nonempty [OF _ assms(5)]
  have "fill_if_empty (fill_if_empty (fill_if_empty (fill_if_empty (fill_if_empty ?r1
          ''Manufacturer_Part_Number'' (Some (manufacturerPartNumber part)))
          ''Manufacturer_Name'' (Some (manufacturer part)))
          ''Datasheet'' (Some (datasheet part)))
          ''Description'' (Some (description part)))
          ''CASE CODE (METRIC)'' (package part) k = Some x"
    by (intro step r1)
  then show ?thesis
    using assms(1) unfolding mergeSourcedData_def Let_def by simp
qed

lemma merge_frame:
  assumes "matchedPart result = Some part"
    and "k \<notin> set ([''LCSC Part #'', ''JLCPCB Part #''] @ gap_columns)"
  shows "mergeSourcedData row result k = row k"
  using assms unfolding mergeSourcedData_def Let_def gap_columns_def
  by (simp add: fill_if_empty_other)

lemma merge_cross_reference:
  assumes "matchedPart result = Some part" and "truthy_opt (lcscPart part)"
  shows "mergeSourcedData row result ''LCSC Part #'' = lcscPart part \<and>
         mergeSourcedData row result ''JLCPCB Part #'' = lcscPart part"
proof -
  from assms(2) obtain c where "lcscPart part = Some c" by (cases "lcscPart part") (auto simp: truthy_opt_def)
  then show ?thesis
    using assms unfolding mergeSourcedData_def Let_def
    by (simp add: fill_if_empty_other)
qed

lemma fill_if_empty_same:
  "fill_if_empty r k v k = (if truthy_opt v \<and> \<not> truthy_col r k then v else r k)"
  by (cases v) (simp_all add: fill_if_empty_def truthy_opt_def)

lemma truthy_col_fill_other:
  "k' \<noteq> k \<Longrightarrow> truthy_col (fill_if_empty r k v) k' = truthy_col r k'"
  by (simp add: truthy_col_def fill_if_empty_other)

lemma truthy_col_cross_reference:
  assumes "k \<noteq> a" and "k \<noteq> b"
  shows "truthy_col (if c then row(a \<mapsto> x, b \<mapsto> x) else row) k = truthy_col row k"
    and "(if c then row(a \<mapsto> x, b \<mapsto> x) else row) k = row k"
proof -
  show 2: "(if c then row(a \<mapsto> x, b \<mapsto> x) else row) k = row k"
    using assms by (cases c) (simp_all only: fun_upd_apply if_True if_False)
  then show "truthy_col (if c then row(a \<mapsto> x, b \<mapsto> x) else row) k = truthy_col row k"
    by (simp only: truthy_col_def)
qed

lemma fill_chain:
  fixes row :: BOMRow and c :: bool and x :: string and a b k1 k2 k3 k4 k5 :: string
    and v1 v2 v3 v4 v5 :: "string option"
  assumes d: "distinct [a, b, k1, k2, k3, k4, k5]"
  defines "r1 \<equiv> (if c then row(a \<mapsto> x, b \<mapsto> x) else row)"
  defines "out \<equiv> fill_if_empty (fill_if_empty (fill_if_empty (fill_if_empty
      (fill_if_empty r1 k1 v1) k2 v2) k3 v3) k4 v4) k5 v5"
  shows "out k1 = (if \<not> truthy_col row k1 \<and> truthy_opt v1 then v1 else row k1)"
    and "out k2 = (if \<not> truthy_col row k2 \<and> truthy_opt v2 then v2 else row k2)"
    and "out k3 = (if \<not> truthy_col row k3 \<and> truthy_opt v3 then v3 else row k3)"
    and "out k4 = (if \<not> truthy_col row k4 \<and> truthy_opt v4 then v4 else row k4)"
    and "out k5 = (if \<not> truthy_col row k5 \<and> truthy_opt v5 then v5 else row k5)"
proof -
  have r1: "r1 k = row k" "truthy_col r1 k = truthy_col row k" if "k \<noteq> a" "k \<noteq> b" for k
    using truthy_col_cross_reference [OF that] by (simp_all only: r1_def)
  from d have n1: "k1 \<noteq> a" "k1 \<noteq> b" and n2: "k2 \<noteq> a" "k2 \<noteq> b" "k2 \<noteq> k1"
    and n3: "k3 \<noteq> a" "k3 \<noteq> b" "k3 \<noteq> k1" "k3 \<noteq> k2"
    and n4: "k4 \<noteq> a" "k4 \<noteq> b" "k4 \<noteq> k1" "k4 \<noteq> k2" "k4 \<noteq> k3"
    and n5: "k5 \<noteq> a" "k5 \<noteq> b" "k5 \<noteq> k1" "k5 \<noteq> k2" "k5 \<noteq> k3" "k5 \<noteq> k4"
    and m: "k1 \<noteq> k2" "k1 \<noteq> k3" "k1 \<noteq> k4" "k1 \<noteq> k5" "k2 \<noteq> k3" "k2 \<noteq> k4" "k2 \<noteq> k5"
      "k3 \<noteq> k4" "k3 \<noteq> k5" "k4 \<noteq> k5"
    by auto
  show "out k1 = (if \<not> truthy_col row k1 \<and> truthy_opt v1 then v1 else row k1)"
    unfolding out_def
    by (simp only: fill_if_empty_other [OF m(4)] fill_if_empty_other [OF m(3)]
        fill_if_empty_other [OF m(2)] fill_if_empty_other [OF m(1)] fill_if_empty_same
        r1 [OF n1] conj_commute)
  show "out k2 = (if \<not> truthy_col row k2 \<and> truthy_opt v2 then v2 else row k2)"
    unfolding out_def
    by (simp only: fill_if_empty_other [OF m(7)] fill_if_empty_other [OF m(6)]
        fill_if_empty_other [OF m(5)] fill_if_empty_same fill_if_empty_other [OF n2(3)]
        truthy_col_fill_other [OF n2(3)] r1 [OF n2(1,2)] conj_commute)
  show "out k3 = (if \<not> truthy_col row k3 \<and> truthy_opt v3 then v3 else row k3)"
    unfolding out_def
    by (simp only: fill_if_empty_other [OF m(9)] fill_if_empty_other [OF m(8)]
        fill_if_empty_same fill_if_empty_other [OF n3(4)] fill_if_empty_other [OF n3(3)]
        truthy_col_fill_other [OF n3(4)] truthy_col_fill_other [OF n3(3)]
        r1 [OF n3(1,2)] conj_commute)
  show "out k4 = (if \<not> truthy_col row k4 \<and> truthy_opt v4 then v4 else row k4)"
    unfolding out_def
    by (simp only: fill_if_empty_other [OF m(10)]
        fill_if_empty_same fill_if_empty_other [OF n4(5)] fill_if_empty_other [OF n4(4)]
        fill_if_empty_other [OF n4(3)]
        truthy_col_fill_other [OF n4(5)] truthy_col_fill_other [OF n4(4)]
        truthy_col_fill_other [OF n4(3)] r1 [OF n4(1,2)] conj_commute)
  show "out k5 = (if \<not> truthy_col row k5 \<and> truthy_opt v5 then v5 else row k5)"
    unfolding out_def
    by (simp only: fill_if_empty_same fill_if_empty_other [OF n5(6)] fill_if_empty_other [OF n5(5)]
        fill_if_empty_other [OF n5(4)] fill_if_empty_other [OF n5(3)]
        truthy_col_fill_other [OF n5(6)] truthy_col_fill_other [OF n5(5)]
        truthy_col_fill_other [OF n5(4)] truthy_col_fill_other [OF n5(3)]
        r1 [OF n5(1,2)] conj_commute)
qed



lemma merge_chain:
  assumes "matchedPart result = Some part"
  shows "mergeSourcedData row result =
    fill_if_empty (fill_if_empty (fill_if_empty (fill_if_empty (fill_if_empty
      (if truthy_opt (lcscPart part)
       then row(''LCSC Part #'' \<mapsto> the (lcscPart part), ''JLCPCB Part #'' \<mapsto> the (lcscPart part))
       else row)
      ''Manufacturer_Part_Number'' (Some (manufacturerPartNumber part)))
      ''Manufacturer_Name'' (Some (manufacturer part)))
      ''Datasheet'' (Some (datasheet part)))
      ''Description'' (Some (description part)))
      ''CASE CODE (METRIC)'' (package part)"
  using assms by (simp add: mergeSourcedData_def Let_def)

lemma merge_columns_distinct:
  "distinct [''LCSC Part #'', ''JLCPCB Part #'', ''Manufacturer_Part_Number'',
     ''Manufacturer_Name'', ''Datasheet'', ''Description'', ''CASE CODE (METRIC)'']"
  by simp

lemma merge_fills_gap:
  assumes "matchedPart result = Some part"
  shows "\<forall>(k, v)\<in>set (gap_fields part).
           mergeSourcedData row result k =
             (if \<not> truthy_col row k \<and> truthy_opt v then v else row k)"
  by (simp only: gap_fields_def list.set ball_simps prod.case merge_chain [OF assms]
      fill_chain [OF merge_columns_distinct] simp_thms)

lemma merge_without_cross_reference:
  assumes "matchedPart result = Some part" and "\<not> truthy_opt (lcscPart part)"
  shows "mergeSourcedData row result ''LCSC Part #'' = row ''LCSC Part #'' \<and>
         mergeSourcedData row result ''JLCPCB Part #'' = row ''JLCPCB Part #''"
  using assms(2) unfolding merge_chain [OF assms(1)]
  by (simp add: fill_if_empty_other)

text \<open>
  C6. For a row of an upload for which a part has been selected, the merge writes the
  cross-reference id of the part, when it has one, to both cross-reference columns, and
  leaves them as they are otherwise; each of the five gap columns receives the field of
  the part exactly when the column is empty in the row and the part has the field, and
  keeps its value otherwise; every non-empty column of the row keeps its value; every
  column outside the two cross-reference columns and the five gap columns keeps its value.
\<close>

theorem mergeSourcedData_fills_gaps:
  assumes "row \<in> set (parseCSV csvText)"
    and "processBOMRow fmt searchAllSuppliers row = Inr (result, calls)"
    and "matchedPart result = Some part"
  shows "(truthy_opt (lcscPart part) \<longrightarrow>
            mergeSourcedData row result ''LCSC Part #'' = lcscPart part \<and>
            mergeSourcedData row result ''JLCPCB Part #'' = lcscPart part) \<and>
         (\<not> truthy_opt (lcscPart part) \<longrightarrow>
            mergeSourcedData row result ''LCSC Part #'' = row ''LCSC Part #'' \<and>
            mergeSourcedData row result ''JLCPCB Part #'' = row ''JLCPCB Part #'') \<and>
         (\<forall>(k, v)\<in>set (gap_fields part).
            mergeSourcedData row result k =
              (if \<not> truthy_col row k \<and> truthy_opt v then v else row k)) \<and>
         (\<forall>k\<in>set gap_columns. mergeSourcedData row result k \<noteq> row k \<longrightarrow> \<not> truthy_col row k) \<and>
         (\<forall>k v. row k = Some v \<and> v \<noteq> [] \<longrightarrow> mergeSourcedData row result k = Some v) \<and>
         (\<forall>k. k \<notin> set ([''LCSC Part #'', ''JLCPCB Part #''] @ gap_columns) \<longrightarrow>
               mergeSourcedData row result k = row k)"
proof (intro conjI allI ballI impI)
  assume "truthy_opt (lcscPart part)"
  from merge_cross_reference [OF assms(3) this]
  show "mergeSourcedData row result ''LCSC Part #'' = lcscPart part"
    and "mergeSourcedData row result ''JLCPCB Part #'' = lcscPart part" by simp_all
next
  assume "\<not> truthy_opt (lcscPart part)"
  from merge_without_cross_reference [OF assms(3) this]
  show "mergeSourcedData row result ''LCSC Part #'' = row ''LCSC Part #''"
    and "mergeSourcedData row result ''JLCPCB Part #'' = row ''JLCPCB Part #''" by simp_all
next
  fix kv assume kv: "kv \<in> set (gap_fields part)"
  from merge_fills_gap [OF assms(3), of row] kv
  show "case kv of (k, v) \<Rightarrow> mergeSourcedData row result k =
              (if \<not> truthy_col row k \<and> truthy_opt v then v else row k)"
    by (rule bspec)
next
  fix k v assume kv: "row k = Some v \<and> v \<noteq> []"
  note tr = parseCSV_trimmed [OF assms(1)]
  note em = processBOMRow_matched [OF assms(2,3)]
  have "k \<noteq> ''LCSC Part #''" "k \<noteq> ''JLCPCB Part #''"
    using kv trimmed_empty [OF tr] em by blast+
  with kv show "mergeSourcedData row result k = Some v"
    using merge_keeps_nonempty [of result part k row v, OF assms(3)] by blast
next
  fix k assume k: "k \<in> set gap_columns" and ch: "mergeSourcedData row result k \<noteq> row k"
  show "\<not> truthy_col row k"
  proof
    assume "truthy_col row k"
    then obtain x where x: "row k = Some x" "x \<noteq> []"
      by (cases "row k") (auto simp: truthy_col_def truthy_opt_def truthy_str_def)
    from k have "k \<noteq> ''LCSC Part #''" "k \<noteq> ''JLCPCB Part #''"
      by (auto simp: gap_columns_def)
    from merge_keeps_nonempty [of result part k row x, OF assms(3) this x] x(1) ch
    show False by simp
  qed
next
  fix k assume "k \<notin> set ([''LCSC Part #'', ''JLCPCB Part #''] @ gap_columns)"
  from merge_frame [OF assms(3) this]
  show "mergeSourcedData row result k = row k" .
qed

lemma scenario_upload: "parseCSV scenario_csv = [scenario_row]"
  by (simp add: parseCSV_def scenario_csv_def scenario_row_def Let_def trim_def trimStart_def
      trimEnd_def isSpace_def truthy_str_def parseCSVLine_def build_row_def set_column_def upt_rec)

lemma scenario_selection:
  "selectBestPart no_grouping [scenario_part] [] [] =
     (Some scenario_part, note_jlcpcb no_grouping scenario_part)"
proof -
  have "0 < scoreJLCPCBPart scenario_part"
    by (simp add: scoreJLCPCBPart_def scenario_part_def blank_part_def Let_def truthy_opt_def
        truthy_str_def)
  then show ?thesis
    by (simp add: selectBestPart_def scored_desc_def js_sort_def Let_def)
qed

lemma scenario_processed:
  "\<exists>result calls. processBOMRow no_grouping jlcpcb_only scenario_row = Inr (result, calls) \<and>
     matchedPart result = Some scenario_part \<and> status result = matched \<and> length calls = 1"
  by (simp add: processBOMRow_def scenario_row_def excluded_from_bom_def do_not_populate_def
      lower_is_def upper_is_def trimmed_truthy_def trimmed_or_empty_def truthy_str_def
      trim_def trimStart_def trimEnd_def isSpace_def inferComponentType_def toUpperCase_def
      upper_char_def startsWith_def jlcpcb_only_def results_or_empty_def scenario_selection
      Let_def)

theorem mergeSourcedData_fills_gaps_witness:
  "scenario_row \<in> set (parseCSV scenario_csv) \<and>
   (\<exists>result calls. processBOMRow no_grouping jlcpcb_only scenario_row = Inr (result, calls) \<and>
      matchedPart result = Some scenario_part \<and>
      mergeSourcedData scenario_row result ''LCSC Part #'' = Some ''C5137468'' \<and>
      mergeSourcedData scenario_row result ''JLCPCB Part #'' = Some ''C5137468'' \<and>
      mergeSourcedData scenario_row result ''Description'' = Some ''thick film'' \<and>
      mergeSourcedData scenario_row result ''Datasheet'' = Some ''https://example.org/rc0402.pdf'' \<and>
      mergeSourcedData scenario_row result ''Manufacturer_Name'' = Some ''YAGEO'' \<and>
      mergeSourcedData scenario_row result ''CASE CODE (METRIC)'' = Some ''0402'' \<and>
      mergeSourcedData scenario_row result ''Footprint'' = None)"
proof -
  have up: "scenario_row \<in> set (parseCSV scenario_csv)"
    by (simp add: scenario_upload)
  from scenario_processed obtain result calls
    where run: "processBOMRow no_grouping jlcpcb_only scenario_row = Inr (result, calls)"
      and part: "matchedPart result = Some scenario_part"
    by blast
  note m = mergeSourcedData_fills_gaps [OF up run part]
  have id: "lcscPart scenario_part = Some ''C5137468''"
    by (simp add: scenario_part_def blank_part_def)
  have "truthy_opt (lcscPart scenario_part)"
    by (simp add: id truthy_opt_def truthy_str_def)
  with m id have x: "mergeSourcedData scenario_row result ''LCSC Part #'' = Some ''C5137468''"
    "mergeSourcedData scenario_row result ''JLCPCB Part #'' = Some ''C5137468''"
    by simp_all
  have "scenario_row ''Description'' = Some ''thick film'' \<and> ''thick film'' \<noteq> []"
    by (simp add: scenario_row_def)
  with m have d: "mergeSourcedData scenario_row result ''Description'' = Some ''thick film''"
    by blast
  from m have gaps: "\<forall>(k, v)\<in>set (gap_fields scenario_part).
      mergeSourcedData scenario_row result k =
        (if \<not> truthy_col scenario_row k \<and> truthy_opt v then v else scenario_row k)"
    by blast
  have fields: "(''Datasheet'', Some ''https://example.org/rc0402.pdf'') \<in> set (gap_fields scenario_part)"
    "(''Manufacturer_Name'', Some ''YAGEO'') \<in> set (gap_fields scenario_part)"
    "(''CASE CODE (METRIC)'', Some ''0402'') \<in> set (gap_fields scenario_part)"
    by (simp_all add: gap_fields_def scenario_part_def blank_part_def)
  have empty: "\<not> truthy_col scenario_row ''Datasheet''"
    "\<not> truthy_col scenario_row ''Manufacturer_Name''"
    "\<not> truthy_col scenario_row ''CASE CODE (METRIC)''"
    by (simp_all add: truthy_col_def truthy_opt_def scenario_row_def)
  from gaps fields(1) empty(1)
  have g1: "mergeSourcedData scenario_row result ''Datasheet'' = Some ''https://example.org/rc0402.pdf''"
    by (auto simp: truthy_opt_def truthy_str_def)
  from gaps fields(2) empty(2)
  have g2: "mergeSourcedData scenario_row result ''Manufacturer_Name'' = Some ''YAGEO''"
    by (auto simp: truthy_opt_def truthy_str_def)
  from gaps fields(3) empty(3)
  have g3: "mergeSourcedData scenario_row result ''CASE CODE (METRIC)'' = Some ''0402''"
    by (auto simp: truthy_opt_def truthy_str_def)
  have "''Footprint'' \<notin> set ([''LCSC Part #'', ''JLCPCB Part #''] @ gap_columns)"
    by (simp add: gap_columns_def)
  with m have "mergeSourcedData scenario_row result ''Footprint'' = scenario_row ''Footprint''"
    by blast
  then have f: "mergeSourcedData scenario_row result ''Footprint'' = None"
    by (simp add: scenario_row_def)
  from up run part x d g1 g2 g3 f show ?thesis by blast
qed

subsection \<open>Where the parts of a search come from\<close>

lemma all_or_error_mem:
  "all_or_error ms = Inr xs \<Longrightarrow> x \<in> set xs \<Longrightarrow> Inr x \<in> set ms"
proof (induction ms arbitrary: xs)
  case Nil
  then show ?case by simp
next
  case (Cons m ms)
  from Cons.prems(1) obtain y ys where m: "m = Inr y" and ys: "all_or_error ms = Inr ys"
    and xs: "xs = y # ys"
    by (cases m; cases "all_or_error ms") auto
  from Cons.prems(2) xs have "x = y \<or> x \<in> set ys" by simp
  then show ?case
  proof
    assume "x = y" with m show ?thesis by simp
  next
    assume "x \<in> set ys"
    from Cons.IH [OF ys this] show ?thesis by simp
  qed
qed

lemma js_map_mem:
  assumes "js_map f v = Inr xs" and "x \<in> set xs"
  shows "\<exists>e. f e = Inr x"
proof (cases v)
  case (Arr es)
  with assms(1) have "all_or_error (map f es) = Inr xs" by (simp add: js_map_def)
  from all_or_error_mem [OF this assms(2)] show ?thesis by auto
qed (use assms in \<open>simp_all add: js_map_def\<close>)

lemma set_slice0: "set (slice0 n xs) \<subseteq> set xs"
  by (auto simp: slice0_def dest: in_set_takeD)

lemma and_then_Inr: "and_then m f = Inr y \<longleftrightarrow> (\<exists>x. m = Inr x \<and> f x = Inr y)"
  by (cases m) (simp_all add: and_then_def)


lemma catch_empty_mem: "catch_empty r = Inr xs \<Longrightarrow> x \<in> set xs \<Longrightarrow> r = Inr xs"
  by (cases r) (auto simp: catch_empty_def)

lemma and_then_Inr_nil:
  assumes "and_then m (\<lambda>x. Inr []) = Inr ps"
  shows "ps = []"
  using assms by (cases m) (simp_all add: and_then_def)

lemma JLCPCBClient_search_try_results:
  assumes "JLCPCBClient_search_try n2s w params st = (Inr ps, st')" and "ps \<noteq> []"
  shows "\<exists>v parsed. js_map (\<lambda>c. JLCPCBClient_parseComponent n2s c params) v = Inr parsed \<and>
           ps = slice0 (limit_or (limit_q params) 10)
                 (js_sort by_stock_then_price
                   (filter (\<lambda>r. truthy (o_partNumber r) \<or> truthy (o_lcscPart r)) parsed))"
proof -
  let ?req = "JLCSearchList (jlcpcb_search_term params) (limit_or (limit_q params) 20)
                (jlcpcb_package_filter params)"
  have tm: "truthy_str (jlcpcb_search_term params)"
  proof (rule ccontr)
    assume "\<not> truthy_str (jlcpcb_search_term params)"
    then have "JLCPCBClient_search_try n2s w params st = (Inr [], st)"
      by (simp add: JLCPCBClient_search_try_def Let_def)
    with assms show False by simp
  qed
  obtain fr st1 where f: "fetch w ?req st = (fr, st1)" by (cases "fetch w ?req st")
  show ?thesis
  proof (cases fr)
    case (Inl e)
    with f tm have "JLCPCBClient_search_try n2s w params st = (Inl e, st1)"
      by (simp add: JLCPCBClient_search_try_def Let_def)
    with assms show ?thesis by simp
  next
    case (Inr response)
    show ?thesis
    proof (cases "ok response")
      case False
      with f tm Inr have "JLCPCBClient_search_try n2s w params st =
          (and_then (response_text response) (\<lambda>error. Inr []), st1)"
        by (simp add: JLCPCBClient_search_try_def Let_def)
      with assms(1) have "and_then (response_text response) (\<lambda>error. Inr []) = Inr ps" by simp
      from and_then_Inr_nil [OF this] assms(2) show ?thesis by simp
    next
      case True
      with f tm Inr have "JLCPCBClient_search_try n2s w params st =
         (and_then (response_json response) (\<lambda>data.
            and_then (get data ''components'') (\<lambda>cs.
            and_then (js_map (\<lambda>component. JLCPCBClient_parseComponent n2s component params)
                        (or_else cs (Arr []))) (\<lambda>parsed.
            Inr (slice0 (limit_or (limit_q params) 10) (js_sort by_stock_then_price
              (filter (\<lambda>r. truthy (o_partNumber r) \<or> truthy (o_lcscPart r)) parsed)))))), st1)"
        by (simp add: JLCPCBClient_search_try_def Let_def)
      with assms(1) obtain cs parsed where
        "js_map (\<lambda>component. JLCPCBClient_parseComponent n2s component params)
            (or_else cs (Arr [])) = Inr parsed"
        "ps = slice0 (limit_or (limit_q params) 10) (js_sort by_stock_then_price
              (filter (\<lambda>r. truthy (o_partNumber r) \<or> truthy (o_lcscPart r)) parsed))"
        by (auto simp: and_then_Inr)
      then show ?thesis by blast
    qed
  qed
qed

lemma JLCPCBClient_search_origin:
  assumes "fst (JLCPCBClient_search n2s w params st) = Inr ps" and "p \<in> set ps"
  shows "(\<exists>c. JLCPCBClient_parseComponent n2s c params = Inr p) \<and>
         (truthy (o_partNumber p) \<or> truthy (o_lcscPart p))"
proof -
  obtain r st' where t: "JLCPCBClient_search_try n2s w params st = (r, st')"
    by (cases "JLCPCBClient_search_try n2s w params st")
  with assms(1) have "catch_empty r = Inr ps" by (simp add: JLCPCBClient_search_def)
  from catch_empty_mem [OF this assms(2)] have r: "r = Inr ps" .
  from assms(2) have ne: "ps \<noteq> []" by auto
  from t r have t': "JLCPCBClient_search_try n2s w params st = (Inr ps, st')" by simp
  let ?P = "\<lambda>r. truthy (o_partNumber r) \<or> truthy (o_lcscPart r)"
  from JLCPCBClient_search_try_results [OF t' ne]
  obtain v parsed where m: "js_map (\<lambda>c. JLCPCBClient_parseComponent n2s c params) v = Inr parsed"
    and ps: "ps = slice0 (limit_or (limit_q params) 10) (js_sort by_stock_then_price (filter ?P parsed))"
    by blast
  have "p \<in> set (slice0 (limit_or (limit_q params) 10) (js_sort by_stock_then_price (filter ?P parsed)))"
    using assms(2) unfolding ps .
  then have "p \<in> set (js_sort by_stock_then_price (filter ?P parsed))"
    by (rule subsetD [OF set_slice0])
  then have "p \<in> set (filter ?P parsed)"
    by (simp only: set_js_sort)
  then have mem: "p \<in> set parsed" and id: "?P p"
    by simp_all
  from js_map_mem [OF m mem] obtain c where "JLCPCBClient_parseComponent n2s c params = Inr p"
    by blast
  with id show ?thesis by blast
qed


lemma MouserClient_search_try_results:
  assumes "MouserClient_search_try n2s w params this st = (Inr ps, st')" and "ps \<noteq> []"
  shows "\<exists>v. js_map (\<lambda>c. MouserClient_parsePart n2s c params) v = Inr ps"
proof -
  let ?req = "MouserKeyword (apiKey this) (distributor_keyword params) (limit_or (limit_q params) 10)"
  have tm: "truthy_str (distributor_keyword params)"
  proof (rule ccontr)
    assume "\<not> truthy_str (distributor_keyword params)"
    then have "MouserClient_search_try n2s w params this st = (Inr [], st)"
      by (simp add: MouserClient_search_try_def Let_def)
    with assms show False by simp
  qed
  obtain fr st1 where f: "fetch w ?req st = (fr, st1)" by (cases "fetch w ?req st")
  show ?thesis
  proof (cases fr)
    case (Inl e)
    with f tm have "MouserClient_search_try n2s w params this st = (Inl e, st1)"
      by (simp add: MouserClient_search_try_def Let_def)
    with assms show ?thesis by simp
  next
    case (Inr response)
    show ?thesis
    proof (cases "ok response")
      case False
      with f tm Inr have "MouserClient_search_try n2s w params this st =
          (and_then (response_text response) (\<lambda>error. Inr []), st1)"
        by (simp add: MouserClient_search_try_def Let_def)
      with assms(1) have "and_then (response_text response) (\<lambda>error. Inr []) = Inr ps" by simp
      from and_then_Inr_nil [OF this] assms(2) show ?thesis by simp
    next
      case True
      with f tm Inr have "MouserClient_search_try n2s w params this st =
         (and_then (response_json response) (\<lambda>data.
            and_then (get data ''SearchResults'') (\<lambda>sr.
            js_map (\<lambda>part. MouserClient_parsePart n2s part params)
              (or_else (opt_chain sr ''Parts'') (Arr [])))), st1)"
        by (simp add: MouserClient_search_try_def Let_def)
      with assms(1) obtain sr where
        "js_map (\<lambda>part. MouserClient_parsePart n2s part params)
            (or_else (opt_chain sr ''Parts'') (Arr [])) = Inr ps"
        by (auto simp: and_then_Inr)
      then show ?thesis by blast
    qed
  qed
qed

lemma MouserClient_search_origin:
  assumes "fst (MouserClient_search n2s w params this st) = Inr ps" and "p \<in> set ps"
  shows "\<exists>c. MouserClient_parsePart n2s c params = Inr p"
proof -
  from assms(2) have ne: "ps \<noteq> []" by auto
  have conf: "MouserClient_isConfigured this"
  proof (rule ccontr)
    assume "\<not> MouserClient_isConfigured this"
    then have "MouserClient_search n2s w params this st = (Inr [], st)"
      by (simp add: MouserClient_search_def)
    with assms(1) ne show False by simp
  qed
  obtain r st' where t: "MouserClient_search_try n2s w params this st = (r, st')"
    by (cases "MouserClient_search_try n2s w params this st")
  with assms(1) conf have "catch_empty r = Inr ps" by (simp add: MouserClient_search_def)
  from catch_empty_mem [OF this assms(2)] have r: "r = Inr ps" .
  from t r have t': "MouserClient_search_try n2s w params this st = (Inr ps, st')" by simp
  from MouserClient_search_try_results [OF t' ne]
  obtain v where m: "js_map (\<lambda>c. MouserClient_parsePart n2s c params) v = Inr ps" by blast
  from js_map_mem [OF m assms(2)] show ?thesis .
qed

lemma JLCPCBClient_searchCategory_v2_origin:
  assumes "JLCPCBClient_searchCategory_v2 n2s fixed1 w category tm params st = (Inr rs, st')"
    and "p \<in> set rs"
  shows "\<exists>c. JLCPCBClient_parseComponent_v2 n2s fixed1 c params = Inr p"
proof -
  let ?req = "JLCCategoryList category tm (limit_or (limit_q params) 20)
                (jlcpcb_package_filter params)"
  let ?P = "\<lambda>r. truthy (o_partNumber r) \<or> truthy (o_lcscPart r)"
  let ?f = "\<lambda>c. JLCPCBClient_parseComponent_v2 n2s fixed1 c params"
  from assms(2) have ne: "rs \<noteq> []" by auto
  obtain fr st1 where f: "fetch w ?req st = (fr, st1)" by (cases "fetch w ?req st")
  show ?thesis
  proof (cases fr)
    case (Inl e)
    with f have "JLCPCBClient_searchCategory_v2 n2s fixed1 w category tm params st = (Inl e, st1)"
      by (simp add: JLCPCBClient_searchCategory_v2_def)
    with assms(1) show ?thesis by simp
  next
    case (Inr response)
    show ?thesis
    proof (cases "ok response")
      case False
      with f Inr have "JLCPCBClient_searchCategory_v2 n2s fixed1 w category tm params st =
          (and_then (response_text response) (\<lambda>error. Inr []), st1)"
        by (simp add: JLCPCBClient_searchCategory_v2_def)
      with assms(1) have "and_then (response_text response) (\<lambda>error. Inr []) = Inr rs" by simp
      from and_then_Inr_nil [OF this] ne show ?thesis by simp
    next
      case True
      with f Inr assms(1) obtain data cs where
        r: "(let components = or_else (or_else (or_else (or_else (or_else cs
                 (property data category)) (property data ''resistors''))
                 (property data ''capacitors'')) (property data ''items'')) (Arr [])
           in case components of
                Arr xs \<Rightarrow>
                  and_then (js_map ?f components) (\<lambda>parsed.
                  (let results = filter ?P parsed;
                       results = js_sort by_stock_then_price results
                   in Inr results))
              | _ \<Rightarrow> Inr []) = Inr rs"
        by (auto simp: JLCPCBClient_searchCategory_v2_def and_then_Inr)
      define components where "components = or_else (or_else (or_else (or_else (or_else cs
                 (property data category)) (property data ''resistors''))
                 (property data ''capacitors'')) (property data ''items'')) (Arr [])"
      show ?thesis
      proof (cases components)
        case (Arr xs)
        with r have "and_then (js_map ?f (Arr xs)) (\<lambda>parsed.
            Inr (js_sort by_stock_then_price (filter ?P parsed))) = Inr rs"
          by (simp add: components_def [symmetric] Let_def)
        then obtain parsed where m: "js_map ?f (Arr xs) = Inr parsed"
          and rs: "rs = js_sort by_stock_then_price (filter ?P parsed)"
          by (auto simp: and_then_Inr)
        from assms(2) have "p \<in> set (js_sort by_stock_then_price (filter ?P parsed))"
          unfolding rs .
        then have "p \<in> set (filter ?P parsed)" by (simp only: set_js_sort)
        then have "p \<in> set parsed" by simp
        from js_map_mem [OF m this] show ?thesis .
      qed (use r ne in \<open>simp_all add: components_def [symmetric] Let_def\<close>)
    qed
  qed
qed

lemma JLCPCBClient_search_v2_origin:
  assumes "fst (JLCPCBClient_search_v2 n2s fixed1 w params st) = Inr ps" and "p \<in> set ps"
  shows "\<exists>c. JLCPCBClient_parseComponent_v2 n2s fixed1 c params = Inr p"
proof -
  obtain r st' where t: "JLCPCBClient_search_try_v2 n2s fixed1 w params st = (r, st')"
    by (cases "JLCPCBClient_search_try_v2 n2s fixed1 w params st")
  with assms(1) have "catch_empty r = Inr ps" by (simp add: JLCPCBClient_search_v2_def)
  from catch_empty_mem [OF this assms(2)] have r: "r = Inr ps" .
  from assms(2) have ne: "ps \<noteq> []" by auto
  from t r have t': "JLCPCBClient_search_try_v2 n2s fixed1 w params st = (Inr ps, st')" by simp
  define tm where "tm = jlcpcb_search_term params"
  define category where
    "category = category_of (toLowerCase (str_or_empty (componentType_q params)))"
  have tr: "truthy_str tm"
  proof (rule ccontr)
    assume "\<not> truthy_str tm"
    then have "JLCPCBClient_search_try_v2 n2s fixed1 w params st = (Inr [], st)"
      by (simp add: JLCPCBClient_search_try_v2_def Let_def tm_def)
    with t' ne show False by simp
  qed
  obtain r1 st1 where c1:
    "JLCPCBClient_searchCategory_v2 n2s fixed1 w category tm params st = (r1, st1)"
    by (cases "JLCPCBClient_searchCategory_v2 n2s fixed1 w category tm params st")
  show ?thesis
  proof (cases r1)
    case (Inl e)
    with c1 tr have "JLCPCBClient_search_try_v2 n2s fixed1 w params st = (Inl e, st1)"
      by (simp add: JLCPCBClient_search_try_v2_def Let_def tm_def category_def)
    with t' show ?thesis by simp
  next
    case (Inr results)
    define second where "second =
      (if results = [] \<and> category = ''components''
       then if looksLikeResistor tm
            then JLCPCBClient_searchCategory_v2 n2s fixed1 w ''resistors'' tm params st1
            else if looksLikeCapacitor tm
            then JLCPCBClient_searchCategory_v2 n2s fixed1 w ''capacitors'' tm params st1
            else (Inr results, st1)
       else (Inr results, st1))"
    obtain r2 st2 where s2: "second = (r2, st2)" by (cases second)
    from c1 tr Inr have u: "JLCPCBClient_search_try_v2 n2s fixed1 w params st =
        (case second of
           (Inl e, st) \<Rightarrow> (Inl e, st)
         | (Inr results, st) \<Rightarrow> (Inr (slice0 (limit_or (limit_q params) 10) results), st))"
      by (simp add: JLCPCBClient_search_try_v2_def Let_def tm_def category_def second_def)
    show ?thesis
    proof (cases r2)
      case (Inl e)
      with u s2 t' show ?thesis by simp
    next
      case (Inr results2)
      note r2 = Inr
      with u s2 t' have ps: "ps = slice0 (limit_or (limit_q params) 10) results2" by simp
      have "p \<in> set (slice0 (limit_or (limit_q params) 10) results2)"
        using assms(2) unfolding ps .
      then have mem: "p \<in> set results2" by (rule subsetD [OF set_slice0])
      have "\<exists>cat stx sty. JLCPCBClient_searchCategory_v2 n2s fixed1 w cat tm params stx
              = (Inr results2, sty)"
      proof (cases "results = [] \<and> category = ''components''")
        case False
        with s2 r2 have "results2 = results" by (auto simp: second_def)
        with c1 \<open>r1 = Inr results\<close> show ?thesis by blast
      next
        case True
        note fallback = True
        show ?thesis
        proof (cases "looksLikeResistor tm")
          case True
          with fallback s2 r2 show ?thesis by (auto simp: second_def)
        next
          case False
          note nores = False
          show ?thesis
          proof (cases "looksLikeCapacitor tm")
            case True
            with fallback nores s2 r2 show ?thesis by (auto simp: second_def)
          next
            case False
            with fallback nores s2 r2 have "results2 = results" by (auto simp: second_def)
            with c1 \<open>r1 = Inr results\<close> show ?thesis by blast
          qed
        qed
      qed
      then obtain cat stx sty where
        "JLCPCBClient_searchCategory_v2 n2s fixed1 w cat tm params stx = (Inr results2, sty)"
        by blast
      from JLCPCBClient_searchCategory_v2_origin [OF this mem] show ?thesis .
    qed
  qed
qed

lemma MouserClient_search_try_v2_results:
  assumes "MouserClient_search_try_v2 n2s w params this st = (Inr ps, st')" and "ps \<noteq> []"
  shows "\<exists>v. js_map (\<lambda>c. MouserClient_parsePart_v2 n2s c params) v = Inr ps"
proof -
  let ?req = "MouserSearchKeyword (apiKey this) (distributor_keyword params)
                (limit_or (limit_q params) 10)"
  have tm: "truthy_str (distributor_keyword params)"
  proof (rule ccontr)
    assume "\<not> truthy_str (distributor_keyword params)"
    then have "MouserClient_search_try_v2 n2s w params this st = (Inr [], st)"
      by (simp add: MouserClient_search_try_v2_def Let_def)
    with assms show False by simp
  qed
  obtain fr st1 where f: "fetch w ?req st = (fr, st1)" by (cases "fetch w ?req st")
  show ?thesis
  proof (cases fr)
    case (Inl e)
    with f tm have "MouserClient_search_try_v2 n2s w params this st = (Inl e, st1)"
      by (simp add: MouserClient_search_try_v2_def Let_def)
    with assms show ?thesis by simp
  next
    case (Inr response)
    show ?thesis
    proof (cases "ok response")
      case False
      with f tm Inr have "MouserClient_search_try_v2 n2s w params this st =
          (and_then (response_text response) (\<lambda>error. Inr []), st1)"
        by (simp add: MouserClient_search_try_v2_def Let_def)
      with assms(1) have "and_then (response_text response) (\<lambda>error. Inr []) = Inr ps" by simp
      from and_then_Inr_nil [OF this] assms(2) show ?thesis by simp
    next
      case True
      with f tm Inr have "MouserClient_search_try_v2 n2s w params this st =
         (and_then (response_json response) (\<lambda>data.
            and_then (get data ''SearchResults'') (\<lambda>sr.
            js_map (\<lambda>part. MouserClient_parsePart_v2 n2s part params)
              (or_else (opt_chain sr ''Parts'') (Arr [])))), st1)"
        by (simp add: MouserClient_search_try_v2_def Let_def)
      with assms(1) obtain sr where
        "js_map (\<lambda>part. MouserClient_parsePart_v2 n2s part params)
            (or_else (opt_chain sr ''Parts'') (Arr [])) = Inr ps"
        by (auto simp: and_then_Inr)
      then show ?thesis by blast
    qed
  qed
qed

lemma MouserClient_search_v2_origin:
  assumes "fst (MouserClient_search_v2 n2s w params this st) = Inr ps" and "p \<in> set ps"
  shows "\<exists>c. MouserClient_parsePart_v2 n2s c params = Inr p"
proof -
  from assms(2) have ne: "ps \<noteq> []" by auto
  have conf: "MouserClient_isConfigured this"
  proof (rule ccontr)
    assume "\<not> MouserClient_isConfigured this"
    then have "MouserClient_search_v2 n2s w params this st = (Inr [], st)"
      by (simp add: MouserClient_search_v2_def)
    with assms(1) ne show False by simp
  qed
  obtain r st' where t: "MouserClient_search_try_v2 n2s w params this st = (r, st')"
    by (cases "MouserClient_search_try_v2 n2s w params this st")
  with assms(1) conf have "catch_empty r = Inr ps" by (simp add: MouserClient_search_v2_def)
  from catch_empty_mem [OF this assms(2)] have r: "r = Inr ps" .
  from t r have t': "MouserClient_search_try_v2 n2s w params this st = (Inr ps, st')" by simp
  from MouserClient_search_try_v2_results [OF t' ne]
  obtain v where m: "js_map (\<lambda>c. MouserClient_parsePart_v2 n2s c params) v = Inr ps" by blast
  from js_map_mem [OF m assms(2)] show ?thesis .
qed

lemma fetch_answer:
  assumes "fetch w req st = (Inr response, st')"
  shows "net w (length (sent st)) req = Response response"
  using assms by (cases "net w (length (sent st)) req") (simp_all add: fetch_def)

lemma js_map_nonempty:
  assumes "js_map f (or_else v (Arr [])) = Inr ps" and "ps \<noteq> []"
  shows "\<exists>xs. v = Arr xs \<and> all_or_error (map f xs) = Inr ps"
proof (cases "truthy v")
  case False
  with assms show ?thesis by (simp add: or_else_def js_map_def)
next
  case True
  with assms(1) have m: "js_map f v = Inr ps" by (simp add: or_else_def)
  then show ?thesis by (cases v) (simp_all add: js_map_def)
qed

lemma DigiKeyClient_search_try_upstream:
  assumes "DigiKeyClient_search_try n2s w params this st = (Inr ps, this', st')" and "ps \<noteq> []"
  shows "\<exists>n bearer response data products.
           net w n (DigiKeyKeyword bearer (distributor_keyword params) (limit_or (limit_q params) 10))
             = Response response \<and>
           body_json response = Some data \<and> property data ''Products'' = Arr products \<and>
           all_or_error (map (\<lambda>c. DigiKeyClient_parseProduct n2s c params) products) = Inr ps"
proof -
  obtain tr this1 st1 where g: "DigiKeyClient_getAccessToken n2s w this st = (tr, this1, st1)"
    by (cases "DigiKeyClient_getAccessToken n2s w this st") auto
  show ?thesis
  proof (cases tr)
    case (Inl e)
    with g have "DigiKeyClient_search_try n2s w params this st = (Inl e, this1, st1)"
      by (simp add: DigiKeyClient_search_try_def)
    with assms show ?thesis by simp
  next
    case (Inr token)
    note tok = Inr
    have tm: "truthy_str (distributor_keyword params)"
    proof (rule ccontr)
      assume "\<not> truthy_str (distributor_keyword params)"
      with g tok have "DigiKeyClient_search_try n2s w params this st = (Inr [], this1, st1)"
        by (simp add: DigiKeyClient_search_try_def Let_def)
      with assms show False by simp
    qed
    show ?thesis
    proof (cases "ToString n2s token")
      case (Inl e)
      with g tok tm have "DigiKeyClient_search_try n2s w params this st = (Inl e, this1, st1)"
        by (simp add: DigiKeyClient_search_try_def Let_def)
      with assms show ?thesis by simp
    next
      case (Inr bearer)
      note b = Inr
      let ?req = "DigiKeyKeyword (''Bearer '' @ bearer) (distributor_keyword params)
                    (limit_or (limit_q params) 10)"
      obtain fr st2 where f: "fetch w ?req st1 = (fr, st2)" by (cases "fetch w ?req st1")
      show ?thesis
      proof (cases fr)
        case (Inl e)
        with g tok tm b f have "DigiKeyClient_search_try n2s w params this st = (Inl e, this1, st2)"
          by (simp add: DigiKeyClient_search_try_def Let_def)
        with assms show ?thesis by simp
      next
        case (Inr response)
        with f have f': "fetch w ?req st1 = (Inr response, st2)" by simp
        show ?thesis
        proof (cases "ok response")
          case False
          with g tok tm b f Inr have "DigiKeyClient_search_try n2s w params this st =
              (and_then (response_text response) (\<lambda>error. Inr []), this1, st2)"
            by (simp add: DigiKeyClient_search_try_def Let_def)
          with assms(1) have "and_then (response_text response) (\<lambda>error. Inr []) = Inr ps" by simp
          from and_then_Inr_nil [OF this] assms(2) show ?thesis by simp
        next
          case True
          with g tok tm b f Inr have "DigiKeyClient_search_try n2s w params this st =
             (and_then (response_json response) (\<lambda>data.
                and_then (get data ''Products'') (\<lambda>ps.
                js_map (\<lambda>product. DigiKeyClient_parseProduct n2s product params)
                  (or_else ps (Arr [])))), this1, st2)"
            by (simp add: DigiKeyClient_search_try_def Let_def)
          with assms(1) obtain data v where j: "response_json response = Inr data"
            and p: "get data ''Products'' = Inr v"
            and m: "js_map (\<lambda>product. DigiKeyClient_parseProduct n2s product params)
                (or_else v (Arr [])) = Inr ps"
            by (auto simp: and_then_Inr)
          from j have body: "body_json response = Some data"
            by (cases "body_json response") (simp_all add: response_json_def)
          from p have v: "v = property data ''Products''"
            by (simp add: get_def split: if_splits)
          from js_map_nonempty [OF m assms(2)] obtain products where
            "v = Arr products"
            "all_or_error (map (\<lambda>c. DigiKeyClient_parseProduct n2s c params) products) = Inr ps"
            by blast
          with v body fetch_answer [OF f'] show ?thesis by metis
        qed
      qed
    qed
  qed
qed

lemma DigiKeyClient_search_upstream:
  assumes "fst (DigiKeyClient_search n2s w params this st) = Inr ps" and "p \<in> set ps"
  shows "\<exists>n bearer response data products product.
           net w n (DigiKeyKeyword bearer (distributor_keyword params) (limit_or (limit_q params) 10))
             = Response response \<and>
           body_json response = Some data \<and> property data ''Products'' = Arr products \<and>
           product \<in> set products \<and> DigiKeyClient_parseProduct n2s product params = Inr p"
proof -
  from assms(2) have ne: "ps \<noteq> []" by auto
  have conf: "DigiKeyClient_isConfigured this"
  proof (rule ccontr)
    assume "\<not> DigiKeyClient_isConfigured this"
    then have "DigiKeyClient_search n2s w params this st = (Inr [], this, st)"
      by (simp add: DigiKeyClient_search_def)
    with assms(1) ne show False by simp
  qed
  obtain r this' st' where t: "DigiKeyClient_search_try n2s w params this st = (r, this', st')"
    by (cases "DigiKeyClient_search_try n2s w params this st") auto
  with assms(1) conf have "catch_empty r = Inr ps" by (simp add: DigiKeyClient_search_def)
  from catch_empty_mem [OF this assms(2)] have r: "r = Inr ps" .
  from t r have t': "DigiKeyClient_search_try n2s w params this st = (Inr ps, this', st')" by simp
  from DigiKeyClient_search_try_upstream [OF t' ne]
  obtain n bearer response data products where
    u: "net w n (DigiKeyKeyword bearer (distributor_keyword params) (limit_or (limit_q params) 10))
          = Response response"
       "body_json response = Some data" "property data ''Products'' = Arr products"
    and m: "all_or_error (map (\<lambda>c. DigiKeyClient_parseProduct n2s c params) products) = Inr ps"
    by blast
  from all_or_error_mem [OF m assms(2)]
  obtain product where "product \<in> set products"
    "DigiKeyClient_parseProduct n2s product params = Inr p"
    by auto
  with u show ?thesis by blast
qed

subsection \<open>Evaluation of the examples\<close>

lemmas string_eval = trim_def trimStart_def trimEnd_def isSpace_def isDigit_def isWordChar_def
  startsWith_def truthy_str_def truthy_opt_def str_or_empty_def strip_commas_def

lemma number_of_real_small:
  "\<bar>r\<bar> < 1000000000000000000000 \<Longrightarrow> number_of_real r = Fin r"
proof -
  assume r: "\<bar>r\<bar> < 1000000000000000000000"
  have "(1000000000000000000000::real) < 2 ^ 970" by simp
  moreover have "(2::real) ^ 1024 = 2 ^ 970 * 2 ^ 54" by (simp only: power_add [symmetric]) simp
  then have "(2::real) ^ 970 \<le> overflow_bound" by (simp add: overflow_bound_def)
  ultimately have "1000000000000000000000 < overflow_bound" by simp
  with r have "\<not> overflow_bound \<le> r" and "\<not> r \<le> - overflow_bound" by linarith+
  then show ?thesis by (simp add: number_of_real_def)
qed

lemmas number_eval = parseInt_def parsed_integer_def is_radix_digit_def digit_value_def
  digits_value_def number_of_real_small
  parseFloat_def parse_decimal_def parse_unsigned_decimal_def parse_exponent_def pow10_def

lemmas js_eval = nullish_def or_else_def and_then_def get_def opt_chain_def js_map_def
  response_json_def response_text_def catch_empty_def fetch_def limit_or_def slice0_def
  js_sort_def field_of_def

lemmas jlcpcb_eval = JLCPCBClient_search_def JLCPCBClient_search_try_def
  JLCPCBClient_parseComponent_def jlcpcb_lcscPart_def jlcpcb_stock_def jlcpcb_price_def
  jlcpcb_url_def jlcpcb_search_term_def jlcpcb_package_filter_def by_stock_then_price_def
  the_number_def num_sub_def

lemmas mouser_eval = MouserClient_search_def MouserClient_search_try_def MouserClient_parsePart_def
  mouser_stock_def mouser_price_def MouserClient_isConfigured_def distributor_keyword_def
  first_digits_def greater_zero_def ToNumber_def

lemmas digikey_eval = DigiKeyClient_search_def DigiKeyClient_search_try_def
  DigiKeyClient_parseProduct_def digikey_unitPrice_def digikey_url_def package_case_def
  DigiKeyClient_extractSpecifications_def DigiKeyClient_getAccessToken_def
  DigiKeyClient_isConfigured_def distributor_keyword_def greater_zero_def ToNumber_def Date_now_def
  num_sub_def

lemma mouser_example:
  "\<exists>p. fst (MouserClient_search n2s (answering mouser_payload) scenario_params configured_mouser idle)
        = Inr [p] \<and> o_stock p = Num (Fin 1) \<and> o_price p = Num NaN"
  by (simp add: mouser_eval js_eval string_eval number_eval answering_def mouser_payload_def
      scenario_params_def idle_def configured_mouser_def Let_def)

lemma digikey_example:
  "\<exists>p. fst (DigiKeyClient_search n2s (answering digikey_payload) scenario_params configured_digikey idle)
        = Inr [p] \<and> o_stock p = Num (Fin 12000) \<and> o_price p = Undefined"
  by (simp add: digikey_eval js_eval string_eval number_eval answering_def digikey_payload_def
      scenario_params_def idle_def configured_digikey_def Let_def)

lemma catalog_search:
  "\<exists>p. fst (JLCPCBClient_search n2s (answering catalog_payload) scenario_params idle) = Inr [p]
     \<and> o_lcscPart p = Str ''C5137468'' \<and> o_stock p = Num (Fin 15900000)"
  by (simp add: jlcpcb_eval js_eval string_eval number_eval answering_def catalog_payload_def
      scenario_params_def idle_def Let_def)

lemma negative_search:
  "field_of o_stock (fst (JLCPCBClient_search integer_digits (answering negative_stock_payload)
       scenario_params idle)) = [Num (Fin (- 5))]"
  by (simp add: jlcpcb_eval js_eval string_eval number_eval answering_def negative_stock_payload_def
      scenario_params_def idle_def Let_def)


text \<open>
  The later revision on its examples. Its Mouser adapter reads a signed stock from
  \<^verbatim>\<open>AvailabilityInStock\<close>, so its stock has no bound below.
\<close>

lemmas v2_eval = JLCPCBClient_search_v2_def JLCPCBClient_search_try_v2_def
  JLCPCBClient_searchCategory_v2_def JLCPCBClient_parseComponent_v2_def jlcpcb_price_v2_def
  jlcpcb_description_v2_def category_of_def categoryEndpoints_def toFixed1_def ohm_sign_def
  MouserClient_search_v2_def MouserClient_search_try_v2_def MouserClient_parsePart_v2_def
  mouser_stock_v2_def mouser_price_v2_def number_or_zero_def toLowerCase_def lower_char_def
  num_to_string_def

lemma mouser_v2_example:
  "\<exists>p. fst (MouserClient_search_v2 n2s (answering (mouser_stock_payload ''1234'')) scenario_params
            configured_mouser idle) = Inr [p] \<and>
        o_stock p = Num (Fin 1234) \<and> o_price p = Num (Fin (205 / 100))"
  by (simp add: v2_eval mouser_eval js_eval string_eval number_eval answering_def
      mouser_stock_payload_def scenario_params_def idle_def configured_mouser_def Let_def)

lemma mouser_v2_negative_stock:
  "field_of o_stock (fst (MouserClient_search_v2 n2s (answering (mouser_stock_payload ''-5''))
       scenario_params configured_mouser idle)) = [Num (Fin (- 5))]"
  by (simp add: v2_eval mouser_eval js_eval string_eval number_eval answering_def
      mouser_stock_payload_def scenario_params_def idle_def configured_mouser_def Let_def)

lemma category_search:
  "\<exists>p. fst (JLCPCBClient_search_v2 integer_digits one_decimal (answering category_payload)
            scenario_params idle) = Inr [p] \<and>
        o_lcscPart p = Str ''C25744'' \<and> o_stock p = Num (Fin 3973198) \<and>
        o_price p = Num (Fin (5 / 10000)) \<and>
        o_description p = Str (''100000'' @ ohm_sign @ '' '' @ [CHR 0xB1] @ ''1.0%'')"
  by (simp add: v2_eval jlcpcb_eval js_eval string_eval number_eval answering_def
      category_payload_def scenario_params_def idle_def Let_def integer_digits_def one_decimal_def
      ToNumber_def StringToNumber_def radix_literal_def)

subsection \<open>The adapters never throw\<close>














subsection \<open>Identifiers of free-catalog parts\<close>



subsection \<open>The numeric fields of a part\<close>

lemma overflow_bound_pos: "0 < overflow_bound"
proof -
  have "(2::real) ^ 1024 = 2 ^ 970 * 2 ^ 54" by (simp only: power_add [symmetric]) simp
  moreover have "(1::real) < 2 ^ 54" by simp
  moreover have "(0::real) < 2 ^ 970" by simp
  ultimately have "(2::real) ^ 970 < 2 ^ 1024" by simp
  then show ?thesis by (simp add: overflow_bound_def)
qed

lemma number_of_real_cases:
  "number_of_real r = Fin r \<or> number_of_real r = PosInf \<or> number_of_real r = NegInf"
  by (simp add: number_of_real_def)

lemma number_of_real_nonneg:
  assumes "0 \<le> r"
  shows "number_of_real r = Fin r \<or> number_of_real r = PosInf"
proof -
  from assms overflow_bound_pos have "\<not> r \<le> - overflow_bound" by linarith
  then show ?thesis by (simp add: number_of_real_def)
qed

lemma integer_or_infinite_number_of_real: "integer_or_infinite (Num (number_of_real (of_int i)))"
  using number_of_real_cases [of "of_int i"]
  by (elim disjE) (simp_all add: integer_or_infinite_def)

lemma parseInt_integer_or_infinite:
  "parseInt s = NaN \<or> integer_or_infinite (Num (parseInt s))"
  by (cases "parsed_integer s") (simp_all add: parseInt_def integer_or_infinite_number_of_real)

lemma jlcpcb_stock_integer:
  assumes "jlcpcb_stock n2s component = Inr s"
  shows "integer_or_infinite (Num s)"
proof -
  let ?v = "or_else (or_else (property component ''stock'') (property component ''stockQty''))
              (property component ''quantity'')"
  show ?thesis
  proof (cases "truthy ?v")
    case False
    with assms have "s = Fin 0" by (simp add: jlcpcb_stock_def Let_def)
    then show ?thesis by (simp add: integer_or_infinite_def)
  next
    case True
    with assms obtain t where
      s: "s = (if parseInt (strip_commas t) \<noteq> NaN then parseInt (strip_commas t) else Fin 0)"
      by (auto simp: jlcpcb_stock_def Let_def and_then_Inr)
    show ?thesis
    proof (cases "parseInt (strip_commas t) = NaN")
      case True
      with s show ?thesis by (simp add: integer_or_infinite_def)
    next
      case False
      with s parseInt_integer_or_infinite [of "strip_commas t"] show ?thesis by simp
    qed
  qed
qed

lemma jlcpcb_price_defined:
  assumes "jlcpcb_price n2s component = Inr c"
  shows "c \<noteq> NaN"
proof -
  let ?v = "or_else (property component ''price'') (property component ''unit_price'')"
  show ?thesis
  proof (cases "truthy ?v")
    case False
    with assms show ?thesis by (auto simp: jlcpcb_price_def Let_def)
  next
    case True
    with assms obtain t where
      "c = (if parseFloat (strip_commas t) \<noteq> NaN then parseFloat (strip_commas t) else Fin 0)"
      by (auto simp: jlcpcb_price_def Let_def and_then_Inr)
    then show ?thesis by (simp split: if_splits)
  qed
qed

lemma jlcpcb_price_v2_defined:
  assumes "jlcpcb_price_v2 n2s component = Inr c"
  shows "c \<noteq> NaN"
proof -
  let ?v = "or_else (or_else (property component ''price'') (property component ''price1''))
              (property component ''unit_price'')"
  show ?thesis
  proof (cases "truthy ?v")
    case False
    with assms show ?thesis by (auto simp: jlcpcb_price_v2_def Let_def)
  next
    case True
    with assms obtain t where
      "c = (if parseFloat (strip_commas t) \<noteq> NaN then parseFloat (strip_commas t) else Fin 0)"
      by (auto simp: jlcpcb_price_v2_def Let_def and_then_Inr)
    then show ?thesis by (simp split: if_splits)
  qed
qed

lemma JLCPCBClient_parseComponent_numeric:
  assumes "JLCPCBClient_parseComponent n2s component params = Inr p"
  shows "integer_or_infinite (o_stock p) \<and> defined_number (o_price p)"
proof -
  from assms have nn: "\<not> nullish component"
    by (auto simp: JLCPCBClient_parseComponent_def split: if_splits)
  with assms obtain s c where s: "jlcpcb_stock n2s component = Inr s"
    and c: "jlcpcb_price n2s component = Inr c"
    and p: "o_stock p = Num s" "o_price p = Num c"
    by (auto simp: JLCPCBClient_parseComponent_def and_then_Inr Let_def)
  from jlcpcb_stock_integer [OF s] p(1) have "integer_or_infinite (o_stock p)" by simp
  moreover from jlcpcb_price_defined [OF c] p(2) have "defined_number (o_price p)"
    by (simp add: defined_number_def)
  ultimately show ?thesis by blast
qed

lemma JLCPCBClient_parseComponent_v2_numeric:
  assumes "JLCPCBClient_parseComponent_v2 n2s fixed1 component params = Inr p"
  shows "integer_or_infinite (o_stock p) \<and> defined_number (o_price p)"
proof -
  from assms have nn: "\<not> nullish component"
    by (auto simp: JLCPCBClient_parseComponent_v2_def split: if_splits)
  with assms obtain s c where s: "jlcpcb_stock n2s component = Inr s"
    and c: "jlcpcb_price_v2 n2s component = Inr c"
    and p: "o_stock p = Num s" "o_price p = Num c"
    by (auto simp: JLCPCBClient_parseComponent_v2_def and_then_Inr Let_def)
  from jlcpcb_stock_integer [OF s] p(1) have "integer_or_infinite (o_stock p)" by simp
  moreover from jlcpcb_price_v2_defined [OF c] p(2) have "defined_number (o_price p)"
    by (simp add: defined_number_def)
  ultimately show ?thesis by blast
qed

lemma isDigit_cases:
  "isDigit c \<longleftrightarrow> c = CHR ''0'' \<or> c = CHR ''1'' \<or> c = CHR ''2'' \<or> c = CHR ''3'' \<or> c = CHR ''4'' \<or>
     c = CHR ''5'' \<or> c = CHR ''6'' \<or> c = CHR ''7'' \<or> c = CHR ''8'' \<or> c = CHR ''9''"
  by (simp add: isDigit_def)

lemma digit_not_space: "isDigit c \<Longrightarrow> \<not> isSpace c"
  unfolding isDigit_cases by (elim disjE) (simp_all add: isSpace_def)

lemma digit_radix10: "isDigit c \<Longrightarrow> is_radix_digit 10 c"
  unfolding isDigit_cases by (elim disjE) (simp_all add: is_radix_digit_def digit_value_def)

lemma digit_no_sign:
  "isDigit c \<Longrightarrow> c \<noteq> CHR ''-'' \<and> c \<noteq> CHR ''+'' \<and> c \<noteq> CHR ''x'' \<and> c \<noteq> CHR ''X''"
  unfolding isDigit_cases by (elim disjE) simp_all

lemma first_digits_Some:
  assumes "first_digits s = Some ds"
  shows "ds \<noteq> [] \<and> list_all isDigit ds"
proof -
  from assms have ds: "ds = takeWhile isDigit (dropWhile (\<lambda>c. \<not> isDigit c) s)" and ne: "ds \<noteq> []"
    by (auto simp: first_digits_def Let_def split: if_splits)
  have "list_all isDigit (takeWhile isDigit xs)" for xs
    by (induction xs) simp_all
  with ds ne show ?thesis by simp
qed

lemma parsed_integer_digits:
  assumes "ds \<noteq> []" and "list_all isDigit ds"
  shows "parsed_integer ds = Some (int (digits_value 10 ds))"
proof -
  from assms obtain c cs where ds: "ds = c # cs" by (cases ds) auto
  with assms(2) have c: "isDigit c" and cs: "list_all isDigit cs" by simp_all
  have t: "trimStart ds = ds"
    using digit_not_space [OF c] by (simp add: trimStart_def ds)
  have sg: "\<not> startsWith ds ''-''" "\<not> startsWith ds ''+''"
    using digit_no_sign [OF c] by (simp_all add: startsWith_def ds)
  have hx: "\<not> startsWith ds ''0x''" "\<not> startsWith ds ''0X''"
  proof -
    show "\<not> startsWith ds ''0x''"
    proof (cases cs)
      case Nil then show ?thesis by (simp add: startsWith_def ds)
    next
      case (Cons d rest)
      with cs have "isDigit d" by simp
      with digit_no_sign [OF this] Cons show ?thesis by (simp add: startsWith_def ds)
    qed
    show "\<not> startsWith ds ''0X''"
    proof (cases cs)
      case Nil then show ?thesis by (simp add: startsWith_def ds)
    next
      case (Cons d rest)
      with cs have "isDigit d" by simp
      with digit_no_sign [OF this] Cons show ?thesis by (simp add: startsWith_def ds)
    qed
  qed
  have "list_all (is_radix_digit 10) ds"
    using assms(2) by (induction ds) (simp_all add: digit_radix10)
  then have tw: "takeWhile (is_radix_digit 10) ds = ds"
    by (simp add: list_all_iff)
  show ?thesis
    unfolding parsed_integer_def Let_def t by (simp add: sg hx tw assms(1))
qed

lemma mouser_stock_nonneg:
  assumes "mouser_stock part = Inr s"
  shows "integer_or_infinite (Num s) \<and> nonneg_number (Num s)"
proof -
  from assms obtain availability where
    a: "or_else (property part ''Availability'') (Str []) = Str availability"
    by (cases "or_else (property part ''Availability'') (Str [])") (simp_all add: mouser_stock_def)
  show ?thesis
  proof (cases "first_digits availability")
    case None
    with a assms have "s = Fin 0" by (simp add: mouser_stock_def)
    then show ?thesis by (simp add: integer_or_infinite_def nonneg_number_def)
  next
    case (Some ds)
    define n where "n = digits_value 10 ds"
    from first_digits_Some [OF Some] have "parsed_integer ds = Some (int n)"
      by (simp add: parsed_integer_digits n_def)
    then have "parseInt ds = number_of_real (of_int (int n))" by (simp add: parseInt_def)
    with a Some assms have s: "s = number_of_real (of_int (int n))"
      by (simp add: mouser_stock_def)
    have "(0::real) \<le> of_int (int n)" by simp
    from number_of_real_nonneg [OF this] have "nonneg_number (Num s)"
      unfolding s by (elim disjE) (simp_all add: nonneg_number_def)
    moreover have "integer_or_infinite (Num s)"
      unfolding s by (rule integer_or_infinite_number_of_real)
    ultimately show ?thesis by blast
  qed
qed

lemma MouserClient_parsePart_stock:
  assumes "MouserClient_parsePart n2s part params = Inr p"
  shows "integer_or_infinite (o_stock p) \<and> nonneg_number (o_stock p)"
proof -
  from assms have nn: "\<not> nullish part"
    by (auto simp: MouserClient_parsePart_def split: if_splits)
  with assms obtain s where s: "mouser_stock part = Inr s" and p: "o_stock p = Num s"
    by (auto simp: MouserClient_parsePart_def and_then_Inr)
  from mouser_stock_nonneg [OF s] p show ?thesis by simp
qed

lemma number_or_zero_defined: "number_or_zero n \<noteq> NaN"
  by (simp add: number_or_zero_def)

lemma mouser_stock_v2_integer:
  assumes "mouser_stock_v2 n2s part = Inr s"
  shows "integer_or_infinite (Num s)"
proof (cases "truthy (property part ''AvailabilityInStock'')")
  case False
  with assms have "mouser_stock part = Inr s" by (simp add: mouser_stock_v2_def)
  from mouser_stock_nonneg [OF this] show ?thesis by simp
next
  case True
  with assms obtain t where s: "s = number_or_zero (parseInt t)"
    by (auto simp: mouser_stock_v2_def and_then_Inr)
  show ?thesis
  proof (cases "parseInt t = NaN \<or> parseInt t = Fin 0")
    case True
    with s have "s = Fin 0" by (simp add: number_or_zero_def)
    then show ?thesis by (simp add: integer_or_infinite_def)
  next
    case False
    with s have "s = parseInt t" by (simp add: number_or_zero_def)
    with False parseInt_integer_or_infinite [of t] show ?thesis by simp
  qed
qed

lemma mouser_price_v2_defined:
  assumes "mouser_price_v2 n2s part = Inr c"
  shows "c \<noteq> NaN"
proof -
  let ?priceBreaks = "or_else (property part ''PriceBreaks'') (Arr [])"
  from assms obtain some_breaks where
    c: "(if some_breaks
         then and_then (get (index0 ?priceBreaks) ''Price'') (\<lambda>p.
              case or_else p (Str ''0'') of
                Str priceStr \<Rightarrow>
                  (let cleanPrice = filter (\<lambda>c. c \<noteq> CHR ''$'' \<and> c \<noteq> CHR '','') priceStr
                   in Inr (number_or_zero (parseFloat cleanPrice)))
              | _ \<Rightarrow> Inl TypeError)
         else Inr (Fin 0)) = Inr c"
    by (auto simp: mouser_price_v2_def Let_def and_then_Inr)
  show ?thesis
  proof (cases some_breaks)
    case False
    with c show ?thesis by auto
  next
    case True
    with c obtain p where
      p: "(case or_else p (Str ''0'') of
                Str priceStr \<Rightarrow>
                  (let cleanPrice = filter (\<lambda>c. c \<noteq> CHR ''$'' \<and> c \<noteq> CHR '','') priceStr
                   in Inr (number_or_zero (parseFloat cleanPrice)))
              | _ \<Rightarrow> Inl TypeError) = Inr c"
      by (auto simp: and_then_Inr)
    show ?thesis
    proof (cases "or_else p (Str ''0'')")
      case (Str priceStr)
      with p have "c = number_or_zero (parseFloat
          (filter (\<lambda>c. c \<noteq> CHR ''$'' \<and> c \<noteq> CHR '','') priceStr))"
        by (simp add: Let_def)
      then show ?thesis by (simp add: number_or_zero_defined)
    qed (use p in simp_all)
  qed
qed

lemma MouserClient_parsePart_v2_numeric:
  assumes "MouserClient_parsePart_v2 n2s part params = Inr p"
  shows "integer_or_infinite (o_stock p) \<and> defined_number (o_price p)"
proof -
  from assms have nn: "\<not> nullish part"
    by (auto simp: MouserClient_parsePart_v2_def split: if_splits)
  with assms obtain s c where s: "mouser_stock_v2 n2s part = Inr s"
    and c: "mouser_price_v2 n2s part = Inr c"
    and p: "o_stock p = Num s" "o_price p = Num c"
    by (auto simp: MouserClient_parsePart_v2_def and_then_Inr)
  from mouser_stock_v2_integer [OF s] p(1) have "integer_or_infinite (o_stock p)" by simp
  moreover from mouser_price_v2_defined [OF c] p(2) have "defined_number (o_price p)"
    by (simp add: defined_number_def)
  ultimately show ?thesis by blast
qed

lemma DigiKeyClient_parseProduct_stock:
  assumes "DigiKeyClient_parseProduct n2s product params = Inr p"
  shows "o_stock p = (if truthy (property product ''QuantityAvailable'')
                      then property product ''QuantityAvailable'' else Num (Fin 0))"
proof -
  from assms have nn: "\<not> nullish product"
    by (auto simp: DigiKeyClient_parseProduct_def split: if_splits)
  with assms have "o_stock p = or_else (property product ''QuantityAvailable'') (Num (Fin 0))"
    by (auto simp: DigiKeyClient_parseProduct_def and_then_Inr)
  then show ?thesis by (simp add: or_else_def)
qed

text \<open>
  A run of digits beyond the range of doubles: the stock that the free-catalog adapter
  stores for it is \<^verbatim>\<open>Infinity\<close>.
\<close>

lemma foldl_digits_zeros:
  "foldl (\<lambda>acc c. acc * 10 + (case digit_value c of None \<Rightarrow> 0 | Some d \<Rightarrow> d)) a
     (replicate n (CHR ''0'')) = a * 10 ^ n"
  by (induction n arbitrary: a) (simp_all add: digit_value_def)

lemma digits_value_one_zeros: "digits_value 10 (CHR ''1'' # replicate n (CHR ''0'')) = 10 ^ n"
proof -
  have "digit_value CHR ''1'' = Some 1" by (simp add: digit_value_def)
  then have "digits_value 10 (CHR ''1'' # replicate n (CHR ''0'')) =
      foldl (\<lambda>acc c. acc * 10 + (case digit_value c of None \<Rightarrow> 0 | Some d \<Rightarrow> d)) 1
        (replicate n (CHR ''0''))"
    by (simp add: digits_value_def)
  also have "\<dots> = 1 * 10 ^ n" by (rule foldl_digits_zeros)
  finally show ?thesis by simp
qed

lemma parseInt_overflow: "parseInt (CHR ''1'' # replicate 309 (CHR ''0'')) = PosInf"
proof -
  let ?ds = "CHR ''1'' # replicate 309 (CHR ''0'')"
  have "list_all isDigit ?ds" by (simp add: isDigit_def list_all_iff)
  then have "parsed_integer ?ds = Some (int (digits_value 10 ?ds))"
    by (intro parsed_integer_digits) simp_all
  moreover have "digits_value 10 ?ds = 10 ^ 309"
    by (rule digits_value_one_zeros)
  ultimately have p: "parseInt ?ds = number_of_real (10 ^ 309)" by (simp add: parseInt_def)
  have "(2::real) ^ 1024 \<le> 10 ^ 309" by simp
  then have "overflow_bound \<le> 10 ^ 309" by (simp add: overflow_bound_def)
  with p show ?thesis by (simp add: number_of_real_def)
qed

lemma jlcpcb_stock_overflow:
  "jlcpcb_stock n2s (Obj [(''stock'', Str (CHR ''1'' # replicate 309 (CHR ''0'')))]) = Inr PosInf"
proof -
  have "strip_commas (CHR ''1'' # replicate 309 (CHR ''0'')) = CHR ''1'' # replicate 309 (CHR ''0'')"
    by (simp add: strip_commas_def)
  then show ?thesis
    by (simp add: jlcpcb_stock_def or_else_def and_then_def parseInt_overflow Let_def)
qed

text \<open>
  C3 as stated (stock and price of every part of every adapter are well-defined and not
  negative) fails: the free-catalog adapter keeps the sign of what it parses, so an
  upstream stock of \<open>-5\<close> gives a part with stock \<open>-5\<close>.
\<close>

theorem negative_stock_counterexample:
  "field_of o_stock (fst (JLCPCBClient_search integer_digits (answering negative_stock_payload)
       scenario_params idle)) = [Num (Fin (- 5))] \<and>
   \<not> nonneg_integer (Num (Fin (- 5)))"
  by (simp add: negative_search nonneg_integer_def)

text \<open>
  C3, amended. Whatever the upstream payload is, in both revisions of the adapters:
  a part returned by the free-catalog search has a stock that is an integer or an
  infinity, of either sign, and a price that is a number other than \<^verbatim>\<open>NaN\<close>; a part
  returned by the Mouser search has a stock that is an integer or an infinity, which in the
  first revision is not below 0, and in the later revision a price that is a number other
  than \<^verbatim>\<open>NaN\<close>; a part returned by the Digi-Key search was parsed from a product of
  the answer to the keyword request, and its stock is the \<^verbatim>\<open>QuantityAvailable\<close> of that
  product as received when that is truthy, and 0 otherwise. Nothing is claimed of the
  price of a Digi-Key part or of a Mouser part of the first revision.
\<close>

theorem adapter_numeric_fields:
  "(fst (JLCPCBClient_search n2s w params st) = Inr ps \<and> p \<in> set ps \<longrightarrow>
      integer_or_infinite (o_stock p) \<and> defined_number (o_price p)) \<and>
   (fst (JLCPCBClient_search_v2 n2s fixed1 w params st) = Inr ps \<and> p \<in> set ps \<longrightarrow>
      integer_or_infinite (o_stock p) \<and> defined_number (o_price p)) \<and>
   (fst (MouserClient_search n2s w params mo st) = Inr ps \<and> p \<in> set ps \<longrightarrow>
      integer_or_infinite (o_stock p) \<and> nonneg_number (o_stock p)) \<and>
   (fst (MouserClient_search_v2 n2s w params mo st) = Inr ps \<and> p \<in> set ps \<longrightarrow>
      integer_or_infinite (o_stock p) \<and> defined_number (o_price p)) \<and>
   (fst (DigiKeyClient_search n2s w params dk st) = Inr ps \<and> p \<in> set ps \<longrightarrow>
      (\<exists>n bearer response data products product.
         net w n (DigiKeyKeyword bearer (distributor_keyword params) (limit_or (limit_q params) 10))
           = Response response \<and>
         body_json response = Some data \<and> property data ''Products'' = Arr products \<and>
         product \<in> set products \<and>
         o_stock p = (if truthy (property product ''QuantityAvailable'')
                      then property product ''QuantityAvailable'' else Num (Fin 0))))"
proof (intro conjI impI)
  assume "fst (JLCPCBClient_search n2s w params st) = Inr ps \<and> p \<in> set ps"
  then obtain c where "JLCPCBClient_parseComponent n2s c params = Inr p"
    using JLCPCBClient_search_origin by blast
  from JLCPCBClient_parseComponent_numeric [OF this]
  show "integer_or_infinite (o_stock p)" and "defined_number (o_price p)" by simp_all
next
  assume "fst (JLCPCBClient_search_v2 n2s fixed1 w params st) = Inr ps \<and> p \<in> set ps"
  then obtain c where "JLCPCBClient_parseComponent_v2 n2s fixed1 c params = Inr p"
    using JLCPCBClient_search_v2_origin by blast
  from JLCPCBClient_parseComponent_v2_numeric [OF this]
  show "integer_or_infinite (o_stock p)" and "defined_number (o_price p)" by simp_all
next
  assume "fst (MouserClient_search n2s w params mo st) = Inr ps \<and> p \<in> set ps"
  then obtain c where "MouserClient_parsePart n2s c params = Inr p"
    using MouserClient_search_origin by blast
  from MouserClient_parsePart_stock [OF this]
  show "integer_or_infinite (o_stock p)" and "nonneg_number (o_stock p)" by simp_all
next
  assume "fst (MouserClient_search_v2 n2s w params mo st) = Inr ps \<and> p \<in> set ps"
  then obtain c where "MouserClient_parsePart_v2 n2s c params = Inr p"
    using MouserClient_search_v2_origin by blast
  from MouserClient_parsePart_v2_numeric [OF this]
  show "integer_or_infinite (o_stock p)" and "defined_number (o_price p)" by simp_all
next
  assume a: "fst (DigiKeyClient_search n2s w params dk st) = Inr ps \<and> p \<in> set ps"
  then have s: "fst (DigiKeyClient_search n2s w params dk st) = Inr ps" and m: "p \<in> set ps"
    by simp_all
  from DigiKeyClient_search_upstream [OF s m]
  obtain n bearer response data products product where
    u: "net w n (DigiKeyKeyword bearer (distributor_keyword params) (limit_or (limit_q params) 10))
          = Response response"
       "body_json response = Some data" "property data ''Products'' = Arr products"
       "product \<in> set products"
    and pp: "DigiKeyClient_parseProduct n2s product params = Inr p"
    by blast
  from DigiKeyClient_parseProduct_stock [OF pp] u
  show "\<exists>n bearer response data products product.
         net w n (DigiKeyKeyword bearer (distributor_keyword params) (limit_or (limit_q params) 10))
           = Response response \<and>
         body_json response = Some data \<and> property data ''Products'' = Arr products \<and>
         product \<in> set products \<and>
         o_stock p = (if truthy (property product ''QuantityAvailable'')
                      then property product ''QuantityAvailable'' else Num (Fin 0))"
    by blast
qed

theorem adapter_numeric_fields_witness:
  "(\<exists>p. fst (JLCPCBClient_search integer_digits (answering catalog_payload) scenario_params idle)
          = Inr [p] \<and> o_stock p = Num (Fin 15900000) \<and>
        integer_or_infinite (o_stock p) \<and> defined_number (o_price p)) \<and>
   (\<exists>p. fst (JLCPCBClient_search_v2 integer_digits one_decimal (answering category_payload)
            scenario_params idle) = Inr [p] \<and> o_stock p = Num (Fin 3973198) \<and>
        integer_or_infinite (o_stock p) \<and> defined_number (o_price p)) \<and>
   (\<exists>p. fst (MouserClient_search integer_digits (answering mouser_payload) scenario_params
            configured_mouser idle) = Inr [p] \<and> o_stock p = Num (Fin 1) \<and>
        integer_or_infinite (o_stock p) \<and> nonneg_number (o_stock p)) \<and>
   (\<exists>p. fst (MouserClient_search_v2 integer_digits (answering (mouser_stock_payload ''1234''))
            scenario_params configured_mouser idle) = Inr [p] \<and> o_stock p = Num (Fin 1234) \<and>
        integer_or_infinite (o_stock p) \<and> defined_number (o_price p)) \<and>
   (\<exists>p. fst (DigiKeyClient_search integer_digits (answering digikey_payload) scenario_params
            configured_digikey idle) = Inr [p] \<and> o_stock p = Num (Fin 12000) \<and>
        (\<exists>product. product \<in> set (case property digikey_payload ''Products'' of Arr xs \<Rightarrow> xs | _ \<Rightarrow> []) \<and>
           property product ''QuantityAvailable'' = o_stock p))"
proof (intro conjI)
  from catalog_search [of integer_digits] obtain p where
    p: "fst (JLCPCBClient_search integer_digits (answering catalog_payload) scenario_params idle)
          = Inr [p]" "o_stock p = Num (Fin 15900000)" by blast
  from adapter_numeric_fields [of integer_digits "answering catalog_payload" scenario_params idle
      "[p]" p one_decimal configured_mouser configured_digikey] p(1)
  have "integer_or_infinite (o_stock p) \<and> defined_number (o_price p)" by simp
  with p show "\<exists>p. fst (JLCPCBClient_search integer_digits (answering catalog_payload)
          scenario_params idle) = Inr [p] \<and> o_stock p = Num (Fin 15900000) \<and>
        integer_or_infinite (o_stock p) \<and> defined_number (o_price p)" by blast
next
  from category_search obtain p where
    p: "fst (JLCPCBClient_search_v2 integer_digits one_decimal (answering category_payload)
            scenario_params idle) = Inr [p]" "o_stock p = Num (Fin 3973198)" by blast
  from adapter_numeric_fields [of integer_digits "answering category_payload" scenario_params idle
      "[p]" p one_decimal configured_mouser configured_digikey] p(1)
  have "integer_or_infinite (o_stock p) \<and> defined_number (o_price p)" by simp
  with p show "\<exists>p. fst (JLCPCBClient_search_v2 integer_digits one_decimal
          (answering category_payload) scenario_params idle) = Inr [p] \<and>
        o_stock p = Num (Fin 3973198) \<and>
        integer_or_infinite (o_stock p) \<and> defined_number (o_price p)" by blast
next
  from mouser_example [of integer_digits] obtain p where
    p: "fst (MouserClient_search integer_digits (answering mouser_payload) scenario_params
            configured_mouser idle) = Inr [p]" "o_stock p = Num (Fin 1)" by blast
  from adapter_numeric_fields [of integer_digits "answering mouser_payload" scenario_params idle
      "[p]" p one_decimal configured_mouser configured_digikey] p(1)
  have "integer_or_infinite (o_stock p) \<and> nonneg_number (o_stock p)" by simp
  with p show "\<exists>p. fst (MouserClient_search integer_digits (answering mouser_payload)
        scenario_params configured_mouser idle) = Inr [p] \<and> o_stock p = Num (Fin 1) \<and>
        integer_or_infinite (o_stock p) \<and> nonneg_number (o_stock p)" by blast
next
  from mouser_v2_example [of integer_digits] obtain p where
    p: "fst (MouserClient_search_v2 integer_digits (answering (mouser_stock_payload ''1234''))
            scenario_params configured_mouser idle) = Inr [p]" "o_stock p = Num (Fin 1234)"
    by blast
  from adapter_numeric_fields [of integer_digits "answering (mouser_stock_payload ''1234'')"
      scenario_params idle "[p]" p one_decimal configured_mouser configured_digikey] p(1)
  have "integer_or_infinite (o_stock p) \<and> defined_number (o_price p)" by simp
  with p show "\<exists>p. fst (MouserClient_search_v2 integer_digits
        (answering (mouser_stock_payload ''1234'')) scenario_params configured_mouser idle)
          = Inr [p] \<and> o_stock p = Num (Fin 1234) \<and>
        integer_or_infinite (o_stock p) \<and> defined_number (o_price p)" by blast
next
  from digikey_example [of integer_digits] obtain p where
    p: "fst (DigiKeyClient_search integer_digits (answering digikey_payload) scenario_params
            configured_digikey idle) = Inr [p]" "o_stock p = Num (Fin 12000)" by blast
  from adapter_numeric_fields [of integer_digits "answering digikey_payload" scenario_params idle
      "[p]" p one_decimal configured_mouser configured_digikey] p(1)
  have "\<exists>n bearer response data products product.
       net (answering digikey_payload) n
          (DigiKeyKeyword bearer (distributor_keyword scenario_params)
             (limit_or (limit_q scenario_params) 10)) = Response response \<and>
       body_json response = Some data \<and> property data ''Products'' = Arr products \<and>
       product \<in> set products \<and>
       o_stock p = (if truthy (property product ''QuantityAvailable'')
                      then property product ''QuantityAvailable'' else Num (Fin 0))"
    by simp
  then obtain n bearer response data products product where
    u: "net (answering digikey_payload) n
          (DigiKeyKeyword bearer (distributor_keyword scenario_params)
             (limit_or (limit_q scenario_params) 10)) = Response response"
       "body_json response = Some data" "property data ''Products'' = Arr products"
       "product \<in> set products"
       "o_stock p = (if truthy (property product ''QuantityAvailable'')
                      then property product ''QuantityAvailable'' else Num (Fin 0))"
    by blast
  from u(1,2) have "data = digikey_payload" by (auto simp: answering_def)
  with u(3,4) have mem: "product \<in> set (case property digikey_payload ''Products'' of
      Arr xs \<Rightarrow> xs | _ \<Rightarrow> [])" by simp
  from u(5) p(2) have "property product ''QuantityAvailable'' = o_stock p"
    by (simp split: if_splits)
  with mem p show "\<exists>p. fst (DigiKeyClient_search integer_digits (answering digikey_payload)
        scenario_params configured_digikey idle) = Inr [p] \<and> o_stock p = Num (Fin 12000) \<and>
        (\<exists>product. product \<in> set (case property digikey_payload ''Products'' of
            Arr xs \<Rightarrow> xs | _ \<Rightarrow> []) \<and>
           property product ''QuantityAvailable'' = o_stock p)" by blast
qed

end
